theory Spec2Isabelle
  imports Complex_Main "HOL-Library.Sublist"
begin

section \<open>JavaScript values used by the district data engine\<close>

text \<open>
  Strings are lists of characters; a character stands for a UTF-16 code unit below 256.
  Numbers are IEEE doubles in the source. The model keeps the four kinds of double that the
  code can tell apart (not-a-number, finite, and the two infinities) and takes a finite
  double as the rational it denotes. Every operation computes the exact result and rounds it
  to the nearest double, a tie going to the even significand; the sign of zero is not
  modelled.
\<close>

datatype jsnum = NaN | Fin rat | PInf | NInf

text \<open>The number of binary digits of a positive integer.\<close>

function bitLength :: "int \<Rightarrow> int" where
  "bitLength n = (if n \<le> 0 then 0 else bitLength (n div 2) + 1)"
  by auto
termination by (relation "measure nat") auto

declare bitLength.simps [simp del]

definition power2 :: "int \<Rightarrow> rat" where
  "power2 e = (if 0 \<le> e then 2 ^ nat e else 1 / 2 ^ nat (- e))"

text \<open>The exponent \<open>e\<close> with \<open>2\<^sup>e \<le> q < 2\<^sup>e\<^sup>+\<^sup>1\<close>, for a positive \<open>q\<close>.\<close>

definition binaryExponent :: "rat \<Rightarrow> int" where
  "binaryExponent q =
     (let k = bitLength (fst (quotient_of q)) - bitLength (snd (quotient_of q))
      in if power2 k \<le> q then k else k - 1)"

definition roundHalfEven :: "rat \<Rightarrow> int" where
  "roundHalfEven x =
     (let n = \<lfloor>x\<rfloor>; d = x - rat_of_int n
      in if d < 1 / 2 then n else if 1 / 2 < d then n + 1 else if even n then n else n + 1)"

text \<open>
  The double nearest to a rational: 53 significant binary digits, the spacing of the
  subnormal numbers below \<open>2\<^sup>-\<^sup>1\<^sup>0\<^sup>2\<^sup>2\<close>, an infinity from \<open>2\<^sup>1\<^sup>0\<^sup>2\<^sup>4\<close> on.
\<close>

definition roundDouble :: "rat \<Rightarrow> jsnum" where
  "roundDouble q =
     (if q = 0 then Fin 0
      else (let a = \<bar>q\<bar>;
                ulp = power2 (max (binaryExponent a) (- 1022) - 52);
                r = rat_of_int (roundHalfEven (a / ulp)) * ulp
            in if 1024 \<le> binaryExponent r then (if q < 0 then NInf else PInf)
               else Fin (if q < 0 then - r else r)))"

text \<open>The operator \<open>/\<close> on numbers; a zero divisor is read as \<open>+0\<close>.\<close>

fun jsdiv :: "jsnum \<Rightarrow> jsnum \<Rightarrow> jsnum" where
  "jsdiv NaN _ = NaN"
| "jsdiv _ NaN = NaN"
| "jsdiv (Fin a) (Fin b) =
     (if b = 0 then (if a = 0 then NaN else if 0 < a then PInf else NInf)
      else roundDouble (a / b))"
| "jsdiv (Fin a) PInf = Fin 0"
| "jsdiv (Fin a) NInf = Fin 0"
| "jsdiv PInf (Fin b) = (if 0 \<le> b then PInf else NInf)"
| "jsdiv NInf (Fin b) = (if 0 \<le> b then NInf else PInf)"
| "jsdiv PInf PInf = NaN"
| "jsdiv PInf NInf = NaN"
| "jsdiv NInf PInf = NaN"
| "jsdiv NInf NInf = NaN"

text \<open>The operator \<open><\<close> on numbers: false as soon as one side is not a number.\<close>

fun jslt :: "jsnum \<Rightarrow> jsnum \<Rightarrow> bool" where
  "jslt NaN _ = False"
| "jslt _ NaN = False"
| "jslt (Fin a) (Fin b) = (a < b)"
| "jslt (Fin a) PInf = True"
| "jslt (Fin a) NInf = False"
| "jslt PInf _ = False"
| "jslt NInf (Fin b) = True"
| "jslt NInf PInf = True"
| "jslt NInf NInf = False"

definition jsgt :: "jsnum \<Rightarrow> jsnum \<Rightarrow> bool" where
  "jsgt a b = jslt b a"

text \<open>The operator \<open>+\<close> on numbers.\<close>

fun jsadd :: "jsnum \<Rightarrow> jsnum \<Rightarrow> jsnum" where
  "jsadd NaN _ = NaN"
| "jsadd _ NaN = NaN"
| "jsadd (Fin a) (Fin b) = roundDouble (a + b)"
| "jsadd (Fin a) PInf = PInf"
| "jsadd (Fin a) NInf = NInf"
| "jsadd PInf (Fin b) = PInf"
| "jsadd NInf (Fin b) = NInf"
| "jsadd PInf PInf = PInf"
| "jsadd NInf NInf = NInf"
| "jsadd PInf NInf = NaN"
| "jsadd NInf PInf = NaN"

text \<open>The operator \<open>*\<close> on numbers.\<close>

fun jsmul :: "jsnum \<Rightarrow> jsnum \<Rightarrow> jsnum" where
  "jsmul NaN _ = NaN"
| "jsmul _ NaN = NaN"
| "jsmul (Fin a) (Fin b) = roundDouble (a * b)"
| "jsmul (Fin a) PInf = (if a = 0 then NaN else if 0 < a then PInf else NInf)"
| "jsmul (Fin a) NInf = (if a = 0 then NaN else if 0 < a then NInf else PInf)"
| "jsmul PInf (Fin b) = (if b = 0 then NaN else if 0 < b then PInf else NInf)"
| "jsmul NInf (Fin b) = (if b = 0 then NaN else if 0 < b then NInf else PInf)"
| "jsmul PInf PInf = PInf"
| "jsmul NInf NInf = PInf"
| "jsmul PInf NInf = NInf"
| "jsmul NInf PInf = NInf"

section \<open>Strings\<close>

abbreviation newline :: char where
  "newline \<equiv> CHR 0x0A"

abbreviation dquote :: char where
  "dquote \<equiv> CHR 0x22"

abbreviation comma :: char where
  "comma \<equiv> CHR 0x2C"

text \<open>
  The white space that \<^verbatim>\<open>trim\<close> and \<^verbatim>\<open>parseFloat\<close> strip, among the code units below
  256: TAB, LF, VT, FF, CR, SP and NBSP.
\<close>

definition isWhiteSpace :: "char \<Rightarrow> bool" where
  "isWhiteSpace c = (c \<in> set [CHR 0x09, CHR 0x0A, CHR 0x0B, CHR 0x0C, CHR 0x0D, CHR 0x20, CHR 0xA0])"

definition trimStart :: "string \<Rightarrow> string" where
  "trimStart s = dropWhile isWhiteSpace s"

definition trimEnd :: "string \<Rightarrow> string" where
  "trimEnd s = rev (dropWhile isWhiteSpace (rev s))"

definition trim :: "string \<Rightarrow> string" where
  "trim s = trimEnd (trimStart s)"

text \<open>\<^verbatim>\<open>s.split(sep)\<close> for a separator of one character: never an empty list.\<close>

fun split_str :: "char \<Rightarrow> string \<Rightarrow> string list" where
  "split_str sep [] = [[]]"
| "split_str sep (c # cs) =
     (if c = sep then [] # split_str sep cs
      else (case split_str sep cs of
              [] \<Rightarrow> [[c]]
            | l # ls \<Rightarrow> (c # l) # ls))"

text \<open>\<^verbatim>\<open>s.toLowerCase()\<close> on code units below 256.\<close>

definition toLowerChar :: "char \<Rightarrow> char" where
  "toLowerChar c =
     (let n = (of_char c :: nat) in
      if (65 \<le> n \<and> n \<le> 90) \<or> (192 \<le> n \<and> n \<le> 222 \<and> n \<noteq> 215) then char_of (n + 32) else c)"

definition toLowerCase :: "string \<Rightarrow> string" where
  "toLowerCase s = map toLowerChar s"

text \<open>\<^verbatim>\<open>s.startsWith(p)\<close> is \<^const>\<open>prefix\<close>; \<^verbatim>\<open>s.includes(p)\<close>:\<close>

fun includes_str :: "string \<Rightarrow> string \<Rightarrow> bool" where
  "includes_str [] p = (p = [])"
| "includes_str (c # cs) p = (prefix p (c # cs) \<or> includes_str cs p)"

section \<open>Plain objects as dictionaries\<close>

text \<open>
  An object literal \<^verbatim>\<open>{}\<close> used as a dictionary is a map from property names to values.
  Assigning to a property creates or overwrites it, except for the name \<^verbatim>\<open>__proto__\<close>: that
  one is an accessor inherited from \<^verbatim>\<open>Object.prototype\<close> whose setter ignores every value
  that is not an object, so the assignment of a string or a number leaves the object as it is.
\<close>

definition setProp :: "(string \<rightharpoonup> 'v) \<Rightarrow> string \<Rightarrow> 'v \<Rightarrow> (string \<rightharpoonup> 'v)" where
  "setProp obj k v = (if k = ''__proto__'' then obj else obj(k \<mapsto> v))"

text \<open>A facility record: field name to raw string value, as \<^verbatim>\<open>parseCSV\<close> builds it.\<close>

type_synonym facility = "string \<rightharpoonup> string"

section \<open>dataLoader.js: the CSV parser\<close>

text \<open>
  \<^verbatim>\<open>
  function parseCSVLine(line) {
    const values = []; let current = ''; let inQuotes = false;
    for (let i = 0; i < line.length; i++) {
      const char = line[i]; const nextChar = line[i + 1];
      if (char === '"') {
        if (inQuotes && nextChar === '"') { current += '"'; i++; }
        else { inQuotes = !inQuotes; }
      } else if (char === ',' && !inQuotes) { values.push(current); current = ''; }
      else { current += char; }
    }
    values.push(current);
    return values;
  }
  \<close>
  The loop, on the rest of the line still to read.
\<close>

fun parseCSVLine_loop :: "string \<Rightarrow> string list \<Rightarrow> string \<Rightarrow> bool \<Rightarrow> string list" where
  "parseCSVLine_loop [] values current inQuotes = values @ [current]"
| "parseCSVLine_loop [char] values current inQuotes =
     (if char = dquote then parseCSVLine_loop [] values current (\<not> inQuotes)
      else if char = comma \<and> \<not> inQuotes then parseCSVLine_loop [] (values @ [current]) [] inQuotes
      else parseCSVLine_loop [] values (current @ [char]) inQuotes)"
| "parseCSVLine_loop (char # nextChar # rest) values current inQuotes =
     (if char = dquote then
        (if inQuotes \<and> nextChar = dquote
         then parseCSVLine_loop rest values (current @ [dquote]) inQuotes
         else parseCSVLine_loop (nextChar # rest) values current (\<not> inQuotes))
      else if char = comma \<and> \<not> inQuotes
        then parseCSVLine_loop (nextChar # rest) (values @ [current]) [] inQuotes
      else parseCSVLine_loop (nextChar # rest) values (current @ [char]) inQuotes)"

definition parseCSVLine :: "string \<Rightarrow> string list" where
  "parseCSVLine line = parseCSVLine_loop line [] [] False"

text \<open>
  \<^verbatim>\<open>
  function parseCSV(csvContent) {
    const lines = csvContent.trim().split('\n');
    if (lines.length === 0) return [];
    const headers = parseCSVLine(lines[0]);
    const data = [];
    for (let i = 1; i < lines.length; i++) {
      if (!lines[i].trim()) continue;
      const values = parseCSVLine(lines[i]);
      const row = {};
      headers.forEach((header, index) => {
        row[header.trim()] = values[index]?.trim() || '';
      });
      data.push(row);
    }
    return data;
  }
  \<close>
\<close>

fun buildRow :: "string list \<Rightarrow> nat \<Rightarrow> string list \<Rightarrow> facility \<Rightarrow> facility" where
  "buildRow [] index values row = row"
| "buildRow (header # headers) index values row =
     buildRow headers (Suc index) values
       (setProp row (trim header) (if index < length values then trim (values ! index) else []))"

fun parseCSV_rows :: "string list \<Rightarrow> string list \<Rightarrow> facility list" where
  "parseCSV_rows headers [] = []"
| "parseCSV_rows headers (l # ls) =
     (if trim l = [] then parseCSV_rows headers ls
      else buildRow headers 0 (parseCSVLine l) Map.empty # parseCSV_rows headers ls)"

definition parseCSV :: "string \<Rightarrow> facility list" where
  "parseCSV csvContent =
     (case split_str newline (trim csvContent) of
        [] \<Rightarrow> []
      | header # ls \<Rightarrow> parseCSV_rows (parseCSVLine header) ls)"

section \<open>Truthiness and defaults\<close>

text \<open>
  A field of a record read as \<^verbatim>\<open>row.name\<close> is \<open>None\<close> when the record has no such field
  (\<^verbatim>\<open>undefined\<close>). An absent field and the empty string are falsy, every other string is
  truthy. \<open>a || b\<close> is the first operand when it is truthy, the second one otherwise.
\<close>

definition truthy :: "string option \<Rightarrow> bool" where
  "truthy v = (case v of None \<Rightarrow> False | Some s \<Rightarrow> s \<noteq> [])"

definition jsOr :: "string option \<Rightarrow> string option \<Rightarrow> string option" where
  "jsOr a b = (if truthy a then a else b)"

text \<open>\<open>a || 'literal'\<close>, which is always a string.\<close>

definition orElse :: "string option \<Rightarrow> string \<Rightarrow> string" where
  "orElse a d = (case a of None \<Rightarrow> d | Some s \<Rightarrow> if s \<noteq> [] then s else d)"

section \<open>dataLoader.js: filtering by location\<close>

text \<open>The location filter of a request: each level holds a code, or is absent.\<close>

record LocationFilter =
  district :: "string option"
  subcounty :: "string option"
  parish :: "string option"
  village :: "string option"

text \<open>\<^verbatim>\<open>row.location_code || row.Location_code || ''\<close>\<close>

definition locationCode :: "facility \<Rightarrow> string" where
  "locationCode row = orElse (jsOr (row ''location_code'') (row ''Location_code'')) []"

text \<open>
  \<^verbatim>\<open>
  function filterByLocation(facilities, location) {
    let filterCode = null; let filterLevel = null;
    if (location.village) { filterCode = location.village; filterLevel = 'village'; }
    else if (location.parish) { filterCode = location.parish; filterLevel = 'parish'; }
    else if (location.subcounty) { filterCode = location.subcounty; filterLevel = 'subcounty'; }
    else if (location.district) { filterCode = location.district; filterLevel = 'district'; }
    if (!filterCode) { return facilities; }
    const filtered = facilities.filter(row => {
      const locationCode = row.location_code || row.Location_code || '';
      return locationCode.startsWith(filterCode);
    });
    return filtered;
  }
  \<close>
  The two calls of \<^verbatim>\<open>console.log\<close> are left out; \<open>filterLevel\<close> is only read by them.
\<close>

definition filterByLocation :: "facility list \<Rightarrow> LocationFilter \<Rightarrow> facility list" where
  "filterByLocation facilities location =
     (let (filterCode, filterLevel) =
            (if truthy (village location) then (village location, Some ''village'')
             else if truthy (parish location) then (parish location, Some ''parish'')
             else if truthy (subcounty location) then (subcounty location, Some ''subcounty'')
             else if truthy (district location) then (district location, Some ''district'')
             else (None, None))
      in case filterCode of
           None \<Rightarrow> facilities
         | Some code \<Rightarrow>
             if code = [] then facilities
             else filter (\<lambda>row. prefix code (locationCode row)) facilities)"

section \<open>dataLoader.js: resolving a location code\<close>

text \<open>
  The location tree of \<^verbatim>\<open>locations.json\<close>: districts, their subcounties, parishes and
  villages. A list of children may be absent (\<^verbatim>\<open>district.subcounties || []\<close>).
\<close>

datatype VillageNode = VillageNode (v_code: string) (v_name: string)

datatype ParishNode = ParishNode (p_code: string) (p_name: string) (villages: "VillageNode list option")

datatype SubcountyNode =
  SubcountyNode (s_code: string) (s_name: string) (parishes: "ParishNode list option")

datatype DistrictNode =
  DistrictNode (d_code: string) (d_name: string) (subcounties: "SubcountyNode list option")

record Locations =
  districts :: "DistrictNode list option"

text \<open>\<^verbatim>\<open>parish.villages || []\<close>, \<^verbatim>\<open>subcounty.parishes || []\<close> and \<^verbatim>\<open>district.subcounties || []\<close>\<close>

definition villagesOf :: "ParishNode \<Rightarrow> VillageNode list" where
  "villagesOf parishNode = (case villages parishNode of None \<Rightarrow> [] | Some vs \<Rightarrow> vs)"

definition parishesOf :: "SubcountyNode \<Rightarrow> ParishNode list" where
  "parishesOf subcountyNode = (case parishes subcountyNode of None \<Rightarrow> [] | Some ps \<Rightarrow> ps)"

definition subcountiesOf :: "DistrictNode \<Rightarrow> SubcountyNode list" where
  "subcountiesOf districtNode = (case subcounties districtNode of None \<Rightarrow> [] | Some ss \<Rightarrow> ss)"

text \<open>What the resolver returns: \<^verbatim>\<open>{type, code, name, district?, subcounty?, parish?}\<close>.\<close>

record LocationInfo =
  loc_type :: string
  loc_code :: string
  loc_name :: string
  loc_district :: "string option"
  loc_subcounty :: "string option"
  loc_parish :: "string option"

definition isDigit :: "char \<Rightarrow> bool" where
  "isDigit c = (c \<in> set ''0123456789'')"

text \<open>
  One segment of a code, \<^verbatim>\<open>L\d+\<close> for a letter \<open>L\<close>: the rest of the string after the
  segment, or \<open>None\<close> when the string does not start with one. The digits are taken
  greedily; what follows a segment in the four patterns is a letter or the end, so the
  regular expressions never need to give a digit back.
\<close>

definition codeSegment :: "char \<Rightarrow> string \<Rightarrow> string option" where
  "codeSegment letter s =
     (case s of
        [] \<Rightarrow> None
      | c # cs \<Rightarrow>
          if c = letter \<and> takeWhile isDigit cs \<noteq> [] then Some (dropWhile isDigit cs) else None)"

text \<open>\<^verbatim>\<open>/^D\d+$/\<close>, \<^verbatim>\<open>/^D\d+S\d+$/\<close>, \<^verbatim>\<open>/^D\d+S\d+P\d+$/\<close> and \<^verbatim>\<open>/^D\d+S\d+P\d+V\d+$/\<close>\<close>

definition isDistrictCode :: "string \<Rightarrow> bool" where
  "isDistrictCode code = (codeSegment CHR ''D'' code = Some [])"

definition isSubcountyCode :: "string \<Rightarrow> bool" where
  "isSubcountyCode code =
     (Option.bind (codeSegment CHR ''D'' code) (codeSegment CHR ''S'') = Some [])"

definition isParishCode :: "string \<Rightarrow> bool" where
  "isParishCode code =
     (Option.bind (Option.bind (codeSegment CHR ''D'' code) (codeSegment CHR ''S''))
        (codeSegment CHR ''P'') = Some [])"

definition isVillageCode :: "string \<Rightarrow> bool" where
  "isVillageCode code =
     (Option.bind (Option.bind (Option.bind (codeSegment CHR ''D'' code) (codeSegment CHR ''S''))
        (codeSegment CHR ''P'')) (codeSegment CHR ''V'') = Some [])"

text \<open>
  \<^verbatim>\<open>
  export function getLocationByCode(locations, code) {
    if (!locations?.districts || !code) return null;
    const isDistrict = /^D\d+$/.test(code);
    const isSubcounty = /^D\d+S\d+$/.test(code);
    const isParish = /^D\d+S\d+P\d+$/.test(code);
    const isVillage = /^D\d+S\d+P\d+V\d+$/.test(code);
    for (const district of locations.districts) {
      if (district.code === code && isDistrict) return {type: 'district', ...};
      for (const subcounty of district.subcounties || []) {
        if (subcounty.code === code && isSubcounty) return {type: 'subcounty', ...};
        for (const parish of subcounty.parishes || []) {
          if (parish.code === code && isParish) return {type: 'parish', ...};
          for (const village of parish.villages || []) {
            if (village.code === code && isVillage) return {type: 'village', ...};
          }
        }
      }
    }
    return null;
  }
  \<close>
  Each loop is a recursive function on the nodes still to visit; a \<^verbatim>\<open>return\<close> inside a loop
  is the result \<open>Some\<close>, which ends the loops around it too.
\<close>

fun searchVillages ::
  "VillageNode list \<Rightarrow> string \<Rightarrow> bool \<Rightarrow> ParishNode \<Rightarrow> SubcountyNode \<Rightarrow> DistrictNode
   \<Rightarrow> LocationInfo option" where
  "searchVillages [] code isVillage parishNode subcountyNode districtNode = None"
| "searchVillages (villageNode # vs) code isVillage parishNode subcountyNode districtNode =
     (if v_code villageNode = code \<and> isVillage
      then Some \<lparr>loc_type = ''village'', loc_code = v_code villageNode, loc_name = v_name villageNode,
                 loc_district = Some (d_name districtNode), loc_subcounty = Some (s_name subcountyNode),
                 loc_parish = Some (p_name parishNode)\<rparr>
      else searchVillages vs code isVillage parishNode subcountyNode districtNode)"

fun searchParishes ::
  "ParishNode list \<Rightarrow> string \<Rightarrow> bool \<Rightarrow> bool \<Rightarrow> SubcountyNode \<Rightarrow> DistrictNode
   \<Rightarrow> LocationInfo option" where
  "searchParishes [] code isParish isVillage subcountyNode districtNode = None"
| "searchParishes (parishNode # ps) code isParish isVillage subcountyNode districtNode =
     (if p_code parishNode = code \<and> isParish
      then Some \<lparr>loc_type = ''parish'', loc_code = p_code parishNode, loc_name = p_name parishNode,
                 loc_district = Some (d_name districtNode), loc_subcounty = Some (s_name subcountyNode),
                 loc_parish = None\<rparr>
      else (case searchVillages (villagesOf parishNode)
                   code isVillage parishNode subcountyNode districtNode of
              Some found \<Rightarrow> Some found
            | None \<Rightarrow> searchParishes ps code isParish isVillage subcountyNode districtNode))"

fun searchSubcounties ::
  "SubcountyNode list \<Rightarrow> string \<Rightarrow> bool \<Rightarrow> bool \<Rightarrow> bool \<Rightarrow> DistrictNode
   \<Rightarrow> LocationInfo option" where
  "searchSubcounties [] code isSubcounty isParish isVillage districtNode = None"
| "searchSubcounties (subcountyNode # ss) code isSubcounty isParish isVillage districtNode =
     (if s_code subcountyNode = code \<and> isSubcounty
      then Some \<lparr>loc_type = ''subcounty'', loc_code = s_code subcountyNode, loc_name = s_name subcountyNode,
                 loc_district = Some (d_name districtNode), loc_subcounty = None, loc_parish = None\<rparr>
      else (case searchParishes (parishesOf subcountyNode)
                   code isParish isVillage subcountyNode districtNode of
              Some found \<Rightarrow> Some found
            | None \<Rightarrow> searchSubcounties ss code isSubcounty isParish isVillage districtNode))"

fun searchDistricts ::
  "DistrictNode list \<Rightarrow> string \<Rightarrow> bool \<Rightarrow> bool \<Rightarrow> bool \<Rightarrow> bool \<Rightarrow> LocationInfo option" where
  "searchDistricts [] code isDistrict isSubcounty isParish isVillage = None"
| "searchDistricts (districtNode # ds) code isDistrict isSubcounty isParish isVillage =
     (if d_code districtNode = code \<and> isDistrict
      then Some \<lparr>loc_type = ''district'', loc_code = d_code districtNode, loc_name = d_name districtNode,
                 loc_district = None, loc_subcounty = None, loc_parish = None\<rparr>
      else (case searchSubcounties (subcountiesOf districtNode)
                   code isSubcounty isParish isVillage districtNode of
              Some found \<Rightarrow> Some found
            | None \<Rightarrow> searchDistricts ds code isDistrict isSubcounty isParish isVillage))"

text \<open>The argument \<open>locations\<close> is \<open>None\<close> when the caller passes \<^verbatim>\<open>null\<close> or \<^verbatim>\<open>undefined\<close>.\<close>

definition getLocationByCode :: "Locations option \<Rightarrow> string \<Rightarrow> LocationInfo option" where
  "getLocationByCode locations code =
     (case Option.bind locations districts of
        None \<Rightarrow> None
      | Some ds \<Rightarrow>
          if code = [] then None
          else searchDistricts ds code (isDistrictCode code) (isSubcountyCode code)
                 (isParishCode code) (isVillageCode code))"

text \<open>The nodes of a tree, level by level, for the statements about the resolver.\<close>

definition districtNodes :: "Locations option \<Rightarrow> DistrictNode list" where
  "districtNodes locations = (case Option.bind locations districts of None \<Rightarrow> [] | Some ds \<Rightarrow> ds)"

definition subcountiesUnder :: "DistrictNode list \<Rightarrow> SubcountyNode list" where
  "subcountiesUnder ds = concat (map subcountiesOf ds)"

definition parishesUnder :: "SubcountyNode list \<Rightarrow> ParishNode list" where
  "parishesUnder ss = concat (map parishesOf ss)"

definition villagesUnder :: "ParishNode list \<Rightarrow> VillageNode list" where
  "villagesUnder ps = concat (map villagesOf ps)"

definition subcountyNodes :: "Locations option \<Rightarrow> SubcountyNode list" where
  "subcountyNodes locations = subcountiesUnder (districtNodes locations)"

definition parishNodes :: "Locations option \<Rightarrow> ParishNode list" where
  "parishNodes locations = parishesUnder (subcountyNodes locations)"

definition villageNodes :: "Locations option \<Rightarrow> VillageNode list" where
  "villageNodes locations = villagesUnder (parishNodes locations)"

definition treeCodes :: "Locations option \<Rightarrow> string set" where
  "treeCodes locations =
     set (map d_code (districtNodes locations)) \<union> set (map s_code (subcountyNodes locations))
     \<union> set (map p_code (parishNodes locations)) \<union> set (map v_code (villageNodes locations))"

text \<open>A small tree for the examples; its third subcounty carries a code of the district form.\<close>

definition kayunga :: "Locations option" where
  "kayunga = Some \<lparr>districts = Some [DistrictNode ''D01'' ''Kayunga'' (Some [
     SubcountyNode ''D01S01'' ''Busaana''
       (Some [ParishNode ''D01S01P01'' ''Namirembe'' (Some [VillageNode ''D01S01P01V01'' ''Kito''])]),
     SubcountyNode ''D01S02'' ''Kayonza'' None,
     SubcountyNode ''D09'' ''Misfiled'' None])]\<rparr>"

section \<open>metrics.js: severity of a gap\<close>

text \<open>
  \<^verbatim>\<open>
  function getSeverity(current, target) {
    const ratio = current / target;
    if (ratio < 0.5) return 'critical';
    if (ratio < 0.75) return 'high';
    if (ratio < 0.9) return 'medium';
    return 'low';
  }
  \<close>
\<close>

text \<open>
  A numeric literal of the source denotes the double nearest to its decimal value:
  \<^verbatim>\<open>0.5\<close> and \<^verbatim>\<open>0.75\<close> are doubles, \<^verbatim>\<open>0.9\<close> is not.
\<close>

definition getSeverity :: "jsnum \<Rightarrow> jsnum \<Rightarrow> string" where
  "getSeverity current target =
     (let ratio = jsdiv current target in
      if jslt ratio (roundDouble (1 / 2)) then ''critical''
      else if jslt ratio (roundDouble (3 / 4)) then ''high''
      else if jslt ratio (roundDouble (9 / 10)) then ''medium''
      else ''low'')"

section \<open>metrics.js: reading a field\<close>

text \<open>
  \<^verbatim>\<open>
  function isYes(value) {
    if (!value) return false;
    const str = String(value).toLowerCase().trim();
    return str === 'yes' || str === 'y' || str === 'true' || str === '1';
  }
  \<close>
\<close>

definition isYes :: "string option \<Rightarrow> bool" where
  "isYes value =
     (case value of
        None \<Rightarrow> False
      | Some s \<Rightarrow>
          if s = [] then False
          else (let str = trim (toLowerCase s)
                in str = ''yes'' \<or> str = ''y'' \<or> str = ''true'' \<or> str = ''1''))"

text \<open>
  \<^verbatim>\<open>parseFloat\<close>: white space, an optional sign, then \<^verbatim>\<open>Infinity\<close> or the longest decimal
  literal (digits, an optional fraction, an optional exponent); not-a-number when there is
  no digit. Whatever follows the literal is ignored. The result is the double nearest to
  the decimal value of the literal.
\<close>

definition digitsValue :: "string \<Rightarrow> nat" where
  "digitsValue ds = foldl (\<lambda>n c. 10 * n + (of_char c - 48)) 0 ds"

definition exponentOf :: "string \<Rightarrow> int" where
  "exponentOf s =
     (case s of
        [] \<Rightarrow> 0
      | c # r \<Rightarrow>
          if c = CHR ''e'' \<or> c = CHR ''E'' then
            (case r of
               [] \<Rightarrow> 0
             | d # r' \<Rightarrow>
                 if d = CHR ''-'' then
                   (if takeWhile isDigit r' = [] then 0 else - int (digitsValue (takeWhile isDigit r')))
                 else if d = CHR ''+'' then int (digitsValue (takeWhile isDigit r'))
                 else int (digitsValue (takeWhile isDigit r)))
          else 0)"

definition power10 :: "int \<Rightarrow> rat" where
  "power10 e = (if 0 \<le> e then 10 ^ nat e else 1 / 10 ^ nat (- e))"

definition parseUnsigned :: "string \<Rightarrow> rat option" where
  "parseUnsigned s =
     (let intPart = takeWhile isDigit s;
          afterInt = dropWhile isDigit s;
          fracPart = (case afterInt of
                        [] \<Rightarrow> []
                      | c # r \<Rightarrow> if c = CHR ''.'' then takeWhile isDigit r else []);
          afterFrac = (case afterInt of
                         [] \<Rightarrow> []
                       | c # r \<Rightarrow> if c = CHR ''.'' then dropWhile isDigit r else afterInt)
      in if intPart = [] \<and> fracPart = [] then None
         else Some (rat_of_nat (digitsValue (intPart @ fracPart)) / 10 ^ length fracPart
                    * power10 (exponentOf afterFrac)))"

definition parseFloat :: "string \<Rightarrow> jsnum" where
  "parseFloat s =
     (let t = trimStart s;
          negative = (case t of [] \<Rightarrow> False | c # r \<Rightarrow> c = CHR ''-'');
          body = (case t of [] \<Rightarrow> [] | c # r \<Rightarrow> if c = CHR ''-'' \<or> c = CHR ''+'' then r else t)
      in if prefix ''Infinity'' body then (if negative then NInf else PInf)
         else (case parseUnsigned body of
                 None \<Rightarrow> NaN
               | Some q \<Rightarrow> roundDouble (if negative then - q else q)))"

text \<open>
  \<^verbatim>\<open>
  function parseNumber(value) {
    if (typeof value === 'number') return value;
    if (!value) return 0;
    const num = parseFloat(String(value).replace(/,/g, ''));
    return isNaN(num) ? 0 : num;
  }
  \<close>
  The fields of a facility record are strings, so the first test never holds here.
\<close>

definition parseNumber :: "string option \<Rightarrow> jsnum" where
  "parseNumber value =
     (case value of
        None \<Rightarrow> Fin 0
      | Some s \<Rightarrow>
          if s = [] then Fin 0
          else (let num = parseFloat (filter (\<lambda>c. c \<noteq> comma) s)
                in if num = NaN then Fin 0 else num))"

text \<open>
  \<^verbatim>\<open>x.toFixed(1)\<close> yields a string: the decimal with one fractional digit nearest to \<open>x\<close>,
  a tie going to the larger magnitude, and the text of \<open>x\<close> itself from \<open>10\<^sup>2\<^sup>1\<close> on. Every
  later use of the string (a comparison, a division) reads it back as a number, so the
  model keeps the number read back: the double nearest to that decimal.
\<close>

definition toFixed1 :: "jsnum \<Rightarrow> jsnum" where
  "toFixed1 x =
     (case x of
        Fin q \<Rightarrow> if 10 ^ 21 \<le> \<bar>q\<bar> then x
                 else roundDouble (if 0 \<le> q then rat_of_int \<lfloor>q * 10 + 1 / 2\<rfloor> / 10
                                   else - (rat_of_int \<lfloor>- q * 10 + 1 / 2\<rfloor> / 10))
      | _ \<Rightarrow> x)"

text \<open>A field that may be absent, read as a number: \<^verbatim>\<open>undefined\<close> is not-a-number.\<close>

definition toNumber :: "jsnum option \<Rightarrow> jsnum" where
  "toNumber v = (case v of None \<Rightarrow> NaN | Some x \<Rightarrow> x)"

text \<open>\<^verbatim>\<open>(count / total * 100).toFixed(1)\<close>\<close>

definition percentage :: "nat \<Rightarrow> nat \<Rightarrow> jsnum" where
  "percentage n totalRecords =
     toFixed1 (jsmul (jsdiv (Fin (rat_of_nat n)) (Fin (rat_of_nat totalRecords))) (Fin 100))"

section \<open>metrics.js: counting labels in a plain object\<close>

text \<open>
  \<^verbatim>\<open>metrics.byLevel[level] = (metrics.byLevel[level] || 0) + 1\<close> on an object that starts as
  \<^verbatim>\<open>{}\<close>. Reading a name that the object does not own falls through to
  \<^verbatim>\<open>Object.prototype\<close>: for the names below the value read is a function (for
  \<^verbatim>\<open>__proto__\<close>, the prototype object), which is truthy, and \<open>+ 1\<close> then appends the
  character \<^verbatim>\<open>1\<close> to its text. So a counter is a number or a string.
\<close>

datatype counter = Num nat | Str string

definition inheritedFunctions :: "string list" where
  "inheritedFunctions =
     [''constructor'', ''hasOwnProperty'', ''isPrototypeOf'', ''propertyIsEnumerable'',
      ''toLocaleString'', ''toString'', ''valueOf'', ''__defineGetter__'', ''__defineSetter__'',
      ''__lookupGetter__'', ''__lookupSetter__'']"

text \<open>The text of an inherited value, as V8 prints it.\<close>

definition inheritedText :: "string \<Rightarrow> string option" where
  "inheritedText k =
     (if k = ''__proto__'' then Some ''[object Object]''
      else if k = ''constructor'' then Some ''function Object() { [native code] }''
      else if k \<in> set inheritedFunctions then Some (''function '' @ k @ ''() { [native code] }'')
      else None)"

definition increment :: "(string \<rightharpoonup> counter) \<Rightarrow> string \<Rightarrow> (string \<rightharpoonup> counter)" where
  "increment obj k =
     (let old = (case obj k of
                   Some v \<Rightarrow> v
                 | None \<Rightarrow> (case inheritedText k of Some t \<Rightarrow> Str t | None \<Rightarrow> Num 0))
      in setProp obj k (case old of Num n \<Rightarrow> Num (n + 1) | Str t \<Rightarrow> Str (t @ ''1'')))"

section \<open>metrics.js: benchmarks and gaps\<close>

definition BENCHMARKS_education :: "(string \<times> rat) list" where
  "BENCHMARKS_education =
     [(''pupil_teacher_ratio_primary'', 40), (''pupil_teacher_ratio_secondary'', 30),
      (''pupil_classroom_ratio'', 45), (''pupil_toilet_stance_ratio'', 40),
      (''electricity_target'', 100), (''water_target'', 100), (''ict_lab_target'', 50)]"

definition BENCHMARKS_health :: "(string \<times> rat) list" where
  "BENCHMARKS_health =
     [(''population_per_hc2'', 5000), (''population_per_hc3'', 20000),
      (''population_per_hc4'', 100000), (''population_per_hospital'', 500000),
      (''electricity_target'', 100), (''water_target'', 100)]"

definition benchmarkOf :: "(string \<times> rat) list \<Rightarrow> string \<Rightarrow> jsnum" where
  "benchmarkOf table name = (case map_of table name of None \<Rightarrow> NaN | Some v \<Rightarrow> Fin v)"

text \<open>A gap: \<^verbatim>\<open>{type, current, target, severity}\<close> or \<^verbatim>\<open>{type, current, benchmark, severity}\<close>.\<close>

record Gap =
  gap_type :: string
  gap_current :: jsnum
  gap_target :: "jsnum option"
  gap_benchmark :: "jsnum option"
  gap_severity :: string

section \<open>metrics.js: health facilities\<close>

record HealthInfrastructure =
  withElectricity :: nat
  withWater :: nat
  withAmbulance :: nat
  withMaternity :: nat
  electricityPercentage :: "jsnum option"
  waterPercentage :: "jsnum option"
  ambulancePercentage :: "jsnum option"
  maternityPercentage :: "jsnum option"

record HealthServices =
  offeringHIV :: nat
  offeringMaternal :: nat
  offeringChildHealth :: nat
  offeringImmunization :: nat
  hivPercentage :: "jsnum option"
  maternalPercentage :: "jsnum option"
  childHealthPercentage :: "jsnum option"
  immunizationPercentage :: "jsnum option"

record HealthMetrics =
  totalFacilities :: nat
  byLevel :: "string \<rightharpoonup> counter"
  byOwnership :: "string \<rightharpoonup> counter"
  infrastructure :: HealthInfrastructure
  services :: HealthServices
  gaps :: "Gap list"
  benchmarks :: "(string \<times> rat) list option"

text \<open>The body of \<^verbatim>\<open>facilities.forEach\<close>, one part of the aggregate at a time.\<close>

definition healthInfrastructureStep ::
  "facility \<Rightarrow> HealthInfrastructure \<Rightarrow> HealthInfrastructure" where
  "healthInfrastructureStep facility i0 =
     (let i1 = (if isYes (jsOr (facility ''electricity'') (facility ''Electricity''))
                then i0\<lparr>withElectricity := withElectricity i0 + 1\<rparr> else i0);
          i2 = (if isYes (jsOr (facility ''water'') (facility ''Water''))
                then i1\<lparr>withWater := withWater i1 + 1\<rparr> else i1);
          i3 = (if isYes (jsOr (facility ''ambulance'') (facility ''Ambulance''))
                then i2\<lparr>withAmbulance := withAmbulance i2 + 1\<rparr> else i2);
          i4 = (if isYes (jsOr (facility ''maternity_ward'') (facility ''Maternity''))
                then i3\<lparr>withMaternity := withMaternity i3 + 1\<rparr> else i3)
      in i4)"

definition healthServicesStep :: "facility \<Rightarrow> HealthServices \<Rightarrow> HealthServices" where
  "healthServicesStep facility s0 =
     (let s1 = (if isYes (jsOr (jsOr (jsOr (facility ''hiv_services'') (facility ''HIV''))
                            (facility ''has_hiv_tb_care'')) (facility ''hivaids_and_tb_care1''))
                then s0\<lparr>offeringHIV := offeringHIV s0 + 1\<rparr> else s0);
          s2 = (if isYes (jsOr (jsOr (facility ''maternal_services'') (facility ''Maternal''))
                            (facility ''has_maternal_health''))
                then s1\<lparr>offeringMaternal := offeringMaternal s1 + 1\<rparr> else s1);
          s3 = (if isYes (jsOr (facility ''child_health'') (facility ''Child_Health''))
                then s2\<lparr>offeringChildHealth := offeringChildHealth s2 + 1\<rparr> else s2);
          s4 = (if isYes (jsOr (jsOr (jsOr (facility ''immunization'') (facility ''Immunization''))
                            (facility ''has_immunization'')) (facility ''immunization_services1''))
                then s3\<lparr>offeringImmunization := offeringImmunization s3 + 1\<rparr> else s3)
      in s4)"

text \<open>
  \<^verbatim>\<open>const level = facility.level || facility.Level || facility.facility_level || 'Unknown'\<close> and
  \<^verbatim>\<open>const ownership = facility.ownership || facility.Ownership || 'Unknown'\<close>
\<close>

definition healthLevelOf :: "facility \<Rightarrow> string" where
  "healthLevelOf facility =
     orElse (jsOr (jsOr (facility ''level'') (facility ''Level'')) (facility ''facility_level''))
       ''Unknown''"

definition healthOwnershipOf :: "facility \<Rightarrow> string" where
  "healthOwnershipOf facility =
     orElse (jsOr (facility ''ownership'') (facility ''Ownership'')) ''Unknown''"

definition healthStep :: "HealthMetrics \<Rightarrow> facility \<Rightarrow> HealthMetrics" where
  "healthStep metrics facility =
     metrics\<lparr>byLevel := increment (byLevel metrics) (healthLevelOf facility),
              byOwnership := increment (byOwnership metrics) (healthOwnershipOf facility),
              infrastructure := healthInfrastructureStep facility (infrastructure metrics),
              services := healthServicesStep facility (services metrics)\<rparr>"

text \<open>\<^verbatim>\<open>if (metrics.totalFacilities > 0) { ... }\<close>: the percentages.\<close>

definition healthPercentages :: "HealthMetrics \<Rightarrow> HealthMetrics" where
  "healthPercentages metrics =
     (if 0 < totalFacilities metrics then
        metrics\<lparr>
          infrastructure := (infrastructure metrics)\<lparr>
            electricityPercentage :=
              Some (percentage (withElectricity (infrastructure metrics)) (totalFacilities metrics)),
            waterPercentage :=
              Some (percentage (withWater (infrastructure metrics)) (totalFacilities metrics)),
            ambulancePercentage :=
              Some (percentage (withAmbulance (infrastructure metrics)) (totalFacilities metrics)),
            maternityPercentage :=
              Some (percentage (withMaternity (infrastructure metrics)) (totalFacilities metrics))\<rparr>,
          services := (services metrics)\<lparr>
            hivPercentage :=
              Some (percentage (offeringHIV (services metrics)) (totalFacilities metrics)),
            maternalPercentage :=
              Some (percentage (offeringMaternal (services metrics)) (totalFacilities metrics)),
            childHealthPercentage :=
              Some (percentage (offeringChildHealth (services metrics)) (totalFacilities metrics)),
            immunizationPercentage :=
              Some (percentage (offeringImmunization (services metrics)) (totalFacilities metrics))\<rparr>\<rparr>
      else metrics)"

text \<open>\<^verbatim>\<open>if (metrics.infrastructure.electricityPercentage < BENCHMARKS.health.electricity_target)\<close>\<close>

definition healthGaps :: "HealthMetrics \<Rightarrow> HealthMetrics" where
  "healthGaps metrics =
     (if jslt (toNumber (electricityPercentage (infrastructure metrics)))
           (benchmarkOf BENCHMARKS_health ''electricity_target'')
      then metrics\<lparr>gaps := gaps metrics @
             [\<lparr>gap_type = ''electricity'',
               gap_current = toNumber (electricityPercentage (infrastructure metrics)),
               gap_target = Some (benchmarkOf BENCHMARKS_health ''electricity_target''),
               gap_benchmark = None,
               gap_severity = getSeverity (toNumber (electricityPercentage (infrastructure metrics)))
                                (benchmarkOf BENCHMARKS_health ''electricity_target'')\<rparr>]\<rparr>
      else metrics)"

text \<open>The object literal that \<^verbatim>\<open>metrics\<close> starts as.\<close>

definition healthInitial :: "facility list \<Rightarrow> HealthMetrics" where
  "healthInitial facilities =
     \<lparr>totalFacilities = length facilities,
      byLevel = Map.empty,
      byOwnership = Map.empty,
      infrastructure = \<lparr>withElectricity = 0, withWater = 0, withAmbulance = 0, withMaternity = 0,
        electricityPercentage = None, waterPercentage = None, ambulancePercentage = None,
        maternityPercentage = None\<rparr>,
      services = \<lparr>offeringHIV = 0, offeringMaternal = 0, offeringChildHealth = 0,
        offeringImmunization = 0, hivPercentage = None, maternalPercentage = None,
        childHealthPercentage = None, immunizationPercentage = None\<rparr>,
      gaps = [],
      benchmarks = None\<rparr>"

text \<open>
  The function: the literal, the loop over the facilities, the percentages, the gap, and
  \<^verbatim>\<open>metrics.benchmarks = BENCHMARKS.health\<close>.
\<close>

definition calculateHealthMetrics :: "facility list \<Rightarrow> LocationFilter \<Rightarrow> HealthMetrics" where
  "calculateHealthMetrics facilities location =
     (healthGaps (healthPercentages (foldl healthStep (healthInitial facilities) facilities)))
     \<lparr>benchmarks := Some BENCHMARKS_health\<rparr>"

section \<open>metrics.js: education facilities\<close>

record EducationInfrastructure =
  withElectricity :: nat
  withWater :: nat
  withICTLab :: nat
  withLibrary :: nat
  electricityPercentage :: "jsnum option"
  waterPercentage :: "jsnum option"
  ictLabPercentage :: "jsnum option"
  libraryPercentage :: "jsnum option"

record Enrollment =
  totalLearners :: jsnum
  totalTeachers :: jsnum
  totalClassrooms :: jsnum

record Ratios =
  pupilTeacherRatio :: "jsnum option"
  pupilClassroomRatio :: "jsnum option"

record EducationMetrics =
  totalFacilities :: nat
  byLevel :: "string \<rightharpoonup> counter"
  byOwnership :: "string \<rightharpoonup> counter"
  infrastructure :: EducationInfrastructure
  enrollment :: Enrollment
  ratios :: Ratios
  gaps :: "Gap list"
  benchmarks :: "(string \<times> rat) list option"

definition educationInfrastructureStep ::
  "facility \<Rightarrow> EducationInfrastructure \<Rightarrow> EducationInfrastructure" where
  "educationInfrastructureStep facility i0 =
     (let i1 = (if isYes (jsOr (facility ''electricity_available'') (facility ''Electricity''))
                then i0\<lparr>withElectricity := withElectricity i0 + 1\<rparr> else i0);
          i2 = (if isYes (jsOr (facility ''water_available'') (facility ''Water''))
                then i1\<lparr>withWater := withWater i1 + 1\<rparr> else i1);
          i3 = (if isYes (jsOr (facility ''ict_lab'') (facility ''ICT_Lab''))
                then i2\<lparr>withICTLab := withICTLab i2 + 1\<rparr> else i2);
          i4 = (if isYes (jsOr (facility ''library'') (facility ''Library''))
                then i3\<lparr>withLibrary := withLibrary i3 + 1\<rparr> else i3)
      in i4)"

text \<open>
  \<^verbatim>\<open>
  const learners = parseNumber(facility.total_learners || facility.Total_Learners || facility.enrollment);
  const teachers = parseNumber(facility.total_teachers || facility.Total_Teachers || facility.teachers);
  const classrooms = parseNumber(facility.total_classrooms || facility.Total_Classrooms || facility.classrooms);
  if (learners > 0) metrics.enrollment.totalLearners += learners;
  if (teachers > 0) metrics.enrollment.totalTeachers += teachers;
  if (classrooms > 0) metrics.enrollment.totalClassrooms += classrooms;
  \<close>
\<close>

definition learnersOf :: "facility \<Rightarrow> jsnum" where
  "learnersOf facility =
     parseNumber (jsOr (jsOr (facility ''total_learners'') (facility ''Total_Learners''))
                    (facility ''enrollment''))"

definition teachersOf :: "facility \<Rightarrow> jsnum" where
  "teachersOf facility =
     parseNumber (jsOr (jsOr (facility ''total_teachers'') (facility ''Total_Teachers''))
                    (facility ''teachers''))"

definition classroomsOf :: "facility \<Rightarrow> jsnum" where
  "classroomsOf facility =
     parseNumber (jsOr (jsOr (facility ''total_classrooms'') (facility ''Total_Classrooms''))
                    (facility ''classrooms''))"

definition enrollmentStep :: "facility \<Rightarrow> Enrollment \<Rightarrow> Enrollment" where
  "enrollmentStep facility e0 =
     (let learners = learnersOf facility;
          teachers = teachersOf facility;
          classrooms = classroomsOf facility;
          e1 = (if jsgt learners (Fin 0)
                then e0\<lparr>totalLearners := jsadd (totalLearners e0) learners\<rparr> else e0);
          e2 = (if jsgt teachers (Fin 0)
                then e1\<lparr>totalTeachers := jsadd (totalTeachers e1) teachers\<rparr> else e1);
          e3 = (if jsgt classrooms (Fin 0)
                then e2\<lparr>totalClassrooms := jsadd (totalClassrooms e2) classrooms\<rparr> else e2)
      in e3)"

text \<open>
  \<^verbatim>\<open>const level = facility.level || facility.Level || 'Unknown'\<close> and
  \<^verbatim>\<open>const ownership = facility.ownership || facility.Ownership || 'Unknown'\<close>
\<close>

definition levelOf :: "facility \<Rightarrow> string" where
  "levelOf facility = orElse (jsOr (facility ''level'') (facility ''Level'')) ''Unknown''"

definition ownershipOf :: "facility \<Rightarrow> string" where
  "ownershipOf facility = orElse (jsOr (facility ''ownership'') (facility ''Ownership'')) ''Unknown''"

definition educationStep :: "EducationMetrics \<Rightarrow> facility \<Rightarrow> EducationMetrics" where
  "educationStep metrics facility =
     metrics\<lparr>byLevel := increment (byLevel metrics) (levelOf facility),
              byOwnership := increment (byOwnership metrics) (ownershipOf facility),
              infrastructure := educationInfrastructureStep facility (infrastructure metrics),
              enrollment := enrollmentStep facility (enrollment metrics)\<rparr>"

text \<open>\<^verbatim>\<open>if (metrics.totalFacilities > 0) { ... }\<close>: the percentages.\<close>

definition educationPercentages :: "EducationMetrics \<Rightarrow> EducationMetrics" where
  "educationPercentages metrics =
     (if 0 < totalFacilities metrics then
        metrics\<lparr>
          infrastructure := (infrastructure metrics)\<lparr>
            electricityPercentage :=
              Some (percentage (withElectricity (infrastructure metrics)) (totalFacilities metrics)),
            waterPercentage :=
              Some (percentage (withWater (infrastructure metrics)) (totalFacilities metrics)),
            ictLabPercentage :=
              Some (percentage (withICTLab (infrastructure metrics)) (totalFacilities metrics)),
            libraryPercentage :=
              Some (percentage (withLibrary (infrastructure metrics)) (totalFacilities metrics))\<rparr>\<rparr>
      else metrics)"

text \<open>
  \<^verbatim>\<open>
  if (metrics.enrollment.totalTeachers > 0) {
    metrics.ratios.pupilTeacherRatio = (metrics.enrollment.totalLearners / metrics.enrollment.totalTeachers).toFixed(1);
  }
  if (metrics.enrollment.totalClassrooms > 0) {
    metrics.ratios.pupilClassroomRatio = (metrics.enrollment.totalLearners / metrics.enrollment.totalClassrooms).toFixed(1);
  }
  \<close>
\<close>

definition educationRatios :: "EducationMetrics \<Rightarrow> EducationMetrics" where
  "educationRatios metrics =
     (let r0 = ratios metrics;
          r1 = (if jsgt (totalTeachers (enrollment metrics)) (Fin 0)
                then r0\<lparr>pupilTeacherRatio :=
                       Some (toFixed1 (jsdiv (totalLearners (enrollment metrics))
                                         (totalTeachers (enrollment metrics))))\<rparr>
                else r0);
          r2 = (if jsgt (totalClassrooms (enrollment metrics)) (Fin 0)
                then r1\<lparr>pupilClassroomRatio :=
                       Some (toFixed1 (jsdiv (totalLearners (enrollment metrics))
                                         (totalClassrooms (enrollment metrics))))\<rparr>
                else r1)
      in metrics\<lparr>ratios := r2\<rparr>)"

text \<open>
  \<^verbatim>\<open>
  if (metrics.infrastructure.electricityPercentage < BENCHMARKS.education.electricity_target) {
    metrics.gaps.push({type: 'electricity', current: ..., target: ..., severity: getSeverity(current, target)});
  }
  if (metrics.ratios.pupilTeacherRatio > BENCHMARKS.education.pupil_teacher_ratio_primary) {
    metrics.gaps.push({type: 'pupil_teacher_ratio', current: ..., benchmark: ...,
      severity: getSeverity(BENCHMARKS.education.pupil_teacher_ratio_primary, metrics.ratios.pupilTeacherRatio)});
  }
  \<close>
\<close>

definition educationElectricityGap :: "EducationMetrics \<Rightarrow> EducationMetrics" where
  "educationElectricityGap metrics =
     (if jslt (toNumber (electricityPercentage (infrastructure metrics)))
           (benchmarkOf BENCHMARKS_education ''electricity_target'')
      then metrics\<lparr>gaps := gaps metrics @
             [\<lparr>gap_type = ''electricity'',
               gap_current = toNumber (electricityPercentage (infrastructure metrics)),
               gap_target = Some (benchmarkOf BENCHMARKS_education ''electricity_target''),
               gap_benchmark = None,
               gap_severity = getSeverity (toNumber (electricityPercentage (infrastructure metrics)))
                                (benchmarkOf BENCHMARKS_education ''electricity_target'')\<rparr>]\<rparr>
      else metrics)"

definition educationTeacherGap :: "EducationMetrics \<Rightarrow> EducationMetrics" where
  "educationTeacherGap metrics =
     (if jsgt (toNumber (pupilTeacherRatio (ratios metrics)))
           (benchmarkOf BENCHMARKS_education ''pupil_teacher_ratio_primary'')
      then metrics\<lparr>gaps := gaps metrics @
             [\<lparr>gap_type = ''pupil_teacher_ratio'',
               gap_current = toNumber (pupilTeacherRatio (ratios metrics)),
               gap_target = None,
               gap_benchmark = Some (benchmarkOf BENCHMARKS_education ''pupil_teacher_ratio_primary''),
               gap_severity = getSeverity (benchmarkOf BENCHMARKS_education ''pupil_teacher_ratio_primary'')
                                (toNumber (pupilTeacherRatio (ratios metrics)))\<rparr>]\<rparr>
      else metrics)"

text \<open>The object literal that \<^verbatim>\<open>metrics\<close> starts as.\<close>

definition educationInitial :: "facility list \<Rightarrow> EducationMetrics" where
  "educationInitial facilities =
     \<lparr>totalFacilities = length facilities,
      byLevel = Map.empty,
      byOwnership = Map.empty,
      infrastructure = \<lparr>withElectricity = 0, withWater = 0, withICTLab = 0, withLibrary = 0,
        electricityPercentage = None, waterPercentage = None, ictLabPercentage = None,
        libraryPercentage = None\<rparr>,
      enrollment = \<lparr>totalLearners = Fin 0, totalTeachers = Fin 0, totalClassrooms = Fin 0\<rparr>,
      ratios = \<lparr>pupilTeacherRatio = None, pupilClassroomRatio = None\<rparr>,
      gaps = [],
      benchmarks = None\<rparr>"

text \<open>
  The function: the literal, the loop over the facilities, the percentages, the ratios, the
  two gaps, and \<^verbatim>\<open>metrics.benchmarks = BENCHMARKS.education\<close>.
\<close>

definition calculateEducationMetrics :: "facility list \<Rightarrow> LocationFilter \<Rightarrow> EducationMetrics" where
  "calculateEducationMetrics facilities location =
     (educationTeacherGap (educationElectricityGap (educationRatios (educationPercentages
        (foldl educationStep (educationInitial facilities) facilities)))))
     \<lparr>benchmarks := Some BENCHMARKS_education\<rparr>"

section \<open>metrics.js: the aggregate of a category\<close>

text \<open>
  \<^verbatim>\<open>
  export function calculateMetrics(facilities, location, category) {
    if (category === 'education') return calculateEducationMetrics(facilities, location);
    else if (category === 'health') return calculateHealthMetrics(facilities, location);
    return {};
  }
  \<close>
  The result is one of three shapes of object; \<open>EmptyAggregate\<close> is \<^verbatim>\<open>{}\<close>.
\<close>

datatype Aggregate =
  EmptyAggregate
  | EducationAggregate EducationMetrics
  | HealthAggregate HealthMetrics

definition calculateMetrics :: "facility list \<Rightarrow> LocationFilter \<Rightarrow> string \<Rightarrow> Aggregate" where
  "calculateMetrics facilities location category =
     (if category = ''education'' then EducationAggregate (calculateEducationMetrics facilities location)
      else if category = ''health'' then HealthAggregate (calculateHealthMetrics facilities location)
      else EmptyAggregate)"

section \<open>metrics.js: the breakdown by subcounty\<close>

text \<open>
  \<^verbatim>\<open>
  export function getSubcountyBreakdown(facilities, metric) {
    const subcountyMap = new Map();
    facilities.forEach(facility => {
      const subcounty = facility.subcounty || facility.Subcounty || facility.sub_county || 'Unknown';
      if (!subcountyMap.has(subcounty)) {
        subcountyMap.set(subcounty, {name: subcounty, facilities: [], metrics: {}});
      }
      subcountyMap.get(subcounty).facilities.push(facility);
    });
    const breakdown = Array.from(subcountyMap.values()).map(sc => {
      const scMetrics = calculateMetrics(sc.facilities, {},
        sc.facilities[0]?.level?.toLowerCase().includes('health') ? 'health' : 'education');
      return {location: sc.name, facilityCount: sc.facilities.length, ...scMetrics};
    });
    return breakdown.sort((a, b) => b.facilityCount - a.facilityCount);
  }
  \<close>
  A \<^verbatim>\<open>Map\<close> keeps its keys in the order of their first insertion: it is a list of pairs of
  a subcounty name and the facilities pushed to it so far.
\<close>

definition subcountyOf :: "facility \<Rightarrow> string" where
  "subcountyOf facility =
     orElse (jsOr (jsOr (facility ''subcounty'') (facility ''Subcounty''))
               (facility ''sub_county'')) ''Unknown''"

fun pushFacility ::
  "string \<Rightarrow> facility \<Rightarrow> (string \<times> facility list) list \<Rightarrow> (string \<times> facility list) list" where
  "pushFacility name facility [] = [(name, [facility])]"
| "pushFacility name facility ((key, fs) # rest) =
     (if key = name then (key, fs @ [facility]) # rest
      else (key, fs) # pushFacility name facility rest)"

definition groupBySubcounty :: "facility list \<Rightarrow> (string \<times> facility list) list" where
  "groupBySubcounty facilities =
     foldl (\<lambda>subcountyMap facility. pushFacility (subcountyOf facility) facility subcountyMap)
       [] facilities"

text \<open>\<^verbatim>\<open>sc.facilities[0]?.level?.toLowerCase().includes('health') ? 'health' : 'education'\<close>\<close>

definition categoryOf :: "facility list \<Rightarrow> string" where
  "categoryOf fs =
     (case fs of
        [] \<Rightarrow> ''education''
      | first # _ \<Rightarrow>
          (case first ''level'' of
             None \<Rightarrow> ''education''
           | Some level \<Rightarrow>
               if includes_str (toLowerCase level) ''health'' then ''health'' else ''education''))"

record BreakdownEntry =
  location :: string
  facilityCount :: nat
  metrics :: Aggregate

definition noLocation :: LocationFilter where
  "noLocation = \<lparr>district = None, subcounty = None, parish = None, village = None\<rparr>"

definition breakdownEntry :: "string \<times> facility list \<Rightarrow> BreakdownEntry" where
  "breakdownEntry sc =
     \<lparr>location = fst sc,
      facilityCount = length (snd sc),
      metrics = calculateMetrics (snd sc) noLocation (categoryOf (snd sc))\<rparr>"

text \<open>
  \<^verbatim>\<open>Array.prototype.sort\<close> with a comparison function is a stable sort: an element goes
  before the first element that the comparison does not put before it.
\<close>

fun insertSorted :: "('a \<Rightarrow> 'a \<Rightarrow> int) \<Rightarrow> 'a \<Rightarrow> 'a list \<Rightarrow> 'a list" where
  "insertSorted compare x [] = [x]"
| "insertSorted compare x (y # ys) =
     (if compare x y \<le> 0 then x # y # ys else y # insertSorted compare x ys)"

definition sortBy :: "('a \<Rightarrow> 'a \<Rightarrow> int) \<Rightarrow> 'a list \<Rightarrow> 'a list" where
  "sortBy compare xs = foldr (insertSorted compare) xs []"

definition getSubcountyBreakdown :: "facility list \<Rightarrow> string \<Rightarrow> BreakdownEntry list" where
  "getSubcountyBreakdown facilities metric =
     sortBy (\<lambda>a b. int (facilityCount b) - int (facilityCount a))
       (map breakdownEntry (groupBySubcounty facilities))"

text \<open>Three schools for the examples: none of them reports a positive number of teachers.\<close>

definition understaffed :: "facility list" where
  "understaffed =
     [[''level'' \<mapsto> ''Primary'', ''total_learners'' \<mapsto> ''300'', ''total_teachers'' \<mapsto> ''0''],
      [''level'' \<mapsto> ''Primary'', ''total_learners'' \<mapsto> ''120'', ''teachers'' \<mapsto> ''n/a''],
      [''level'' \<mapsto> ''Secondary'', ''total_learners'' \<mapsto> ''80'']]"

text \<open>Four schools for the examples of the breakdown; the third has no subcounty.\<close>

definition schools :: "facility list" where
  "schools =
     [[''name'' \<mapsto> ''Kayunga P/S'', ''sub_county'' \<mapsto> ''Kayunga Town Council''],
      [''name'' \<mapsto> ''Busaana P/S'', ''subcounty'' \<mapsto> ''Busaana''],
      [''name'' \<mapsto> ''Namirembe P/S''],
      [''name'' \<mapsto> ''Busaana S/S'', ''Subcounty'' \<mapsto> ''Busaana'']]"

text \<open>
  Auxiliary notions of the proofs: the grouping loop started from any map, the number a
  counter holds (none for a string), the sum of the counts of a label object, and the
  label objects that hold numbers only.
\<close>

definition groupsOf :: "(string \<times> facility list) list \<Rightarrow> facility list \<Rightarrow> (string \<times> facility list) list" where
  "groupsOf G fs = foldl (\<lambda>subcountyMap facility. pushFacility (subcountyOf facility) facility subcountyMap) G fs"

definition countOf :: "counter \<Rightarrow> nat" where
  "countOf c = (case c of Num n \<Rightarrow> n | Str t \<Rightarrow> 0)"

definition labelTotal :: "(string \<rightharpoonup> counter) \<Rightarrow> nat" where
  "labelTotal obj = (\<Sum>k\<in>dom obj. countOf (the (obj k)))"

definition numbersOnly :: "(string \<rightharpoonup> counter) \<Rightarrow> bool" where
  "numbersOnly obj = (\<forall>k v. obj k = Some v \<longrightarrow> (\<exists>n. v = Num n))"

section \<open>Inputs of the parser, as the specification describes them\<close>

text \<open>
  A field written in quotes: wrapped in double quotes, every double quote of the field doubled.
\<close>

definition escapeQuotes :: "string \<Rightarrow> string" where
  "escapeQuotes f = concat (map (\<lambda>c. if c = dquote then [dquote, dquote] else [c]) f)"

definition quoteField :: "string \<Rightarrow> string" where
  "quoteField f = dquote # escapeQuotes f @ [dquote]"

text \<open>
  A field of a line is written either as it is or in quotes; written as it is, it can hold
  neither a comma nor a double quote.
\<close>

datatype csvField = Plain string | Quoted string

fun written :: "csvField \<Rightarrow> string" where
  "written (Plain f) = f"
| "written (Quoted f) = quoteField f"

fun content :: "csvField \<Rightarrow> string" where
  "content (Plain f) = f"
| "content (Quoted f) = f"

fun wellWritten :: "csvField \<Rightarrow> bool" where
  "wellWritten (Plain f) = (comma \<notin> set f \<and> dquote \<notin> set f)"
| "wellWritten (Quoted f) = True"

text \<open>\<^verbatim>\<open>fields.join(',')\<close> and \<^verbatim>\<open>lines.join('\n')\<close>: how a line is made of fields and a file of lines.\<close>

fun joinComma :: "string list \<Rightarrow> string" where
  "joinComma [] = []"
| "joinComma [f] = f"
| "joinComma (f # g # fs) = f @ comma # joinComma (g # fs)"

fun joinLines :: "string list \<Rightarrow> string" where
  "joinLines [] = []"
| "joinLines [l] = l"
| "joinLines (l # m # ls) = l @ newline # joinLines (m # ls)"

text \<open>A blank line is one that \<^verbatim>\<open>trim\<close> empties.\<close>

definition isBlank :: "string \<Rightarrow> bool" where
  "isBlank l = (trim l = [])"

text \<open>A well-formed header is one line that is not blank.\<close>

definition wellFormedHeader :: "string \<Rightarrow> bool" where
  "wellFormedHeader h = (newline \<notin> set h \<and> \<not> isBlank h)"

text \<open>
  Auxiliary functions of the proofs. What \<^verbatim>\<open>trimEnd\<close> does to a file, line by line: the
  blank lines at the end go, and the last line left loses its trailing white space.
\<close>

fun trimEndLines :: "string list \<Rightarrow> string list" where
  "trimEndLines [] = []"
| "trimEndLines (l # ls) =
     (case trimEndLines ls of
        [] \<Rightarrow> (if isBlank l then [] else [trimEnd l])
      | m # ms \<Rightarrow> l # m # ms)"

text \<open>The effect of white space before and after a line on its fields.\<close>

fun prependFirst :: "string \<Rightarrow> string list \<Rightarrow> string list" where
  "prependFirst p [] = []"
| "prependFirst p (f # fs) = (p @ f) # fs"

definition appendLast :: "string \<Rightarrow> string list \<Rightarrow> string list" where
  "appendLast ws xs = butlast xs @ [last xs @ ws]"

section \<open>Rounding to a double\<close>

lemma power2_powi: "power2 e = 2 powi e"
  by (simp add: power2_def power_int_def power_one_over inverse_eq_divide)

lemma power2_pos: "0 < power2 e"
  by (simp add: power2_powi)

lemma power2_add: "power2 (a + b) = power2 a * power2 b"
  by (simp add: power2_powi power_int_add)

lemma power2_mono: "a \<le> b \<Longrightarrow> power2 a \<le> power2 b"
  by (simp add: power2_powi power_int_increasing)

lemma power2_less_D: "power2 a < power2 b \<Longrightarrow> a < b"
  using power2_mono [of b a] by (cases "a < b") auto

lemma power2_nat: "0 \<le> e \<Longrightarrow> power2 e = 2 ^ nat e"
  by (simp add: power2_def)

lemma bitLength_bounds:
  "0 < n \<Longrightarrow> 1 \<le> bitLength n \<and> 2 ^ nat (bitLength n - 1) \<le> n \<and> n < 2 ^ nat (bitLength n)"
proof (induction n rule: bitLength.induct)
  case (1 n)
  show ?case
  proof (cases "n div 2 = 0")
    case True
    with 1 have n: "n = 1" by presburger
    have "bitLength 1 = 1"
      by (simp add: bitLength.simps [of 1] bitLength.simps [of 0])
    then show ?thesis by (simp add: n)
  next
    case False
    with 1 have pos: "0 < n div 2" by presburger
    define k where "k = bitLength (n div 2)"
    from 1 pos have IH: "1 \<le> k" "2 ^ nat (k - 1) \<le> n div 2" "n div 2 < 2 ^ nat k"
      by (simp_all add: k_def)
    have bl: "bitLength n = k + 1"
      using 1(2) by (simp add: bitLength.simps [of n] k_def)
    have e1: "(2::int) ^ nat k = 2 * 2 ^ nat (k - 1)"
      using IH(1) by (metis Suc_nat_eq_nat_zadd1 add.commute diff_add_cancel diff_ge_0_iff_ge power_Suc)
    have e2: "(2::int) ^ nat (k + 1) = 2 * 2 ^ nat k"
      using IH(1) by (simp add: nat_add_distrib)
    have "2 * (n div 2) \<le> n" by presburger
    with IH(2) have lo: "2 ^ nat k \<le> n" unfolding e1 by linarith
    have "n < 2 * (n div 2) + 2" by presburger
    with IH(3) have hi: "n < 2 ^ nat (k + 1)" unfolding e2 by linarith
    show ?thesis using IH(1) lo hi by (simp add: bl)
  qed
qed

lemma roundHalfEven_ge: "rat_of_int n \<le> x \<Longrightarrow> n \<le> roundHalfEven x"
proof -
  assume "rat_of_int n \<le> x"
  then have "n \<le> \<lfloor>x\<rfloor>" by (simp add: le_floor_iff)
  then show ?thesis by (simp add: roundHalfEven_def Let_def)
qed

lemma roundHalfEven_le: "x \<le> rat_of_int n \<Longrightarrow> roundHalfEven x \<le> n"
proof (cases "x = rat_of_int n")
  case True
  then show ?thesis by (simp add: roundHalfEven_def Let_def)
next
  case False
  assume "x \<le> rat_of_int n"
  with False have "x < rat_of_int n" by simp
  then have "\<lfloor>x\<rfloor> < n" by (simp add: floor_less_iff)
  then show ?thesis by (auto simp add: roundHalfEven_def Let_def)
qed

lemma quotient_below:
  assumes "0 < b" "a < A" "B \<le> b" "0 < B" "0 < (a::rat)"
  shows "a / b < A / B"
  by (meson assms(2,3,4,5) frac_less nless_le)

lemma quotient_above:
  assumes "0 < b" "A \<le> a" "b < B" "0 < (A::rat)"
  shows "A / B \<le> a / b"
  by (simp add: assms(1,2,3,4) divide_mono order_less_imp_le)

lemma power2_diff: "power2 (a - b) = power2 a / power2 b"
  by (simp add: power2_powi power_int_diff)

lemma binaryExponent_bounds:
  assumes "0 < q"
  shows "power2 (binaryExponent q) \<le> q \<and> q < power2 (binaryExponent q + 1)"
proof -
  obtain a b where ab: "quotient_of q = (a, b)" by (cases "quotient_of q")
  have b: "0 < b" using ab by (rule quotient_of_denom_pos)
  have q: "q = rat_of_int a / rat_of_int b" using ab by (rule quotient_of_div)
  have a: "0 < a" using assms b unfolding q by (simp add: zero_less_divide_iff)
  define la lb where "la = bitLength a" and "lb = bitLength b"
  have A: "1 \<le> la" "2 ^ nat (la - 1) \<le> a" "a < 2 ^ nat la"
    using bitLength_bounds [OF a] by (simp_all add: la_def)
  have B: "1 \<le> lb" "2 ^ nat (lb - 1) \<le> b" "b < 2 ^ nat lb"
    using bitLength_bounds [OF b] by (simp_all add: lb_def)
  have cast: "rat_of_int (2 ^ n) = 2 ^ n" for n by simp
  have A': "power2 (la - 1) \<le> rat_of_int a" "rat_of_int a < power2 la"
    using A by (simp_all add: power2_nat flip: cast del: of_int_power)
  have B': "power2 (lb - 1) \<le> rat_of_int b" "rat_of_int b < power2 lb"
    using B by (simp_all add: power2_nat flip: cast del: of_int_power)
  have pos: "0 < rat_of_int a" "0 < rat_of_int b" using a b by simp_all
  have "q < power2 la / power2 (lb - 1)"
    unfolding q using pos(2) A'(2) B'(1) power2_pos pos(1) by (rule quotient_below)
  then have hi: "q < power2 (la - lb + 1)"
    by (simp add: power2_diff [symmetric] algebra_simps)
  have "power2 (la - 1) / power2 lb \<le> q"
    unfolding q using pos(2) A'(1) B'(2) power2_pos by (rule quotient_above)
  then have lo: "power2 (la - lb - 1) \<le> q"
    by (simp add: power2_diff [symmetric] algebra_simps)
  have be: "binaryExponent q = (if power2 (la - lb) \<le> q then la - lb else la - lb - 1)"
    by (simp add: binaryExponent_def ab la_def lb_def)
  show ?thesis
    using hi lo by (auto simp add: be)
qed

lemma binaryExponent_no_overflow:
  assumes "0 \<le> r" "r < power2 1024"
  shows "binaryExponent r < 1024"
proof (cases "r = 0")
  case True
  have "binaryExponent 0 = - 2"
    by (simp add: binaryExponent_def bitLength.simps [of 0] bitLength.simps [of 1] power2_def)
  then show ?thesis by (simp add: True)
next
  case False
  with assms have "0 < r" by simp
  from binaryExponent_bounds [OF this] assms(2) have "power2 (binaryExponent r) < power2 1024"
    by simp
  then show ?thesis by (rule power2_less_D)
qed

lemma roundDouble_pos:
  "0 < q \<Longrightarrow>
   roundDouble q =
     (if 1024 \<le> binaryExponent
           (rat_of_int (roundHalfEven (q / power2 (max (binaryExponent q) (- 1022) - 52)))
            * power2 (max (binaryExponent q) (- 1022) - 52))
      then PInf
      else Fin (rat_of_int (roundHalfEven (q / power2 (max (binaryExponent q) (- 1022) - 52)))
                * power2 (max (binaryExponent q) (- 1022) - 52)))"
  by (simp add: roundDouble_def Let_def)

lemma power2_52: "power2 52 = rat_of_int (2 ^ 52)" and power2_53: "power2 53 = rat_of_int (2 ^ 53)"
  by (simp_all add: power2_def)

lemma power2_split: "power2 e = power2 k * power2 (e - k)"
  by (simp add: power2_add [symmetric])

text \<open>Rounding never crosses a double: a double below the exact value stays below the result.\<close>

lemma roundDouble_lower:
  assumes m: "2 ^ 52 \<le> m" "m \<le> 2 ^ 53" and E: "- 1022 \<le> E"
    and q: "rat_of_int m * power2 (E - 52) \<le> q"
  shows "\<not> jslt (roundDouble q) (Fin (rat_of_int m * power2 (E - 52)))"
proof -
  define d where "d = rat_of_int m * power2 (E - 52)"
  define e where "e = binaryExponent q"
  define ulp where "ulp = power2 (e - 52)"
  define n where "n = roundHalfEven (q / ulp)"
  define r where "r = rat_of_int n * ulp"
  have ulp: "0 < ulp" by (simp add: ulp_def power2_pos)
  have m': "rat_of_int (2 ^ 52) \<le> rat_of_int m" "rat_of_int m \<le> rat_of_int (2 ^ 53)"
    using m by (simp_all only: of_int_le_iff)
  have dlo: "power2 E \<le> d"
    unfolding d_def power2_split [of E 52] power2_52
    using m'(1) power2_pos [of "E - 52"] by (simp only: mult_le_cancel_right_pos)
  have dhi: "d \<le> power2 (E + 1)"
    unfolding d_def power2_split [of "E + 1" 53] power2_53
    using m'(2) power2_pos [of "E - 52"] by (simp add: mult_le_cancel_right_pos del: of_int_power)
  have dpos: "0 < d" using dlo power2_pos [of E] by linarith
  have qpos: "0 < q" using dpos q by (simp add: d_def)
  have eb: "power2 e \<le> q" "q < power2 (e + 1)"
    using binaryExponent_bounds [OF qpos] by (simp_all add: e_def)
  have "power2 E < power2 (e + 1)" using dlo q eb(2) by (simp add: d_def)
  then have Ee: "E \<le> e" using power2_less_D [of E "e + 1"] by simp
  then have mx: "max e (- 1022) = e" using E by simp
  have dr: "d \<le> r"
  proof (cases "e = E")
    case True
    have "rat_of_int m * ulp \<le> q" using q by (simp add: ulp_def True)
    then have "rat_of_int m \<le> q / ulp" using ulp by (simp add: pos_le_divide_eq)
    then have "m \<le> n" unfolding n_def by (rule roundHalfEven_ge)
    then have "rat_of_int m * ulp \<le> rat_of_int n * ulp"
      using ulp by (simp add: mult_le_cancel_right_pos)
    then show ?thesis by (simp add: d_def r_def ulp_def True)
  next
    case False
    with Ee have lt: "E + 1 \<le> e" by simp
    have "rat_of_int (2 ^ 52) * ulp \<le> q"
      using eb(1) unfolding power2_split [of e 52] power2_52 ulp_def .
    then have "rat_of_int (2 ^ 52) \<le> q / ulp" using ulp by (simp only: pos_le_divide_eq)
    then have "2 ^ 52 \<le> n" unfolding n_def by (rule roundHalfEven_ge)
    then have "rat_of_int (2 ^ 52) \<le> rat_of_int n" by (simp only: of_int_le_iff)
    then have "rat_of_int (2 ^ 52) * ulp \<le> rat_of_int n * ulp"
      using ulp by (simp only: mult_le_cancel_right_pos)
    then have "power2 e \<le> r"
      unfolding r_def power2_split [of e 52] power2_52 ulp_def .
    moreover have "power2 (E + 1) \<le> power2 e" using lt by (rule power2_mono)
    ultimately show ?thesis using dhi by linarith
  qed
  have "roundDouble q = (if 1024 \<le> binaryExponent r then PInf else Fin r)"
    unfolding roundDouble_pos [OF qpos] mx e_def [symmetric] ulp_def [symmetric]
      n_def [symmetric] r_def [symmetric] ..
  then show ?thesis using dr by (simp add: d_def)
qed

text \<open>... and a double above the exact value stays above the result.\<close>

lemma roundDouble_upper:
  assumes m: "2 ^ 52 \<le> m" "m < 2 ^ 53" and E: "- 1022 \<le> E" "E \<le> 1023"
    and q: "0 < q" "q \<le> rat_of_int m * power2 (E - 52)"
  shows "\<exists>r. roundDouble q = Fin r \<and> r \<le> rat_of_int m * power2 (E - 52)"
proof -
  define p where "p = rat_of_int m * power2 (E - 52)"
  define e where "e = binaryExponent q"
  define e' where "e' = max e (- 1022)"
  define ulp where "ulp = power2 (e' - 52)"
  define n where "n = roundHalfEven (q / ulp)"
  define r where "r = rat_of_int n * ulp"
  have ulp: "0 < ulp" by (simp add: ulp_def power2_pos)
  have m': "rat_of_int (2 ^ 52) \<le> rat_of_int m" "rat_of_int m < rat_of_int (2 ^ 53)"
    using m by (simp_all only: of_int_le_iff of_int_less_iff)
  have plo: "power2 E \<le> p"
    unfolding p_def power2_split [of E 52] power2_52
    using m'(1) power2_pos [of "E - 52"] by (simp only: mult_le_cancel_right_pos)
  have phi: "p < power2 (E + 1)"
    unfolding p_def power2_split [of "E + 1" 53] power2_53
    using m'(2) power2_pos [of "E - 52"] by (simp add: mult_less_cancel_right_pos del: of_int_power)
  have eb: "power2 e \<le> q" "q < power2 (e + 1)"
    using binaryExponent_bounds [OF q(1)] by (simp_all add: e_def)
  have "power2 e < power2 (E + 1)" using eb(1) q(2) phi by (simp add: p_def)
  then have eE: "e \<le> E" using power2_less_D [of e "E + 1"] by simp
  then have e'E: "e' \<le> E" using E by (simp add: e'_def)
  have ee': "e \<le> e'" by (simp add: e'_def)
  have "rat_of_int 0 \<le> q / ulp" using q(1) ulp by simp
  then have npos: "0 \<le> n" unfolding n_def by (rule roundHalfEven_ge)
  have rpos: "0 \<le> r" using npos ulp by (simp add: r_def)
  have rp: "r \<le> p"
  proof (cases "e' = E")
    case True
    have "q \<le> rat_of_int m * ulp" using q(2) by (simp add: ulp_def True)
    then have "q / ulp \<le> rat_of_int m" using ulp by (simp add: pos_divide_le_eq)
    then have "n \<le> m" unfolding n_def by (rule roundHalfEven_le)
    then have "rat_of_int n * ulp \<le> rat_of_int m * ulp"
      using ulp by (simp add: mult_le_cancel_right_pos)
    then show ?thesis by (simp add: p_def r_def ulp_def True)
  next
    case False
    with e'E have lt: "e' + 1 \<le> E" by simp
    have "power2 (e + 1) \<le> power2 (e' + 1)" using ee' by (simp add: power2_mono)
    with eb(2) have "q \<le> power2 (e' + 1)" by simp
    then have "q \<le> rat_of_int (2 ^ 53) * ulp"
      unfolding power2_split [of "e' + 1" 53] power2_53 ulp_def by (simp del: of_int_power)
    then have "q / ulp \<le> rat_of_int (2 ^ 53)" using ulp by (simp only: pos_divide_le_eq)
    then have "n \<le> 2 ^ 53" unfolding n_def by (rule roundHalfEven_le)
    then have "rat_of_int n \<le> rat_of_int (2 ^ 53)" by (simp only: of_int_le_iff)
    then have "rat_of_int n * ulp \<le> rat_of_int (2 ^ 53) * ulp"
      using ulp by (simp only: mult_le_cancel_right_pos)
    then have "r \<le> power2 (e' + 1)"
      unfolding r_def power2_split [of "e' + 1" 53] power2_53 ulp_def by (simp del: of_int_power)
    moreover have "power2 (e' + 1) \<le> power2 E" using lt by (rule power2_mono)
    ultimately show ?thesis using plo by linarith
  qed
  have "power2 (E + 1) \<le> power2 1024" using E(2) by (simp add: power2_mono)
  with rp phi have "r < power2 1024" by linarith
  with rpos have no: "\<not> 1024 \<le> binaryExponent r"
    using binaryExponent_no_overflow [of r] by simp
  have "roundDouble q = (if 1024 \<le> binaryExponent r then PInf else Fin r)"
    unfolding roundDouble_pos [OF q(1)] e_def [symmetric] e'_def [symmetric] ulp_def [symmetric]
      n_def [symmetric] r_def [symmetric] ..
  then show ?thesis using rp no by (simp add: p_def)
qed

lemma threshold_doubles:
  "roundDouble (1 / 2) = Fin (1 / 2)"
  "roundDouble (3 / 4) = Fin (3 / 4)"
  "roundDouble (9 / 10) = Fin (8106479329266893 / 2 ^ 53)"
  by code_simp+

text \<open>
  Some values: \<open>0.1\<close> and \<open>2/3\<close> as doubles; a tie goes to the even significand; \<^verbatim>\<open>parseFloat\<close>
  rounds the decimal it reads; \<^verbatim>\<open>(1 / 3 * 100).toFixed(1)\<close> is read back as the double
  nearest to \<open>33.3\<close>; the double nearest to \<open>40.05\<close> lies below it, so its \<^verbatim>\<open>toFixed(1)\<close>
  is \<open>40.0\<close>, and \<open>0.25\<close> is a tie, which goes up to \<open>0.3\<close>.
\<close>

lemma roundDouble_examples:
  "roundDouble (1 / 10) = Fin (3602879701896397 / 2 ^ 55)"
  "roundDouble (2 / 3) = Fin (6004799503160661 / 2 ^ 53)"
  "roundDouble (2 ^ 53 + 1) = Fin (2 ^ 53)"
  "roundDouble (2 ^ 53 + 3) = Fin (2 ^ 53 + 4)"
  "roundDouble (- (2 ^ 53 + 3)) = Fin (- (2 ^ 53 + 4))"
  by code_simp+

lemma parseFloat_examples:
  "parseFloat ''0.1'' = Fin (3602879701896397 / 2 ^ 55)"
  "parseFloat '' -12.5e1kg'' = Fin (- 125)"
  "parseFloat ''n/a'' = NaN"
  by code_simp+

lemma percentage_examples:
  "percentage 1 3 = Fin (2343279181116211 / 2 ^ 46)"
  "percentage 2 3 = Fin (4693595236650189 / 2 ^ 46)"
  "percentage 3 3 = Fin 100"
  by code_simp+

lemma toFixed1_examples:
  "toFixed1 (roundDouble (801 / 20)) = roundDouble 40"
  "toFixed1 (roundDouble (1 / 4)) = roundDouble (3 / 10)"
  by code_simp+

section \<open>Severity thresholds\<close>

text \<open>
  C1, as the code has it. The ratio that is compared is the double quotient
  \<^verbatim>\<open>current / target\<close>, and the thresholds are the doubles \<open>0.5\<close>, \<open>0.75\<close> and the double
  nearest to \<open>0.9\<close>, which is \<open>8106479329266893 / 2\<^sup>5\<^sup>3\<close>. For every pair of positive values the
  severity follows the strict-less-than cascade on that ratio: below 0.5 it is critical,
  otherwise below 0.75 it is high, otherwise below the third threshold it is medium,
  otherwise low. In terms of the exact quotient: up to the double before 0.5 it is
  critical; from 0.5 up to the double before 0.75 it is high; from 0.75 up to the double
  before the third threshold it is medium; from the third threshold on it is low. So a
  quotient exactly equal to a threshold falls into the next band: exactly 0.5 is high,
  exactly 0.75 is medium (not high), and exactly 0.9, which rounds to the third threshold,
  is low. Between a threshold and the double before it the rounding of the division decides.
\<close>

theorem getSeverity_thresholds:
  assumes "0 < c" and "0 < t"
  shows "getSeverity (Fin c) (Fin t) =
           (if jslt (roundDouble (c / t)) (Fin (1 / 2)) then ''critical''
            else if jslt (roundDouble (c / t)) (Fin (3 / 4)) then ''high''
            else if jslt (roundDouble (c / t)) (Fin (8106479329266893 / 2 ^ 53)) then ''medium''
            else ''low'')
         \<and> (c / t \<le> 9007199254740991 / 2 ^ 54 \<longrightarrow> getSeverity (Fin c) (Fin t) = ''critical'')
         \<and> (1 / 2 \<le> c / t \<and> c / t \<le> 6755399441055743 / 2 ^ 53
              \<longrightarrow> getSeverity (Fin c) (Fin t) = ''high'')
         \<and> (3 / 4 \<le> c / t \<and> c / t \<le> 8106479329266892 / 2 ^ 53
              \<longrightarrow> getSeverity (Fin c) (Fin t) = ''medium'')
         \<and> (8106479329266893 / 2 ^ 53 \<le> c / t \<longrightarrow> getSeverity (Fin c) (Fin t) = ''low'')
         \<and> (c / t = 9 / 10 \<longrightarrow> getSeverity (Fin c) (Fin t) = ''low'')"
proof -
  define q where "q = c / t"
  define d where "d = roundDouble q"
  define band :: "jsnum \<Rightarrow> string" where
    "band x = (if jslt x (Fin (1 / 2)) then ''critical''
               else if jslt x (Fin (3 / 4)) then ''high''
               else if jslt x (Fin (8106479329266893 / 2 ^ 53)) then ''medium''
               else ''low'')" for x
  from assms have t: "t \<noteq> 0" and qpos: "0 < q" by (simp_all add: q_def)
  have ratio: "jsdiv (Fin c) (Fin t) = d"
    using t by (simp add: q_def d_def)
  have sev: "getSeverity (Fin c) (Fin t) = band d"
    unfolding getSeverity_def Let_def ratio threshold_doubles band_def ..
  have half: "1 / 2 = rat_of_int (2 ^ 52) * power2 (- 1 - 52)"
    and half': "9007199254740991 / 2 ^ 54 = rat_of_int 9007199254740991 * power2 (- 2 - 52)"
    and quarters: "3 / 4 = rat_of_int 6755399441055744 * power2 (- 1 - 52)"
    and quarters': "6755399441055743 / 2 ^ 53 = rat_of_int 6755399441055743 * power2 (- 1 - 52)"
    and tenths: "8106479329266893 / 2 ^ 53 = rat_of_int 8106479329266893 * power2 (- 1 - 52)"
    and tenths': "8106479329266892 / 2 ^ 53 = rat_of_int 8106479329266892 * power2 (- 1 - 52)"
    by (simp_all add: power2_def)
  have ge_half: "\<not> jslt d (Fin (1 / 2))" if "1 / 2 \<le> q"
    using that unfolding half d_def by (intro roundDouble_lower) simp_all
  have ge_quarters: "\<not> jslt d (Fin (3 / 4))" if "3 / 4 \<le> q"
    using that unfolding quarters d_def by (intro roundDouble_lower) simp_all
  have ge_tenths: "\<not> jslt d (Fin (8106479329266893 / 2 ^ 53))" if "8106479329266893 / 2 ^ 53 \<le> q"
    using that unfolding tenths d_def by (intro roundDouble_lower) simp_all
  have le_half: "\<exists>r. d = Fin r \<and> r \<le> 9007199254740991 / 2 ^ 54" if "q \<le> 9007199254740991 / 2 ^ 54"
    using that qpos unfolding half' d_def by (intro roundDouble_upper) simp_all
  have le_quarters: "\<exists>r. d = Fin r \<and> r \<le> 6755399441055743 / 2 ^ 53"
    if "q \<le> 6755399441055743 / 2 ^ 53"
    using that qpos unfolding quarters' d_def by (intro roundDouble_upper) simp_all
  have le_tenths: "\<exists>r. d = Fin r \<and> r \<le> 8106479329266892 / 2 ^ 53"
    if "q \<le> 8106479329266892 / 2 ^ 53"
    using that qpos unfolding tenths' d_def by (intro roundDouble_upper) simp_all
  have critical: "band d = ''critical''" if "q \<le> 9007199254740991 / 2 ^ 54"
    using le_half [OF that] by (auto simp add: band_def)
  have high: "band d = ''high''" if "1 / 2 \<le> q" "q \<le> 6755399441055743 / 2 ^ 53"
    using ge_half [OF that(1)] le_quarters [OF that(2)] by (auto simp add: band_def)
  have medium: "band d = ''medium''" if "3 / 4 \<le> q" "q \<le> 8106479329266892 / 2 ^ 53"
  proof -
    from that(1) have "1 / 2 \<le> q" by simp
    then show ?thesis
      using ge_half ge_quarters [OF that(1)] le_tenths [OF that(2)] by (auto simp add: band_def)
  qed
  have low: "band d = ''low''" if "8106479329266893 / 2 ^ 53 \<le> q"
  proof -
    from that have "1 / 2 \<le> q" "3 / 4 \<le> q" by simp_all
    then show ?thesis
      using ge_half ge_quarters ge_tenths [OF that] by (simp add: band_def)
  qed
  have nine: "band d = ''low''" if "q = 9 / 10"
    unfolding d_def that threshold_doubles by (simp add: band_def)
  show ?thesis
    unfolding sev q_def [symmetric] d_def [symmetric]
    using critical high medium low nine by (simp add: band_def)
qed

theorem getSeverity_thresholds_witness:
  "getSeverity (Fin 30) (Fin 100) = ''critical''
   \<and> getSeverity (Fin 50) (Fin 100) = ''high''
   \<and> getSeverity (Fin 75) (Fin 100) = ''medium''
   \<and> getSeverity (Fin 90) (Fin 100) = ''low''
   \<and> getSeverity (Fin 8099999999999999) (Fin 8999999999999999) = ''low''
   \<and> getSeverity (Fin 6755399441055743) (Fin 9007199254740991) = ''medium''"
proof -
  have a: "roundDouble (8099999999999999 / 8999999999999999) = Fin (8106479329266893 / 2 ^ 53)"
    and b: "roundDouble (6755399441055743 / 9007199254740991) = Fin (3 / 4)"
    by code_simp+
  have "getSeverity (Fin 8099999999999999) (Fin 8999999999999999) =
           (if jslt (roundDouble (8099999999999999 / 8999999999999999)) (Fin (1 / 2)) then ''critical''
            else if jslt (roundDouble (8099999999999999 / 8999999999999999)) (Fin (3 / 4)) then ''high''
            else if jslt (roundDouble (8099999999999999 / 8999999999999999))
                      (Fin (8106479329266893 / 2 ^ 53)) then ''medium''
            else ''low'')"
    by (rule conjunct1 [OF getSeverity_thresholds]) simp_all
  then have low: "getSeverity (Fin 8099999999999999) (Fin 8999999999999999) = ''low''"
    unfolding a by simp
  have "getSeverity (Fin 6755399441055743) (Fin 9007199254740991) =
           (if jslt (roundDouble (6755399441055743 / 9007199254740991)) (Fin (1 / 2)) then ''critical''
            else if jslt (roundDouble (6755399441055743 / 9007199254740991)) (Fin (3 / 4)) then ''high''
            else if jslt (roundDouble (6755399441055743 / 9007199254740991))
                      (Fin (8106479329266893 / 2 ^ 53)) then ''medium''
            else ''low'')"
    by (rule conjunct1 [OF getSeverity_thresholds]) simp_all
  then have medium: "getSeverity (Fin 6755399441055743) (Fin 9007199254740991) = ''medium''"
    unfolding b by simp
  have "(30 :: rat) / 100 \<le> 9007199254740991 / 2 ^ 54
          \<longrightarrow> getSeverity (Fin 30) (Fin 100) = ''critical''"
    by (rule conjunct1 [OF conjunct2 [OF getSeverity_thresholds]]) simp_all
  then have critical: "getSeverity (Fin 30) (Fin 100) = ''critical''" by simp
  have "1 / 2 \<le> (50 :: rat) / 100 \<and> (50 :: rat) / 100 \<le> 6755399441055743 / 2 ^ 53
          \<longrightarrow> getSeverity (Fin 50) (Fin 100) = ''high''"
    by (rule conjunct1 [OF conjunct2 [OF conjunct2 [OF getSeverity_thresholds]]]) simp_all
  then have high: "getSeverity (Fin 50) (Fin 100) = ''high''" by simp
  have "3 / 4 \<le> (75 :: rat) / 100 \<and> (75 :: rat) / 100 \<le> 8106479329266892 / 2 ^ 53
          \<longrightarrow> getSeverity (Fin 75) (Fin 100) = ''medium''"
    by (rule conjunct1 [OF conjunct2 [OF conjunct2 [OF conjunct2 [OF getSeverity_thresholds]]]])
      simp_all
  then have medium': "getSeverity (Fin 75) (Fin 100) = ''medium''" by simp
  have "(90 :: rat) / 100 = 9 / 10 \<longrightarrow> getSeverity (Fin 90) (Fin 100) = ''low''"
    by (rule conjunct2 [OF conjunct2 [OF conjunct2 [OF conjunct2
          [OF conjunct2 [OF getSeverity_thresholds]]]]]) simp_all
  then have low': "getSeverity (Fin 90) (Fin 100) = ''low''" by simp
  show ?thesis
    using critical high medium' low' low medium by simp
qed

text \<open>
  C1, as the specification words it, fails at the boundary it names: the ratio 75 / 100 is
  exactly 0.75, and the code answers medium there, not high.
\<close>

theorem getSeverity_boundary_counterexample:
  "(75 :: rat) / 100 = 3 / 4
   \<and> getSeverity (Fin 75) (Fin 100) = ''medium''
   \<and> getSeverity (Fin 75) (Fin 100) \<noteq> ''high''"
  by code_simp


section \<open>Quoted fields\<close>

lemma loop_plain_char:
  "char \<noteq> dquote \<Longrightarrow> char \<noteq> comma \<or> inQuotes \<Longrightarrow>
   parseCSVLine_loop (char # rest) values current inQuotes =
   parseCSVLine_loop rest values (current @ [char]) inQuotes"
  by (cases rest) auto

lemma loop_escaped_quote:
  "parseCSVLine_loop (dquote # dquote # rest) values current True =
   parseCSVLine_loop rest values (current @ [dquote]) True"
  by simp

lemma loop_closing_quote:
  "rest = [] \<or> hd rest \<noteq> dquote \<Longrightarrow>
   parseCSVLine_loop (dquote # rest) values current True =
   parseCSVLine_loop rest values current False"
  by (cases rest) auto

lemma loop_opening_quote:
  "parseCSVLine_loop (dquote # rest) values current False =
   parseCSVLine_loop rest values current True"
  by (cases rest) auto

lemma loop_separator:
  "parseCSVLine_loop (comma # rest) values current False =
   parseCSVLine_loop rest (values @ [current]) [] False"
  by (cases rest) auto

lemma loop_quoted_body:
  "rest = [] \<or> hd rest \<noteq> dquote \<Longrightarrow>
   parseCSVLine_loop (escapeQuotes f @ dquote # rest) values current True =
   parseCSVLine_loop rest values (current @ f) False"
proof (induction f arbitrary: current)
  case Nil
  then show ?case by (simp add: escapeQuotes_def loop_closing_quote del: parseCSVLine_loop.simps)
next
  case (Cons c f)
  have dq: "escapeQuotes (dquote # f) = dquote # dquote # escapeQuotes f"
    by (simp add: escapeQuotes_def)
  have ndq: "c \<noteq> dquote \<Longrightarrow> escapeQuotes (c # f) = c # escapeQuotes f"
    by (simp add: escapeQuotes_def)
  show ?case
  proof (cases "c = dquote")
    case True
    then show ?thesis
      using Cons.IH [OF Cons.prems, of "current @ [dquote]"]
      by (simp add: dq loop_escaped_quote del: parseCSVLine_loop.simps)
  next
    case False
    then show ?thesis
      using Cons.IH [OF Cons.prems, of "current @ [c]"]
      by (simp add: ndq loop_plain_char del: parseCSVLine_loop.simps)
  qed
qed

lemma loop_quoted_field:
  "rest = [] \<or> hd rest \<noteq> dquote \<Longrightarrow>
   parseCSVLine_loop (quoteField f @ rest) values current False =
   parseCSVLine_loop rest values (current @ f) False"
  by (simp add: quoteField_def loop_opening_quote loop_quoted_body del: parseCSVLine_loop.simps)

lemma loop_plain_field:
  "comma \<notin> set f \<Longrightarrow> dquote \<notin> set f \<Longrightarrow>
   parseCSVLine_loop (f @ rest) values current False =
   parseCSVLine_loop rest values (current @ f) False"
proof (induction f arbitrary: current)
  case Nil
  then show ?case by simp
next
  case (Cons c f)
  then have c: "c \<noteq> dquote" "c \<noteq> comma" and f: "comma \<notin> set f" "dquote \<notin> set f"
    by auto
  have "parseCSVLine_loop ((c # f) @ rest) values current False
        = parseCSVLine_loop (f @ rest) values (current @ [c]) False"
    using loop_plain_char [of c False "f @ rest" "values" current] c by simp
  also have "\<dots> = parseCSVLine_loop rest values ((current @ [c]) @ f) False"
    using f by (rule Cons.IH)
  finally show ?case by simp
qed

lemma loop_written_field:
  "wellWritten f \<Longrightarrow> rest = [] \<or> hd rest \<noteq> dquote \<Longrightarrow>
   parseCSVLine_loop (written f @ rest) values current False =
   parseCSVLine_loop rest values (current @ content f) False"
  by (cases f) (simp_all add: loop_plain_field loop_quoted_field del: parseCSVLine_loop.simps)

lemma loop_written_fields:
  "fs \<noteq> [] \<Longrightarrow> \<forall>f\<in>set fs. wellWritten f \<Longrightarrow>
   parseCSVLine_loop (joinComma (map written fs)) values [] False = values @ map content fs"
proof (induction fs arbitrary: "values" rule: induct_list012)
  case 1
  then show ?case by simp
next
  case (2 f)
  then have "wellWritten f" by simp
  then show ?case
    using loop_written_field [of f "[]" "values" "[]"] by simp
next
  case (3 f g fs)
  let ?rest = "joinComma (map written (g # fs))"
  from 3 have f: "wellWritten f" and gs: "\<forall>f\<in>set (g # fs). wellWritten f" by simp_all
  have "parseCSVLine_loop (written f @ comma # ?rest) values [] False
        = parseCSVLine_loop (comma # ?rest) values (content f) False"
    using loop_written_field [OF f, of "comma # ?rest" "values" "[]"] by simp
  also have "\<dots> = parseCSVLine_loop ?rest (values @ [content f]) [] False"
    by (rule loop_separator)
  also have "\<dots> = (values @ [content f]) @ map content (g # fs)"
    using "3.IH"(2) [OF _ gs, of "values @ [content f]"] by simp
  finally show ?case by simp
qed

text \<open>
  C5. Field splitting honours double-quote quoting. Take any line made of fields joined by
  commas, each field written either as it is (then it holds no comma and no double quote)
  or in quotes, with whatever commas and (doubled) double quotes it holds: the line is split
  back into exactly those fields, so a comma inside quotes does not separate and a doubled
  double quote inside quotes is one literal double quote. And the header \<^verbatim>\<open>name,count\<close> with
  the data line \<^verbatim>\<open>"Bukasa, A","5"\<close> parses to the single record with name \<^verbatim>\<open>Bukasa, A\<close> and
  count \<^verbatim>\<open>5\<close>.
\<close>

theorem parseCSVLine_quoting:
  \<open>(fs \<noteq> [] \<and> (\<forall>f\<in>set fs. wellWritten f)
      \<longrightarrow> parseCSVLine (joinComma (map written fs)) = map content fs)
   \<and> parseCSV ''name,count\<newline>"Bukasa, A","5"''
       = [[''name'' \<mapsto> ''Bukasa, A'', ''count'' \<mapsto> ''5'']]\<close>
proof -
  have "parseCSVLine (joinComma (map written fs)) = map content fs"
    if "fs \<noteq> []" "\<forall>f\<in>set fs. wellWritten f"
    using loop_written_fields [OF that, of "[]"] by (simp add: parseCSVLine_def)
  moreover have \<open>parseCSV ''name,count\<newline>"Bukasa, A","5"''
       = [[''name'' \<mapsto> ''Bukasa, A'', ''count'' \<mapsto> ''5'']]\<close>
    by (simp add: parseCSV_def parseCSVLine_def trim_def trimStart_def trimEnd_def
        isWhiteSpace_def setProp_def)
  ultimately show ?thesis by blast
qed

theorem parseCSVLine_quoting_witness:
  \<open>joinComma (map written [Plain ''1'', Quoted ''Bukasa, A'', Plain [], Quoted ''the "old" ward'',
                            Quoted [], Plain '' HC III ''])
     = ''1,"Bukasa, A",,"the ""old"" ward","", HC III ''
   \<and> parseCSVLine ''1,"Bukasa, A",,"the ""old"" ward","", HC III ''
     = [''1'', ''Bukasa, A'', [], ''the "old" ward'', [], '' HC III '']\<close>
proof -
  let ?fs = \<open>[Plain ''1'', Quoted ''Bukasa, A'', Plain [], Quoted ''the "old" ward'',
                            Quoted [], Plain '' HC III '']\<close>
  have j: \<open>joinComma (map written ?fs) = ''1,"Bukasa, A",,"the ""old"" ward","", HC III ''\<close>
    by (simp add: quoteField_def escapeQuotes_def)
  have w: "?fs \<noteq> [] \<and> (\<forall>f\<in>set ?fs. wellWritten f)" by simp
  show ?thesis
    using parseCSVLine_quoting [of ?fs] w unfolding j by simp
qed

section \<open>Lines, blank lines and white space\<close>

lemma white_not_special: "isWhiteSpace c \<Longrightarrow> c \<noteq> dquote \<and> c \<noteq> comma"
  by (auto simp: isWhiteSpace_def)

lemma white_newline: "isWhiteSpace newline"
  by (simp add: isWhiteSpace_def)

lemma trimEnd_append:
  "trimEnd (xs @ ys) = (if \<forall>c\<in>set ys. isWhiteSpace c then trimEnd xs else xs @ trimEnd ys)"
  by (simp add: trimEnd_def dropWhile_append)

lemma trimEnd_Nil_iff: "trimEnd s = [] \<longleftrightarrow> (\<forall>c\<in>set s. isWhiteSpace c)"
  by (simp add: trimEnd_def)

lemma trimStart_Nil_iff: "trimStart s = [] \<longleftrightarrow> (\<forall>c\<in>set s. isWhiteSpace c)"
  by (simp add: trimStart_def)

lemma set_trimStart: "set (trimStart s) \<subseteq> set s"
  by (simp add: trimStart_def set_dropWhileD subsetI)

lemma set_trimEnd: "set (trimEnd s) \<subseteq> set s"
  using set_dropWhileD [of _ isWhiteSpace "rev s"] by (auto simp: trimEnd_def)

lemma isBlank_iff: "isBlank s \<longleftrightarrow> (\<forall>c\<in>set s. isWhiteSpace c)"
proof
  assume "isBlank s"
  then have "\<forall>c\<in>set (trimStart s). isWhiteSpace c"
    by (simp add: isBlank_def trim_def trimEnd_Nil_iff)
  moreover have "s = takeWhile isWhiteSpace s @ trimStart s"
    by (simp add: trimStart_def)
  ultimately show "\<forall>c\<in>set s. isWhiteSpace c"
    by (metis Un_iff set_append set_takeWhileD)
next
  assume "\<forall>c\<in>set s. isWhiteSpace c"
  then have "trimStart s = []" by (simp add: trimStart_Nil_iff)
  then show "isBlank s" by (simp add: isBlank_def trim_def trimEnd_def)
qed

lemma trimStart_append_nonblank:
  "\<not> isBlank h \<Longrightarrow> trimStart (h @ rest) = trimStart h @ rest"
  by (auto simp: isBlank_iff trimStart_def dropWhile_append)

lemma trimStart_nonblank: "\<not> isBlank h \<Longrightarrow> \<not> isBlank (trimStart h)"
proof -
  assume nb: "\<not> isBlank h"
  have "h = takeWhile isWhiteSpace h @ trimStart h" by (simp add: trimStart_def)
  then have "set h \<subseteq> {c. isWhiteSpace c} \<union> set (trimStart h)"
    by (metis (no_types, lifting) Un_iff mem_Collect_eq set_append set_takeWhileD subsetI)
  with nb show ?thesis by (auto simp: isBlank_iff)
qed

lemma isBlank_trimEnd: "isBlank (trimEnd l) \<longleftrightarrow> isBlank l"
proof -
  have "l = trimEnd l @ rev (takeWhile isWhiteSpace (rev l))"
    by (metis rev_append rev_rev_ident takeWhile_dropWhile_id trimEnd_def)
  then have "set l = set (trimEnd l) \<union> set (takeWhile isWhiteSpace (rev l))"
    by (metis set_append set_rev)
  then show ?thesis
    by (auto simp: isBlank_iff dest: set_takeWhileD)
qed

lemma trimEndLines_Nil_iff: "trimEndLines ls = [] \<longleftrightarrow> (\<forall>l\<in>set ls. isBlank l)"
  by (induction ls) (auto split: list.splits)

lemma white_joinLines: "(\<forall>c\<in>set (joinLines ls). isWhiteSpace c) \<longleftrightarrow> (\<forall>l\<in>set ls. isBlank l)"
  by (induction ls rule: joinLines.induct) (auto simp: isBlank_iff white_newline)

lemma trimEnd_joinLines: "trimEnd (joinLines ls) = joinLines (trimEndLines ls)"
proof (induction ls rule: joinLines.induct)
  case 1
  then show ?case by (simp add: trimEnd_def)
next
  case (2 l)
  then show ?case by (simp add: isBlank_iff trimEnd_Nil_iff)
next
  case (3 l m ls)
  show ?case
  proof (cases "\<forall>x\<in>set (m # ls). isBlank x")
    case True
    then have nil: "trimEndLines (m # ls) = []" by (simp only: trimEndLines_Nil_iff)
    from True have w: "\<forall>c\<in>set (newline # joinLines (m # ls)). isWhiteSpace c"
      using white_joinLines [of "m # ls"] by (simp add: white_newline)
    have j: "joinLines (l # m # ls) = l @ (newline # joinLines (m # ls))" by simp
    have "trimEnd (joinLines (l # m # ls)) = trimEnd l"
      unfolding j trimEnd_append using w by (rule if_P)
    moreover have "trimEndLines (l # m # ls) = (if isBlank l then [] else [trimEnd l])"
      using nil by simp
    moreover have "isBlank l \<Longrightarrow> trimEnd l = []"
      by (simp add: isBlank_iff trimEnd_Nil_iff)
    ultimately show ?thesis by simp
  next
    case False
    then obtain x xs where tl: "trimEndLines (m # ls) = x # xs"
      using trimEndLines_Nil_iff [of "m # ls"] by (cases "trimEndLines (m # ls)") auto
    from False have nw: "\<not> (\<forall>c\<in>set (joinLines (m # ls)). isWhiteSpace c)"
      using white_joinLines [of "m # ls"] by simp
    have j: "joinLines (l # m # ls) = l @ ([newline] @ joinLines (m # ls))" by simp
    have nw': "\<not> (\<forall>c\<in>set ([newline] @ joinLines (m # ls)). isWhiteSpace c)"
      using nw by simp
    have "trimEnd (joinLines (l # m # ls)) = l @ trimEnd ([newline] @ joinLines (m # ls))"
      unfolding j trimEnd_append [of l] using nw' by (rule if_not_P)
    also have "trimEnd ([newline] @ joinLines (m # ls)) = [newline] @ trimEnd (joinLines (m # ls))"
      unfolding trimEnd_append [of "[newline]"] using nw by (rule if_not_P)
    also have "l @ [newline] @ trimEnd (joinLines (m # ls)) = l @ newline # trimEnd (joinLines (m # ls))"
      by simp
    also have "\<dots> = l @ newline # joinLines (x # xs)"
      using "3.IH" tl by simp
    also have "\<dots> = joinLines (trimEndLines (l # m # ls))"
      using tl by simp
    finally show ?thesis .
  qed
qed

lemma split_str_nonempty: "split_str sep s \<noteq> []"
  by (induction s) (auto split: list.splits)

lemma split_str_line:
  "sep \<notin> set l \<Longrightarrow> split_str sep (l @ sep # rest) = l # split_str sep rest"
  by (induction l) (auto split: list.splits)

lemma split_str_last: "sep \<notin> set l \<Longrightarrow> split_str sep l = [l]"
  by (induction l) (auto split: list.splits)

lemma split_joinLines:
  "ls \<noteq> [] \<Longrightarrow> \<forall>l\<in>set ls. newline \<notin> set l \<Longrightarrow> split_str newline (joinLines ls) = ls"
proof (induction ls rule: joinLines.induct)
  case 1
  then show ?case by simp
next
  case (2 l)
  then show ?case by (simp add: split_str_last)
next
  case (3 l m ls)
  then show ?case by (simp add: split_str_line del: split_str.simps)
qed

lemma set_trimEndLines: "l' \<in> set (trimEndLines ls) \<Longrightarrow> \<exists>l\<in>set ls. set l' \<subseteq> set l"
proof (induction ls arbitrary: l')
  case Nil
  then show ?case by simp
next
  case (Cons a ls)
  show ?case
  proof (cases "trimEndLines ls")
    case Nil
    with Cons.prems show ?thesis
      using set_trimEnd [of a] by (auto split: if_splits)
  next
    case (Cons m ms)
    with Cons.prems Cons.IH show ?thesis by auto
  qed
qed

lemma length_parseCSV_rows:
  "length (parseCSV_rows hs ls) = length (filter (\<lambda>l. \<not> isBlank l) ls)"
  by (induction ls) (auto simp: isBlank_def)

lemma nonblank_trimEndLines:
  "length (filter (\<lambda>l. \<not> isBlank l) (trimEndLines ls)) = length (filter (\<lambda>l. \<not> isBlank l) ls)"
proof (induction ls)
  case Nil
  then show ?case by simp
next
  case (Cons a ls)
  show ?case
  proof (cases "trimEndLines ls")
    case Nil
    then have "\<forall>l\<in>set ls. isBlank l" by (simp add: trimEndLines_Nil_iff)
    then have "filter (\<lambda>l. \<not> isBlank l) ls = []" by (simp add: filter_empty_conv)
    then show ?thesis using Nil by (simp add: isBlank_trimEnd)
  next
    case (Cons m ms)
    then show ?thesis using Cons.IH by simp
  qed
qed

lemma dom_setProp: "dom (setProp row k v) = dom row \<union> ({k} - {''__proto__''})"
  by (auto simp: setProp_def)

lemma dom_buildRow:
  "dom (buildRow hs i vs row) = dom row \<union> (set (map trim hs) - {''__proto__''})"
  by (induction hs arbitrary: i row) (auto simp: dom_setProp)

lemma dom_parseCSV_rows:
  "r \<in> set (parseCSV_rows hs ls) \<Longrightarrow> dom r = set (map trim hs) - {''__proto__''}"
proof (induction ls)
  case Nil
  then show ?case by simp
next
  case (Cons a ls)
  from Cons.prems consider "r = buildRow hs 0 (parseCSVLine a) Map.empty"
    | "r \<in> set (parseCSV_rows hs ls)"
    by (auto split: if_splits)
  then show ?case
  proof cases
    case 1
    show ?thesis unfolding 1 dom_buildRow by simp
  next
    case 2
    then show ?thesis by (rule Cons.IH)
  qed
qed

lemma loop_white_prefix:
  "\<forall>c\<in>set ws. isWhiteSpace c \<Longrightarrow>
   parseCSVLine_loop (ws @ s) values current inQuotes = parseCSVLine_loop s values (current @ ws) inQuotes"
proof (induction ws arbitrary: current)
  case Nil
  then show ?case by simp
next
  case (Cons w ws)
  then have "w \<noteq> dquote" "w \<noteq> comma" using white_not_special [of w] by auto
  then show ?case
    using Cons.IH [of "current @ [w]"] Cons.prems
    by (simp add: loop_plain_char del: parseCSVLine_loop.simps)
qed

lemma loop_step:
  "parseCSVLine_loop (c # rest) values current q =
     (if c = dquote then
        (if q \<and> rest \<noteq> [] \<and> hd rest = dquote
         then parseCSVLine_loop (tl rest) values (current @ [dquote]) q
         else parseCSVLine_loop rest values current (\<not> q))
      else if c = comma \<and> \<not> q then parseCSVLine_loop rest (values @ [current]) [] q
      else parseCSVLine_loop rest values (current @ [c]) q)"
  by (cases rest) auto

lemma loop_nonempty: "parseCSVLine_loop s values current q \<noteq> []"
  by (induction s "values" current q rule: parseCSVLine_loop.induct) auto

lemma loop_values:
  "parseCSVLine_loop s values current q = values @ parseCSVLine_loop s [] current q"
proof (induction s arbitrary: "values" current q rule: length_induct)
  case (1 s)
  show ?case
  proof (cases s)
    case Nil
    then show ?thesis by simp
  next
    case (Cons c rest)
    have IH: "parseCSVLine_loop t v cur b = v @ parseCSVLine_loop t [] cur b"
      if "length t \<le> length rest" for t v cur b
    proof -
      from that Cons have "length t < length s" by simp
      with "1.IH" show ?thesis by blast
    qed
    have tl: "length (tl rest) \<le> length rest" by simp
    show ?thesis
      unfolding Cons loop_step
      using IH [OF le_refl, of "values" current]
        IH [OF le_refl, of "values" "current @ [c]"]
        IH [OF le_refl, of "values @ [current]" "[]"]
        IH [OF le_refl, of "[current]" "[]"]
        IH [OF tl, of "values" "current @ [dquote]"]
      by auto
  qed
qed

lemma loop_current_prefix:
  "parseCSVLine_loop s values (p @ current) q
   = values @ prependFirst p (parseCSVLine_loop s [] current q)"
proof (induction s arbitrary: "values" current q rule: length_induct)
  case (1 s)
  show ?case
  proof (cases s)
    case Nil
    then show ?thesis by simp
  next
    case (Cons c rest)
    have IH: "parseCSVLine_loop t v (p @ cur) b = v @ prependFirst p (parseCSVLine_loop t [] cur b)"
      if "length t \<le> length rest" for t v cur b
    proof -
      from that Cons have "length t < length s" by simp
      with "1.IH" show ?thesis by blast
    qed
    have tl: "length (tl rest) \<le> length rest" by simp
    have sep: "parseCSVLine_loop rest (v @ [x]) [] b = v @ x # parseCSVLine_loop rest [] [] b"
      for x v b
      using loop_values [of rest "v @ [x]" "[]" b] by simp
    have sep0: "parseCSVLine_loop rest [x] [] b = x # parseCSVLine_loop rest [] [] b" for x b
      using sep [of "[]" x b] by simp
    show ?thesis
      unfolding Cons loop_step
      by (simp add: sep sep0 IH [OF le_refl] IH [OF tl])
  qed
qed

lemma loop_white_suffix:
  assumes "\<forall>c\<in>set ws. isWhiteSpace c"
  shows "parseCSVLine_loop (s @ ws) values current q
         = appendLast ws (parseCSVLine_loop s values current q)"
proof (induction s arbitrary: "values" current q rule: length_induct)
  case (1 s)
  show ?case
  proof (cases s)
    case Nil
    then show ?thesis
      using loop_white_prefix [OF assms, of "[]" "values" current q] by (simp add: appendLast_def)
  next
    case (Cons c rest)
    have IH: "parseCSVLine_loop (t @ ws) v cur b = appendLast ws (parseCSVLine_loop t v cur b)"
      if "length t \<le> length rest" for t v cur b
    proof -
      from that Cons have "length t < length s" by simp
      with "1.IH" show ?thesis by blast
    qed
    have tl: "length (tl rest) \<le> length rest" by simp
    have hdws: "ws \<noteq> [] \<Longrightarrow> hd ws \<noteq> dquote"
      using assms white_not_special [of "hd ws"] by (cases ws) auto
    have cond: "(rest @ ws \<noteq> [] \<and> hd (rest @ ws) = dquote) = (rest \<noteq> [] \<and> hd rest = dquote)"
      using hdws by (cases rest) auto
    have tlapp: "rest \<noteq> [] \<Longrightarrow> tl (rest @ ws) = tl rest @ ws"
      by (cases rest) auto
    have app: "(c # rest) @ ws = c # (rest @ ws)" by simp
    show ?thesis
      unfolding Cons app loop_step cond
      using tlapp by (simp add: IH [OF le_refl] IH [OF tl])
  qed
qed

lemma trim_white_prefix: "\<forall>c\<in>set ws. isWhiteSpace c \<Longrightarrow> trim (ws @ f) = trim f"
  by (simp add: trim_def trimStart_def dropWhile_append)

lemma trim_white_suffix:
  assumes "\<forall>c\<in>set ws. isWhiteSpace c"
  shows "trim (f @ ws) = trim f"
proof (cases "\<forall>c\<in>set f. isWhiteSpace c")
  case True
  then have "trimStart (f @ ws) = []" "trimStart f = []"
    using assms by (auto simp: trimStart_Nil_iff)
  then show ?thesis by (simp add: trim_def)
next
  case False
  then obtain x where "x \<in> set f" "\<not> isWhiteSpace x" by blast
  then have "trimStart (f @ ws) = trimStart f @ ws"
    by (simp add: trimStart_def)
  then show ?thesis using assms by (simp add: trim_def trimEnd_append)
qed

lemma parseCSVLine_white_prefix:
  assumes "\<forall>c\<in>set ws. isWhiteSpace c"
  shows "map trim (parseCSVLine (ws @ s)) = map trim (parseCSVLine s)"
proof -
  have "parseCSVLine (ws @ s) = prependFirst ws (parseCSVLine s)"
    using loop_white_prefix [OF assms, of s "[]" "[]" False]
      loop_current_prefix [of s "[]" ws "[]" False]
    by (simp add: parseCSVLine_def)
  moreover have "map trim (prependFirst ws xs) = map trim xs" for xs
    using trim_white_prefix [OF assms] by (cases xs) simp_all
  ultimately show ?thesis by simp
qed

lemma parseCSVLine_white_suffix:
  assumes "\<forall>c\<in>set ws. isWhiteSpace c"
  shows "map trim (parseCSVLine (s @ ws)) = map trim (parseCSVLine s)"
proof -
  have ne: "parseCSVLine s \<noteq> []"
    by (simp add: parseCSVLine_def loop_nonempty)
  have "parseCSVLine (s @ ws) = appendLast ws (parseCSVLine s)"
    using loop_white_suffix [OF assms] by (simp add: parseCSVLine_def)
  moreover have "xs \<noteq> [] \<Longrightarrow> map trim (appendLast ws xs) = map trim xs" for xs
    using trim_white_suffix [OF assms]
    by (induction xs rule: rev_induct) (simp_all add: appendLast_def)
  ultimately show ?thesis using ne by simp
qed

lemma parseCSVLine_trimStart: "map trim (parseCSVLine (trimStart h)) = map trim (parseCSVLine h)"
proof -
  have "h = takeWhile isWhiteSpace h @ trimStart h" by (simp add: trimStart_def)
  moreover have "\<forall>c\<in>set (takeWhile isWhiteSpace h). isWhiteSpace c"
    by (auto dest: set_takeWhileD)
  ultimately show ?thesis using parseCSVLine_white_prefix by metis
qed

lemma parseCSVLine_trimEnd: "map trim (parseCSVLine (trimEnd h)) = map trim (parseCSVLine h)"
proof -
  have "h = trimEnd h @ rev (takeWhile isWhiteSpace (rev h))"
    by (metis rev_append rev_rev_ident takeWhile_dropWhile_id trimEnd_def)
  moreover have "\<forall>c\<in>set (rev (takeWhile isWhiteSpace (rev h))). isWhiteSpace c"
    by (auto dest: set_takeWhileD)
  ultimately show ?thesis using parseCSVLine_white_suffix by metis
qed

lemma joinLines_Cons: "joinLines (h # ls) = h @ (if ls = [] then [] else newline # joinLines ls)"
  by (cases ls) auto

lemma trim_joinLines:
  assumes "\<not> isBlank h"
  shows "trim (joinLines (h # ls)) = joinLines (trimEndLines (trimStart h # ls))"
proof -
  have "trimStart (joinLines (h # ls)) = joinLines (trimStart h # ls)"
    unfolding joinLines_Cons by (rule trimStart_append_nonblank [OF assms])
  then show ?thesis by (simp only: trim_def trimEnd_joinLines)
qed

lemma trimEndLines_header:
  assumes "\<not> isBlank h"
  shows "\<exists>h'. trimEndLines (h # ls) = h' # trimEndLines ls \<and> (h' = h \<or> h' = trimEnd h)"
  using assms by (cases "trimEndLines ls") auto

lemma parseCSV_lines:
  assumes nb: "\<not> isBlank h" and nlh: "newline \<notin> set h" and nl: "\<forall>l\<in>set ls. newline \<notin> set l"
  shows "\<exists>h'. parseCSV (joinLines (h # ls)) = parseCSV_rows (parseCSVLine h') (trimEndLines ls)
            \<and> map trim (parseCSVLine h') = map trim (parseCSVLine h)"
proof -
  let ?h1 = "trimStart h"
  have nb1: "\<not> isBlank ?h1" using nb by (rule trimStart_nonblank)
  obtain h' where L: "trimEndLines (?h1 # ls) = h' # trimEndLines ls"
    and h': "h' = ?h1 \<or> h' = trimEnd ?h1"
    using trimEndLines_header [OF nb1] by blast
  have "\<forall>l\<in>set (?h1 # ls). newline \<notin> set l"
    using nlh nl set_trimStart [of h] by auto
  then have "\<forall>l\<in>set (trimEndLines (?h1 # ls)). newline \<notin> set l"
    using set_trimEndLines by (metis subsetD)
  then have "split_str newline (joinLines (trimEndLines (?h1 # ls))) = h' # trimEndLines ls"
    using split_joinLines [of "trimEndLines (?h1 # ls)"] L by simp
  then have "parseCSV (joinLines (h # ls)) = parseCSV_rows (parseCSVLine h') (trimEndLines ls)"
    by (simp add: parseCSV_def trim_joinLines [OF nb])
  moreover have "map trim (parseCSVLine h') = map trim (parseCSVLine h)"
    using h' parseCSVLine_trimStart [of h] parseCSVLine_trimEnd [of ?h1] by auto
  ultimately show ?thesis by blast
qed

section \<open>Records of a CSV file\<close>

text \<open>
  What holds for every file made of a well-formed header line \<open>h\<close> followed by the lines
  \<open>ls\<close>: \<^verbatim>\<open>parseCSV\<close> returns exactly as many records as \<open>ls\<close> has lines that are not blank
  (the blank ones are skipped and give no record), and the keys of every record are the
  trimmed entries of the header other than \<^verbatim>\<open>__proto__\<close>.
\<close>

lemma parseCSV_records:
  assumes "wellFormedHeader h" and "\<forall>l\<in>set ls. newline \<notin> set l"
  shows "length (parseCSV (joinLines (h # ls))) = length (filter (\<lambda>l. \<not> isBlank l) ls)
         \<and> (\<forall>r\<in>set (parseCSV (joinLines (h # ls))).
               dom r = set (map trim (parseCSVLine h)) - {''__proto__''})"
proof -
  from assms(1) have nb: "\<not> isBlank h" and nlh: "newline \<notin> set h"
    by (simp_all add: wellFormedHeader_def)
  obtain h' where p: "parseCSV (joinLines (h # ls)) = parseCSV_rows (parseCSVLine h') (trimEndLines ls)"
    and hs: "map trim (parseCSVLine h') = map trim (parseCSVLine h)"
    using parseCSV_lines [OF nb nlh assms(2)] by blast
  have "length (parseCSV (joinLines (h # ls))) = length (filter (\<lambda>l. \<not> isBlank l) ls)"
    by (simp only: p length_parseCSV_rows nonblank_trimEndLines)
  moreover have "dom r = set (map trim (parseCSVLine h)) - {''__proto__''}"
    if "r \<in> set (parseCSV (joinLines (h # ls)))" for r
  proof -
    from that have "dom r = set (map trim (parseCSVLine h')) - {''__proto__''}"
      unfolding p by (rule dom_parseCSV_rows)
    with hs show ?thesis by simp
  qed
  ultimately show ?thesis by blast
qed

text \<open>So the keys are exactly the trimmed entries of a header that has no such column.\<close>

lemma parseCSV_records_keys:
  assumes "wellFormedHeader h" and "\<forall>l\<in>set ls. newline \<notin> set l"
    and "''__proto__'' \<notin> set (map trim (parseCSVLine h))"
  shows "\<forall>r\<in>set (parseCSV (joinLines (h # ls))). dom r = set (map trim (parseCSVLine h))"
  using parseCSV_records [OF assms(1,2)] assms(3) by simp

lemma parseCSV_records_example:
  "wellFormedHeader ''id, name ''
   \<and> length (parseCSV ''id, name \<newline>1,Busaana HC\<newline>  \<newline>2\<newline>\<newline>'') = 2
   \<and> dom (parseCSV ''id, name \<newline>1,Busaana HC\<newline>  \<newline>2\<newline>\<newline>'' ! 0) = {''id'', ''name''}
   \<and> dom (parseCSV ''id, name \<newline>1,Busaana HC\<newline>  \<newline>2\<newline>\<newline>'' ! 1) = {''id'', ''name''}"
proof -
  let ?h = "''id, name ''"
  let ?ls = "[''1,Busaana HC'', ''  '', ''2'', [], []]"
  let ?c = "''id, name \<newline>1,Busaana HC\<newline>  \<newline>2\<newline>\<newline>''"
  note trim_simps = trim_def trimStart_def trimEnd_def isWhiteSpace_def isBlank_def
  have keys: "set (map trim (parseCSVLine ?h)) - {''__proto__''} = {''id'', ''name''}"
    by (simp add: parseCSVLine_def trim_simps)
  have wf: "wellFormedHeader ?h"
    unfolding wellFormedHeader_def by (simp add: trim_simps)
  have nl: "\<forall>l\<in>set ?ls. newline \<notin> set l" by simp
  have j: "joinLines (?h # ?ls) = ?c" by simp
  have n: "length (filter (\<lambda>l. \<not> isBlank l) ?ls) = 2" by (simp add: trim_simps)
  note t = parseCSV_records [OF wf nl, unfolded j n keys]
  have len: "length (parseCSV ?c) = 2" using t by (rule conjunct1)
  have keys_of: "\<forall>r\<in>set (parseCSV ?c). dom r = {''id'', ''name''}" using t by (rule conjunct2)
  have "(0::nat) < length (parseCSV ?c)" unfolding len by simp
  then have i0: "parseCSV ?c ! 0 \<in> set (parseCSV ?c)" by (rule nth_mem)
  have "(1::nat) < length (parseCSV ?c)" unfolding len by simp
  then have i1: "parseCSV ?c ! 1 \<in> set (parseCSV ?c)" by (rule nth_mem)
  from keys_of i0 have "dom (parseCSV ?c ! 0) = {''id'', ''name''}" by (rule bspec)
  moreover from keys_of i1 have "dom (parseCSV ?c ! 1) = {''id'', ''name''}" by (rule bspec)
  ultimately show ?thesis using wf len by (intro conjI)
qed

text \<open>
  C4 fails for a header with a column called \<^verbatim>\<open>__proto__\<close>. The header
  \<^verbatim>\<open>__proto__,name\<close> is one line that is not blank, and its trimmed entries are
  \<^verbatim>\<open>__proto__\<close> and \<^verbatim>\<open>name\<close>; with the data line \<^verbatim>\<open>x,y\<close> the parser returns one record,
  as it should, but the only key of that record is \<^verbatim>\<open>name\<close>: the record is a plain
  object, and the assignment of a string to its \<^verbatim>\<open>__proto__\<close> creates no property.
\<close>

theorem parseCSV_proto_column:
  "wellFormedHeader ''__proto__,name''
   \<and> map trim (parseCSVLine ''__proto__,name'') = [''__proto__'', ''name'']
   \<and> parseCSV ''__proto__,name\<newline>x,y'' = [[''name'' \<mapsto> ''y'']]
   \<and> map dom (parseCSV ''__proto__,name\<newline>x,y'') = [{''name''}]
   \<and> set (map trim (parseCSVLine ''__proto__,name'')) \<noteq> {''name''}"
  by (simp add: wellFormedHeader_def isBlank_def parseCSV_def parseCSVLine_def trim_def
      trimStart_def trimEnd_def isWhiteSpace_def setProp_def)


section \<open>Filtering by location\<close>

lemma truthy_the: "truthy v \<Longrightarrow> \<exists>c. v = Some c \<and> c \<noteq> []"
  by (cases v) (auto simp: truthy_def)

lemma filterByLocation_village:
  "truthy (village loc) \<Longrightarrow>
   filterByLocation facilities loc
   = filter (\<lambda>row. prefix (the (village loc)) (locationCode row)) facilities"
  by (auto simp: filterByLocation_def dest!: truthy_the)

lemma filterByLocation_parish:
  "\<not> truthy (village loc) \<Longrightarrow> truthy (parish loc) \<Longrightarrow>
   filterByLocation facilities loc
   = filter (\<lambda>row. prefix (the (parish loc)) (locationCode row)) facilities"
  by (auto simp: filterByLocation_def dest!: truthy_the)

lemma filterByLocation_subcounty:
  "\<not> truthy (village loc) \<Longrightarrow> \<not> truthy (parish loc) \<Longrightarrow> truthy (subcounty loc) \<Longrightarrow>
   filterByLocation facilities loc
   = filter (\<lambda>row. prefix (the (subcounty loc)) (locationCode row)) facilities"
  by (auto simp: filterByLocation_def dest!: truthy_the)

lemma filterByLocation_district:
  "\<not> truthy (village loc) \<Longrightarrow> \<not> truthy (parish loc) \<Longrightarrow> \<not> truthy (subcounty loc) \<Longrightarrow>
   truthy (district loc) \<Longrightarrow>
   filterByLocation facilities loc
   = filter (\<lambda>row. prefix (the (district loc)) (locationCode row)) facilities"
  by (auto simp: filterByLocation_def dest!: truthy_the)

lemma filterByLocation_example:
  assumes "locationCode r1 = ''D01''" "locationCode r2 = ''D01S02''"
    "locationCode r3 = ''D01S02P03''" "locationCode r4 = ''D01S02P03V04''"
    "locationCode r5 = ''D01S03P01''"
  shows "filterByLocation [r1, r2, r5, r3, r4]
           \<lparr>district = d, subcounty = Some ''D01S02'', parish = None, village = None\<rparr>
         = [r2, r3, r4]"
  using assms by (simp add: filterByLocation_def truthy_def)

text \<open>
  C2, as the code has it. The filter code is the first non-empty field of the location
  filter in the order village, parish, subcounty, district, and the result is exactly the
  records, in their order, whose location code starts with it, compared character by
  character. The location code of a record is its \<^verbatim>\<open>location_code\<close> field or, when that one
  is absent or empty, its \<^verbatim>\<open>Location_code\<close> field. For records with the codes D01, D01S02,
  D01S02P03 and D01S02P03V04 (and a sibling D01S03P01), filtering by D01S02 returns exactly
  the records of D01S02, D01S02P03 and D01S02P03V04.
\<close>

theorem filterByLocation_prefix:
  "(truthy (village loc) \<longrightarrow>
      filterByLocation facilities loc
      = filter (\<lambda>row. prefix (the (village loc)) (locationCode row)) facilities)
   \<and> (\<not> truthy (village loc) \<and> truthy (parish loc) \<longrightarrow>
      filterByLocation facilities loc
      = filter (\<lambda>row. prefix (the (parish loc)) (locationCode row)) facilities)
   \<and> (\<not> truthy (village loc) \<and> \<not> truthy (parish loc) \<and> truthy (subcounty loc) \<longrightarrow>
      filterByLocation facilities loc
      = filter (\<lambda>row. prefix (the (subcounty loc)) (locationCode row)) facilities)
   \<and> (\<not> truthy (village loc) \<and> \<not> truthy (parish loc) \<and> \<not> truthy (subcounty loc)
        \<and> truthy (district loc) \<longrightarrow>
      filterByLocation facilities loc
      = filter (\<lambda>row. prefix (the (district loc)) (locationCode row)) facilities)
   \<and> (locationCode r1 = ''D01'' \<and> locationCode r2 = ''D01S02'' \<and> locationCode r3 = ''D01S02P03''
        \<and> locationCode r4 = ''D01S02P03V04'' \<and> locationCode r5 = ''D01S03P01'' \<longrightarrow>
      filterByLocation [r1, r2, r5, r3, r4]
        \<lparr>district = d, subcounty = Some ''D01S02'', parish = None, village = None\<rparr>
      = [r2, r3, r4])"
  using filterByLocation_village [of loc facilities]
    filterByLocation_parish [of loc facilities]
    filterByLocation_subcounty [of loc facilities]
    filterByLocation_district [of loc facilities]
    filterByLocation_example [of r1 r2 r3 r4 r5 d]
  by blast

theorem filterByLocation_prefix_witness:
  "filterByLocation
     [[''name'' \<mapsto> ''A'', ''location_code'' \<mapsto> ''D01''],
      [''name'' \<mapsto> ''B'', ''location_code'' \<mapsto> ''D01S02''],
      [''name'' \<mapsto> ''C'', ''location_code'' \<mapsto> ''D01S03P01''],
      [''name'' \<mapsto> ''D'', ''location_code'' \<mapsto> ''D01S02P03''],
      [''name'' \<mapsto> ''E'', ''Location_code'' \<mapsto> ''D01S02P03V04'']]
     \<lparr>district = Some ''D01'', subcounty = Some ''D01S02'', parish = None, village = None\<rparr>
   = [[''name'' \<mapsto> ''B'', ''location_code'' \<mapsto> ''D01S02''],
      [''name'' \<mapsto> ''D'', ''location_code'' \<mapsto> ''D01S02P03''],
      [''name'' \<mapsto> ''E'', ''Location_code'' \<mapsto> ''D01S02P03V04'']]"
proof -
  let ?a = "[''name'' \<mapsto> ''A'', ''location_code'' \<mapsto> ''D01'']"
  let ?b = "[''name'' \<mapsto> ''B'', ''location_code'' \<mapsto> ''D01S02'']"
  let ?c = "[''name'' \<mapsto> ''C'', ''location_code'' \<mapsto> ''D01S03P01'']"
  let ?d = "[''name'' \<mapsto> ''D'', ''location_code'' \<mapsto> ''D01S02P03'']"
  let ?e = "[''name'' \<mapsto> ''E'', ''Location_code'' \<mapsto> ''D01S02P03V04'']"
  have "locationCode ?a = ''D01''" "locationCode ?b = ''D01S02''" "locationCode ?d = ''D01S02P03''"
    "locationCode ?e = ''D01S02P03V04''" "locationCode ?c = ''D01S03P01''"
    by (simp_all add: locationCode_def jsOr_def orElse_def truthy_def)
  then show ?thesis
    using filterByLocation_prefix [of _ _ ?a ?b ?d ?e ?c "Some ''D01''"] by blast
qed

text \<open>
  C2, as the specification words it, speaks of the \<^verbatim>\<open>location_code\<close> attribute alone. A record
  that has no such attribute and carries its code in \<^verbatim>\<open>Location_code\<close> is retained all the same.
\<close>

theorem filterByLocation_attribute_counterexample:
  "filterByLocation [[''Location_code'' \<mapsto> ''D01S02P03'']]
     \<lparr>district = None, subcounty = Some ''D01S02'', parish = None, village = None\<rparr>
   = [[''Location_code'' \<mapsto> ''D01S02P03'']]
   \<and> [''Location_code'' \<mapsto> ''D01S02P03''] ''location_code'' = None"
  by (simp add: filterByLocation_def truthy_def locationCode_def jsOr_def orElse_def)

section \<open>Resolving a code in the location tree\<close>

lemma under_simps:
  "parishesUnder [] = []" "parishesUnder (x # ss) = parishesOf x @ parishesUnder ss"
  "villagesUnder [] = []" "villagesUnder (p # ps) = villagesOf p @ villagesUnder ps"
  "villagesUnder (ps @ qs) = villagesUnder ps @ villagesUnder qs"
  "parishesUnder (ss @ ts) = parishesUnder ss @ parishesUnder ts"
  "subcountiesUnder [] = []" "subcountiesUnder (d # ds) = subcountiesOf d @ subcountiesUnder ds"
  by (simp_all add: parishesUnder_def villagesUnder_def subcountiesUnder_def)

lemma searchVillages_Some:
  "searchVillages vs code isVillage p s d = Some info \<Longrightarrow>
   isVillage \<and> code \<in> set (map v_code vs) \<and> loc_type info = ''village'' \<and> loc_code info = code"
  by (induction vs) (auto split: if_splits)

lemma searchParishes_Some:
  "searchParishes ps code isParish isVillage s d = Some info \<Longrightarrow>
   loc_code info = code \<and>
   (isParish \<and> code \<in> set (map p_code ps) \<and> loc_type info = ''parish''
    \<or> isVillage \<and> code \<in> set (map v_code (concat (map villagesOf ps))) \<and> loc_type info = ''village'')"
proof (induction ps)
  case Nil
  then show ?case by simp
next
  case (Cons p ps)
  show ?case
  proof (cases "p_code p = code \<and> isParish")
    case True
    with Cons.prems show ?thesis by auto
  next
    case False
    show ?thesis
    proof (cases "searchVillages (villagesOf p) code isVillage p s d")
      case None
      with False Cons.prems have "searchParishes ps code isParish isVillage s d = Some info"
        by auto
      from Cons.IH [OF this] show ?thesis by auto
    next
      case (Some found)
      with False Cons.prems have "found = info" by auto
      with Some searchVillages_Some [of "villagesOf p" code isVillage p s d info]
      show ?thesis by auto
    qed
  qed
qed

lemma searchParishes_found:
  "searchParishes ps code isParish isVillage s d = Some info \<Longrightarrow>
   loc_code info = code \<and>
   (isParish \<and> code \<in> set (map p_code ps) \<and> loc_type info = ''parish''
    \<or> isVillage \<and> code \<in> set (map v_code (villagesUnder ps)) \<and> loc_type info = ''village'')"
  using searchParishes_Some [of ps code isParish isVillage s d info]
  by (simp add: villagesUnder_def)

lemma searchSubcounties_Some:
  "searchSubcounties ss code isSubcounty isParish isVillage d = Some info \<Longrightarrow>
   loc_code info = code \<and>
   (isSubcounty \<and> code \<in> set (map s_code ss) \<and> loc_type info = ''subcounty''
    \<or> isParish \<and> code \<in> set (map p_code (parishesUnder ss)) \<and> loc_type info = ''parish''
    \<or> isVillage \<and> code \<in> set (map v_code (villagesUnder (parishesUnder ss)))
        \<and> loc_type info = ''village'')"
proof (induction ss)
  case Nil
  then show ?case by simp
next
  case (Cons x ss)
  show ?case
  proof (cases "s_code x = code \<and> isSubcounty")
    case True
    with Cons.prems show ?thesis by auto
  next
    case False
    show ?thesis
    proof (cases "searchParishes (parishesOf x) code isParish isVillage x d")
      case None
      with False Cons.prems have "searchSubcounties ss code isSubcounty isParish isVillage d = Some info"
        by auto
      from Cons.IH [OF this] show ?thesis
        unfolding under_simps list.map map_append set_append set_simps by blast
    next
      case (Some found)
      with False Cons.prems have "found = info" by auto
      with Some searchParishes_found [of "parishesOf x" code isParish isVillage x d info]
      show ?thesis
        unfolding under_simps list.map map_append set_append set_simps by blast
    qed
  qed
qed

lemma searchDistricts_Some:
  "searchDistricts ds code isDistrict isSubcounty isParish isVillage = Some info \<Longrightarrow>
   loc_code info = code \<and>
   (isDistrict \<and> code \<in> set (map d_code ds) \<and> loc_type info = ''district''
    \<or> isSubcounty \<and> code \<in> set (map s_code (subcountiesUnder ds))
        \<and> loc_type info = ''subcounty''
    \<or> isParish \<and> code \<in> set (map p_code (parishesUnder (subcountiesUnder ds)))
        \<and> loc_type info = ''parish''
    \<or> isVillage
        \<and> code \<in> set (map v_code (villagesUnder (parishesUnder (subcountiesUnder ds))))
        \<and> loc_type info = ''village'')"
proof (induction ds)
  case Nil
  then show ?case by simp
next
  case (Cons x ds)
  show ?case
  proof (cases "d_code x = code \<and> isDistrict")
    case True
    with Cons.prems show ?thesis by auto
  next
    case False
    show ?thesis
    proof (cases "searchSubcounties (subcountiesOf x) code isSubcounty isParish isVillage x")
      case None
      with False Cons.prems
      have "searchDistricts ds code isDistrict isSubcounty isParish isVillage = Some info"
        by auto
      from Cons.IH [OF this] show ?thesis
        unfolding under_simps list.map map_append set_append set_simps by blast
    next
      case (Some found)
      with False Cons.prems have "found = info" by auto
      with Some searchSubcounties_Some [of "subcountiesOf x" code isSubcounty isParish isVillage x info]
      show ?thesis
        unfolding under_simps list.map map_append set_append set_simps by blast
    qed
  qed
qed

lemma getLocationByCode_Some:
  assumes "getLocationByCode locations code = Some info"
  shows "loc_code info = code \<and>
     (loc_type info = ''district'' \<and> isDistrictCode code
        \<and> code \<in> set (map d_code (districtNodes locations))
      \<or> loc_type info = ''subcounty'' \<and> isSubcountyCode code
        \<and> code \<in> set (map s_code (subcountyNodes locations))
      \<or> loc_type info = ''parish'' \<and> isParishCode code
        \<and> code \<in> set (map p_code (parishNodes locations))
      \<or> loc_type info = ''village'' \<and> isVillageCode code
        \<and> code \<in> set (map v_code (villageNodes locations)))"
proof -
  from assms obtain ds where ds: "Option.bind locations districts = Some ds"
    and s: "searchDistricts ds code (isDistrictCode code) (isSubcountyCode code)
              (isParishCode code) (isVillageCode code) = Some info"
    by (auto simp: getLocationByCode_def split: option.splits if_splits)
  from ds have n: "districtNodes locations = ds" by (simp add: districtNodes_def)
  from searchDistricts_Some [OF s] show ?thesis
    unfolding villageNodes_def parishNodes_def subcountyNodes_def n by blast
qed

lemma getLocationByCode_no_pattern:
  assumes "\<not> isDistrictCode code" "\<not> isSubcountyCode code" "\<not> isParishCode code"
    "\<not> isVillageCode code"
  shows "getLocationByCode locations code = None"
proof (cases "getLocationByCode locations code")
  case None
  then show ?thesis .
next
  case (Some info)
  from getLocationByCode_Some [OF this] assms show ?thesis by blast
qed

lemma getLocationByCode_absent:
  assumes "code \<notin> treeCodes locations"
  shows "getLocationByCode locations code = None"
proof (cases "getLocationByCode locations code")
  case None
  then show ?thesis .
next
  case (Some info)
  from getLocationByCode_Some [OF this] assms show ?thesis
    unfolding treeCodes_def by blast
qed

lemma XX99_no_pattern:
  "\<not> isDistrictCode ''XX99'' \<and> \<not> isSubcountyCode ''XX99'' \<and> \<not> isParishCode ''XX99''
   \<and> \<not> isVillageCode ''XX99''"
  by (simp add: isDistrictCode_def isSubcountyCode_def isParishCode_def isVillageCode_def
      codeSegment_def)

text \<open>
  C6. For every loc tree and every code, the resolver returns a descriptor only when
  the code has the form of some level (district, subcounty, parish or village) and a node at
  that very depth of the tree carries that code; the descriptor then names that level and
  that code. For a code that no node of the tree carries, and for a code of none of the four
  forms (as \<^verbatim>\<open>XX99\<close>), the result is the not-found value. The function is total: it has a
  result for every tree and every code.
\<close>

theorem getLocationByCode_resolves:
  "(getLocationByCode locations code = Some info \<longrightarrow>
      loc_code info = code \<and>
      (loc_type info = ''district'' \<and> isDistrictCode code
         \<and> code \<in> set (map d_code (districtNodes locations))
       \<or> loc_type info = ''subcounty'' \<and> isSubcountyCode code
         \<and> code \<in> set (map s_code (subcountyNodes locations))
       \<or> loc_type info = ''parish'' \<and> isParishCode code
         \<and> code \<in> set (map p_code (parishNodes locations))
       \<or> loc_type info = ''village'' \<and> isVillageCode code
         \<and> code \<in> set (map v_code (villageNodes locations))))
   \<and> (code \<notin> treeCodes locations \<longrightarrow> getLocationByCode locations code = None)
   \<and> (\<not> isDistrictCode code \<and> \<not> isSubcountyCode code \<and> \<not> isParishCode code
        \<and> \<not> isVillageCode code \<longrightarrow> getLocationByCode locations code = None)
   \<and> getLocationByCode locations ''XX99'' = None"
  using getLocationByCode_Some [of locations code info]
    getLocationByCode_absent [of code locations]
    getLocationByCode_no_pattern [of code locations]
    getLocationByCode_no_pattern [of "''XX99''" locations] XX99_no_pattern
  by blast

lemma treeCodes_kayunga: "treeCodes kayunga = {''D01'', ''D01S01'', ''D01S02'', ''D09'', ''D01S01P01'', ''D01S01P01V01''}"
  by (auto simp: treeCodes_def kayunga_def districtNodes_def subcountyNodes_def parishNodes_def villageNodes_def
    subcountiesUnder_def parishesUnder_def villagesUnder_def subcountiesOf_def parishesOf_def villagesOf_def)

theorem getLocationByCode_resolves_witness:
  "getLocationByCode kayunga ''D01S01P01V01''
     = Some \<lparr>loc_type = ''village'', loc_code = ''D01S01P01V01'', loc_name = ''Kito'',
              loc_district = Some ''Kayunga'', loc_subcounty = Some ''Busaana'',
              loc_parish = Some ''Namirembe''\<rparr>
   \<and> ''D01S02P03V04'' \<notin> treeCodes kayunga
   \<and> getLocationByCode kayunga ''D01S02P03V04'' = None
   \<and> getLocationByCode kayunga ''XX99'' = None
   \<and> ''D09'' \<in> treeCodes kayunga
   \<and> getLocationByCode kayunga ''D09'' = None"
proof -
  have 1: "getLocationByCode kayunga ''D01S01P01V01''
     = Some \<lparr>loc_type = ''village'', loc_code = ''D01S01P01V01'', loc_name = ''Kito'',
              loc_district = Some ''Kayunga'', loc_subcounty = Some ''Busaana'',
              loc_parish = Some ''Namirembe''\<rparr>"
    by (simp add: getLocationByCode_def kayunga_def isDistrictCode_def isSubcountyCode_def
        isParishCode_def isVillageCode_def codeSegment_def isDigit_def
        subcountiesOf_def parishesOf_def villagesOf_def)
  have 2: "''D01S02P03V04'' \<notin> treeCodes kayunga"
    unfolding treeCodes_kayunga by simp
  have 3: "''D09'' \<in> treeCodes kayunga"
    unfolding treeCodes_kayunga by simp
  have 4: "getLocationByCode kayunga ''D09'' = None"
    by (simp add: getLocationByCode_def kayunga_def isDistrictCode_def isSubcountyCode_def
        isParishCode_def isVillageCode_def codeSegment_def isDigit_def
        subcountiesOf_def parishesOf_def villagesOf_def)
  show ?thesis
    using 1 2 3 4 getLocationByCode_resolves [of kayunga "''D01S02P03V04''"]
    by simp
qed

section \<open>The aggregate, field by field\<close>

lemma educationStep_fields:
  "totalFacilities (educationStep m f) = totalFacilities m"
  "ratios (educationStep m f) = ratios m"
  "gaps (educationStep m f) = gaps m"
  "infrastructure (educationStep m f) = educationInfrastructureStep f (infrastructure m)"
  "enrollment (educationStep m f) = enrollmentStep f (enrollment m)"
  "byLevel (educationStep m f)
   = increment (byLevel m) (levelOf f)"
  "byOwnership (educationStep m f)
   = increment (byOwnership m) (ownershipOf f)"
  by (simp_all add: educationStep_def)

lemma educationInfrastructureStep_percentages:
  "electricityPercentage (educationInfrastructureStep f i) = electricityPercentage i"
  "waterPercentage (educationInfrastructureStep f i) = waterPercentage i"
  "ictLabPercentage (educationInfrastructureStep f i) = ictLabPercentage i"
  "libraryPercentage (educationInfrastructureStep f i) = libraryPercentage i"
  by (simp_all add: educationInfrastructureStep_def Let_def)

lemma educationLoop_fields:
  "totalFacilities (foldl educationStep m fs) = totalFacilities m"
  "ratios (foldl educationStep m fs) = ratios m"
  "gaps (foldl educationStep m fs) = gaps m"
  "electricityPercentage (infrastructure (foldl educationStep m fs))
   = electricityPercentage (infrastructure m)"
  "waterPercentage (infrastructure (foldl educationStep m fs)) = waterPercentage (infrastructure m)"
  "ictLabPercentage (infrastructure (foldl educationStep m fs)) = ictLabPercentage (infrastructure m)"
  "libraryPercentage (infrastructure (foldl educationStep m fs))
   = libraryPercentage (infrastructure m)"
  by (induction fs arbitrary: m)
     (simp_all add: educationStep_fields educationInfrastructureStep_percentages)

lemma educationPercentages_fields:
  "totalFacilities (educationPercentages m) = totalFacilities m"
  "ratios (educationPercentages m) = ratios m"
  "gaps (educationPercentages m) = gaps m"
  "enrollment (educationPercentages m) = enrollment m"
  "byLevel (educationPercentages m) = byLevel m"
  "byOwnership (educationPercentages m) = byOwnership m"
  by (simp_all add: educationPercentages_def)

lemma educationPercentages_none:
  "totalFacilities m = 0 \<Longrightarrow> infrastructure (educationPercentages m) = infrastructure m"
  by (simp add: educationPercentages_def)

lemma educationRatios_fields:
  "totalFacilities (educationRatios m) = totalFacilities m"
  "infrastructure (educationRatios m) = infrastructure m"
  "gaps (educationRatios m) = gaps m"
  "enrollment (educationRatios m) = enrollment m"
  "byLevel (educationRatios m) = byLevel m"
  "byOwnership (educationRatios m) = byOwnership m"
  by (simp_all add: educationRatios_def Let_def)

lemma educationRatios_teachers:
  "pupilTeacherRatio (ratios (educationRatios m))
   = (if jsgt (totalTeachers (enrollment m)) (Fin 0)
      then Some (toFixed1 (jsdiv (totalLearners (enrollment m)) (totalTeachers (enrollment m))))
      else pupilTeacherRatio (ratios m))"
  by (simp add: educationRatios_def Let_def)

lemma educationRatios_classrooms:
  "pupilClassroomRatio (ratios (educationRatios m))
   = (if jsgt (totalClassrooms (enrollment m)) (Fin 0)
      then Some (toFixed1 (jsdiv (totalLearners (enrollment m)) (totalClassrooms (enrollment m))))
      else pupilClassroomRatio (ratios m))"
  by (simp add: educationRatios_def Let_def)

lemma educationElectricityGap_fields:
  "totalFacilities (educationElectricityGap m) = totalFacilities m"
  "infrastructure (educationElectricityGap m) = infrastructure m"
  "ratios (educationElectricityGap m) = ratios m"
  "enrollment (educationElectricityGap m) = enrollment m"
  "byLevel (educationElectricityGap m) = byLevel m"
  "byOwnership (educationElectricityGap m) = byOwnership m"
  by (simp_all add: educationElectricityGap_def)

lemma educationTeacherGap_fields:
  "totalFacilities (educationTeacherGap m) = totalFacilities m"
  "infrastructure (educationTeacherGap m) = infrastructure m"
  "ratios (educationTeacherGap m) = ratios m"
  "enrollment (educationTeacherGap m) = enrollment m"
  "byLevel (educationTeacherGap m) = byLevel m"
  "byOwnership (educationTeacherGap m) = byOwnership m"
  by (simp_all add: educationTeacherGap_def)

lemma educationInitial_fields:
  "totalFacilities (educationInitial fs) = length fs"
  "byLevel (educationInitial fs) = Map.empty"
  "byOwnership (educationInitial fs) = Map.empty"
  "ratios (educationInitial fs) = \<lparr>pupilTeacherRatio = None, pupilClassroomRatio = None\<rparr>"
  "enrollment (educationInitial fs)
   = \<lparr>totalLearners = Fin 0, totalTeachers = Fin 0, totalClassrooms = Fin 0\<rparr>"
  "gaps (educationInitial fs) = []"
  "electricityPercentage (infrastructure (educationInitial fs)) = None"
  "waterPercentage (infrastructure (educationInitial fs)) = None"
  "ictLabPercentage (infrastructure (educationInitial fs)) = None"
  "libraryPercentage (infrastructure (educationInitial fs)) = None"
  "withElectricity (infrastructure (educationInitial fs)) = 0"
  "withWater (infrastructure (educationInitial fs)) = 0"
  "withICTLab (infrastructure (educationInitial fs)) = 0"
  "withLibrary (infrastructure (educationInitial fs)) = 0"
  by (simp_all add: educationInitial_def)

lemma calculateEducationMetrics_fields:
  "totalFacilities (calculateEducationMetrics fs loc) = length fs"
  "infrastructure (calculateEducationMetrics fs loc)
   = infrastructure (educationPercentages (foldl educationStep (educationInitial fs) fs))"
  "enrollment (calculateEducationMetrics fs loc)
   = enrollment (foldl educationStep (educationInitial fs) fs)"
  "ratios (calculateEducationMetrics fs loc)
   = ratios (educationRatios (educationPercentages (foldl educationStep (educationInitial fs) fs)))"
  "byLevel (calculateEducationMetrics fs loc) = byLevel (foldl educationStep (educationInitial fs) fs)"
  "byOwnership (calculateEducationMetrics fs loc)
   = byOwnership (foldl educationStep (educationInitial fs) fs)"
  "gaps (calculateEducationMetrics fs loc)
   = gaps (educationTeacherGap (educationElectricityGap (educationRatios (educationPercentages
       (foldl educationStep (educationInitial fs) fs)))))"
  by (simp_all add: calculateEducationMetrics_def educationTeacherGap_fields
      educationElectricityGap_fields educationRatios_fields educationPercentages_fields
      educationLoop_fields educationInitial_fields)

lemma calculateEducationMetrics_percentages:
  assumes "totalFacilities (calculateEducationMetrics fs loc) = 0"
  shows "electricityPercentage (infrastructure (calculateEducationMetrics fs loc)) = None
   \<and> waterPercentage (infrastructure (calculateEducationMetrics fs loc)) = None
   \<and> ictLabPercentage (infrastructure (calculateEducationMetrics fs loc)) = None
   \<and> libraryPercentage (infrastructure (calculateEducationMetrics fs loc)) = None"
proof -
  have "totalFacilities (foldl educationStep (educationInitial fs) fs) = 0"
    using assms by (simp add: calculateEducationMetrics_fields educationLoop_fields educationInitial_fields)
  then show ?thesis
    by (simp add: calculateEducationMetrics_fields educationPercentages_none educationLoop_fields
        educationInitial_fields)
qed

lemma jsgt_zero: "\<not> jsgt (Fin 0) (Fin 0)"
  by (simp add: jsgt_def)

lemma calculateEducationMetrics_no_teachers:
  "totalTeachers (enrollment (calculateEducationMetrics fs loc)) = Fin 0 \<Longrightarrow>
   pupilTeacherRatio (ratios (calculateEducationMetrics fs loc)) = None"
  by (simp add: calculateEducationMetrics_fields educationRatios_teachers
      educationPercentages_fields educationLoop_fields educationInitial_fields jsgt_zero)

lemma calculateEducationMetrics_no_classrooms:
  "totalClassrooms (enrollment (calculateEducationMetrics fs loc)) = Fin 0 \<Longrightarrow>
   pupilClassroomRatio (ratios (calculateEducationMetrics fs loc)) = None"
  by (simp add: calculateEducationMetrics_fields educationRatios_classrooms
      educationPercentages_fields educationLoop_fields educationInitial_fields jsgt_zero)

lemma healthStep_fields:
  "HealthMetrics.totalFacilities (healthStep m f) = HealthMetrics.totalFacilities m"
  "HealthMetrics.gaps (healthStep m f) = HealthMetrics.gaps m"
  "HealthMetrics.infrastructure (healthStep m f)
   = healthInfrastructureStep f (HealthMetrics.infrastructure m)"
  "services (healthStep m f) = healthServicesStep f (services m)"
  "HealthMetrics.byLevel (healthStep m f)
   = increment (HealthMetrics.byLevel m) (healthLevelOf f)"
  "HealthMetrics.byOwnership (healthStep m f)
   = increment (HealthMetrics.byOwnership m) (healthOwnershipOf f)"
  by (simp_all add: healthStep_def)

lemma healthInfrastructureStep_percentages:
  "HealthInfrastructure.electricityPercentage (healthInfrastructureStep f i)
   = HealthInfrastructure.electricityPercentage i"
  "HealthInfrastructure.waterPercentage (healthInfrastructureStep f i)
   = HealthInfrastructure.waterPercentage i"
  "ambulancePercentage (healthInfrastructureStep f i) = ambulancePercentage i"
  "maternityPercentage (healthInfrastructureStep f i) = maternityPercentage i"
  by (simp_all add: healthInfrastructureStep_def Let_def)

lemma healthServicesStep_percentages:
  "hivPercentage (healthServicesStep f s) = hivPercentage s"
  "maternalPercentage (healthServicesStep f s) = maternalPercentage s"
  "childHealthPercentage (healthServicesStep f s) = childHealthPercentage s"
  "immunizationPercentage (healthServicesStep f s) = immunizationPercentage s"
  by (simp_all add: healthServicesStep_def Let_def)

lemma healthLoop_fields:
  "HealthMetrics.totalFacilities (foldl healthStep m fs) = HealthMetrics.totalFacilities m"
  "HealthMetrics.gaps (foldl healthStep m fs) = HealthMetrics.gaps m"
  "HealthInfrastructure.electricityPercentage (HealthMetrics.infrastructure (foldl healthStep m fs))
   = HealthInfrastructure.electricityPercentage (HealthMetrics.infrastructure m)"
  "HealthInfrastructure.waterPercentage (HealthMetrics.infrastructure (foldl healthStep m fs))
   = HealthInfrastructure.waterPercentage (HealthMetrics.infrastructure m)"
  "ambulancePercentage (HealthMetrics.infrastructure (foldl healthStep m fs))
   = ambulancePercentage (HealthMetrics.infrastructure m)"
  "maternityPercentage (HealthMetrics.infrastructure (foldl healthStep m fs))
   = maternityPercentage (HealthMetrics.infrastructure m)"
  "hivPercentage (services (foldl healthStep m fs)) = hivPercentage (services m)"
  "maternalPercentage (services (foldl healthStep m fs)) = maternalPercentage (services m)"
  "childHealthPercentage (services (foldl healthStep m fs)) = childHealthPercentage (services m)"
  "immunizationPercentage (services (foldl healthStep m fs)) = immunizationPercentage (services m)"
  by (induction fs arbitrary: m)
     (simp_all add: healthStep_fields healthInfrastructureStep_percentages
        healthServicesStep_percentages)

lemma healthPercentages_fields:
  "HealthMetrics.totalFacilities (healthPercentages m) = HealthMetrics.totalFacilities m"
  "HealthMetrics.gaps (healthPercentages m) = HealthMetrics.gaps m"
  "HealthMetrics.byLevel (healthPercentages m) = HealthMetrics.byLevel m"
  "HealthMetrics.byOwnership (healthPercentages m) = HealthMetrics.byOwnership m"
  by (simp_all add: healthPercentages_def)

lemma healthPercentages_none:
  "HealthMetrics.totalFacilities m = 0 \<Longrightarrow> healthPercentages m = m"
  by (simp add: healthPercentages_def)

lemma healthGaps_fields:
  "HealthMetrics.totalFacilities (healthGaps m) = HealthMetrics.totalFacilities m"
  "HealthMetrics.infrastructure (healthGaps m) = HealthMetrics.infrastructure m"
  "services (healthGaps m) = services m"
  "HealthMetrics.byLevel (healthGaps m) = HealthMetrics.byLevel m"
  "HealthMetrics.byOwnership (healthGaps m) = HealthMetrics.byOwnership m"
  by (simp_all add: healthGaps_def)

lemma healthInitial_fields:
  "HealthMetrics.totalFacilities (healthInitial fs) = length fs"
  "HealthMetrics.byLevel (healthInitial fs) = Map.empty"
  "HealthMetrics.byOwnership (healthInitial fs) = Map.empty"
  "HealthMetrics.gaps (healthInitial fs) = []"
  "HealthInfrastructure.electricityPercentage (HealthMetrics.infrastructure (healthInitial fs)) = None"
  "HealthInfrastructure.waterPercentage (HealthMetrics.infrastructure (healthInitial fs)) = None"
  "ambulancePercentage (HealthMetrics.infrastructure (healthInitial fs)) = None"
  "maternityPercentage (HealthMetrics.infrastructure (healthInitial fs)) = None"
  "hivPercentage (services (healthInitial fs)) = None"
  "maternalPercentage (services (healthInitial fs)) = None"
  "childHealthPercentage (services (healthInitial fs)) = None"
  "immunizationPercentage (services (healthInitial fs)) = None"
  "HealthInfrastructure.withElectricity (HealthMetrics.infrastructure (healthInitial fs)) = 0"
  "HealthInfrastructure.withWater (HealthMetrics.infrastructure (healthInitial fs)) = 0"
  "withAmbulance (HealthMetrics.infrastructure (healthInitial fs)) = 0"
  "withMaternity (HealthMetrics.infrastructure (healthInitial fs)) = 0"
  "offeringHIV (services (healthInitial fs)) = 0"
  "offeringMaternal (services (healthInitial fs)) = 0"
  "offeringChildHealth (services (healthInitial fs)) = 0"
  "offeringImmunization (services (healthInitial fs)) = 0"
  by (simp_all add: healthInitial_def)

lemma calculateHealthMetrics_fields:
  "HealthMetrics.totalFacilities (calculateHealthMetrics fs loc) = length fs"
  "HealthMetrics.infrastructure (calculateHealthMetrics fs loc)
   = HealthMetrics.infrastructure (healthPercentages (foldl healthStep (healthInitial fs) fs))"
  "services (calculateHealthMetrics fs loc)
   = services (healthPercentages (foldl healthStep (healthInitial fs) fs))"
  "HealthMetrics.byLevel (calculateHealthMetrics fs loc)
   = HealthMetrics.byLevel (foldl healthStep (healthInitial fs) fs)"
  "HealthMetrics.byOwnership (calculateHealthMetrics fs loc)
   = HealthMetrics.byOwnership (foldl healthStep (healthInitial fs) fs)"
  by (simp_all add: calculateHealthMetrics_def healthGaps_fields healthPercentages_fields
      healthLoop_fields healthInitial_fields)

lemma calculateHealthMetrics_percentages:
  assumes "HealthMetrics.totalFacilities (calculateHealthMetrics fs loc) = 0"
  shows "HealthInfrastructure.electricityPercentage
           (HealthMetrics.infrastructure (calculateHealthMetrics fs loc)) = None
   \<and> HealthInfrastructure.waterPercentage
           (HealthMetrics.infrastructure (calculateHealthMetrics fs loc)) = None
   \<and> ambulancePercentage (HealthMetrics.infrastructure (calculateHealthMetrics fs loc)) = None
   \<and> maternityPercentage (HealthMetrics.infrastructure (calculateHealthMetrics fs loc)) = None
   \<and> hivPercentage (services (calculateHealthMetrics fs loc)) = None
   \<and> maternalPercentage (services (calculateHealthMetrics fs loc)) = None
   \<and> childHealthPercentage (services (calculateHealthMetrics fs loc)) = None
   \<and> immunizationPercentage (services (calculateHealthMetrics fs loc)) = None"
proof -
  have "HealthMetrics.totalFacilities (foldl healthStep (healthInitial fs) fs) = 0"
    using assms by (simp add: calculateHealthMetrics_fields healthLoop_fields healthInitial_fields)
  then show ?thesis
    by (simp add: calculateHealthMetrics_fields healthPercentages_none healthLoop_fields
        healthInitial_fields)
qed

text \<open>
  C3. For every facility list, in either category: when the aggregate counts no facility,
  it has no percentage field at all (each one is absent, not a number and not an error
  value); and in the education aggregate, when the sum of teachers is zero the ratios have
  no \<^verbatim>\<open>pupilTeacherRatio\<close>, and when the sum of classrooms is zero they have no
  \<^verbatim>\<open>pupilClassroomRatio\<close>.
\<close>

theorem percentages_and_ratios_guarded:
  "calculateMetrics fs loc ''education'' = EducationAggregate (calculateEducationMetrics fs loc)
   \<and> calculateMetrics fs loc ''health'' = HealthAggregate (calculateHealthMetrics fs loc)
   \<and> (totalFacilities (calculateEducationMetrics fs loc) = 0 \<longrightarrow>
        electricityPercentage (infrastructure (calculateEducationMetrics fs loc)) = None
        \<and> waterPercentage (infrastructure (calculateEducationMetrics fs loc)) = None
        \<and> ictLabPercentage (infrastructure (calculateEducationMetrics fs loc)) = None
        \<and> libraryPercentage (infrastructure (calculateEducationMetrics fs loc)) = None)
   \<and> (HealthMetrics.totalFacilities (calculateHealthMetrics fs loc) = 0 \<longrightarrow>
        HealthInfrastructure.electricityPercentage
          (HealthMetrics.infrastructure (calculateHealthMetrics fs loc)) = None
        \<and> HealthInfrastructure.waterPercentage
          (HealthMetrics.infrastructure (calculateHealthMetrics fs loc)) = None
        \<and> ambulancePercentage (HealthMetrics.infrastructure (calculateHealthMetrics fs loc)) = None
        \<and> maternityPercentage (HealthMetrics.infrastructure (calculateHealthMetrics fs loc)) = None
        \<and> hivPercentage (services (calculateHealthMetrics fs loc)) = None
        \<and> maternalPercentage (services (calculateHealthMetrics fs loc)) = None
        \<and> childHealthPercentage (services (calculateHealthMetrics fs loc)) = None
        \<and> immunizationPercentage (services (calculateHealthMetrics fs loc)) = None)
   \<and> (totalTeachers (enrollment (calculateEducationMetrics fs loc)) = Fin 0 \<longrightarrow>
        pupilTeacherRatio (ratios (calculateEducationMetrics fs loc)) = None)
   \<and> (totalClassrooms (enrollment (calculateEducationMetrics fs loc)) = Fin 0 \<longrightarrow>
        pupilClassroomRatio (ratios (calculateEducationMetrics fs loc)) = None)"
proof -
  have "calculateMetrics fs loc ''education'' = EducationAggregate (calculateEducationMetrics fs loc)"
    and "calculateMetrics fs loc ''health'' = HealthAggregate (calculateHealthMetrics fs loc)"
    by (simp_all add: calculateMetrics_def)
  then show ?thesis
    using calculateEducationMetrics_percentages [of fs loc]
      calculateHealthMetrics_percentages [of fs loc]
      calculateEducationMetrics_no_teachers [of fs loc]
      calculateEducationMetrics_no_classrooms [of fs loc]
    by blast
qed

theorem percentages_and_ratios_guarded_witness:
  "totalFacilities (calculateEducationMetrics [] noLocation) = 0
   \<and> electricityPercentage (infrastructure (calculateEducationMetrics [] noLocation)) = None
   \<and> libraryPercentage (infrastructure (calculateEducationMetrics [] noLocation)) = None
   \<and> HealthInfrastructure.electricityPercentage
        (HealthMetrics.infrastructure (calculateHealthMetrics [] noLocation)) = None
   \<and> immunizationPercentage (services (calculateHealthMetrics [] noLocation)) = None
   \<and> totalTeachers (enrollment (calculateEducationMetrics understaffed noLocation)) = Fin 0
   \<and> totalClassrooms (enrollment (calculateEducationMetrics understaffed noLocation)) = Fin 0
   \<and> ratios (calculateEducationMetrics understaffed noLocation)
       = \<lparr>pupilTeacherRatio = None, pupilClassroomRatio = None\<rparr>"
proof -
  have e: "totalFacilities (calculateEducationMetrics [] noLocation) = 0"
    and h: "HealthMetrics.totalFacilities (calculateHealthMetrics [] noLocation) = 0"
    by (simp_all add: calculateEducationMetrics_fields calculateHealthMetrics_fields)
  have t: "totalTeachers (enrollment (calculateEducationMetrics understaffed noLocation)) = Fin 0"
    and c: "totalClassrooms (enrollment (calculateEducationMetrics understaffed noLocation)) = Fin 0"
    unfolding understaffed_def by code_simp+
  have "r = \<lparr>pupilTeacherRatio = pupilTeacherRatio r, pupilClassroomRatio = pupilClassroomRatio r\<rparr>"
    for r :: Ratios by simp
  then show ?thesis
    using e h t c percentages_and_ratios_guarded [of "[]" noLocation]
      percentages_and_ratios_guarded [of understaffed noLocation]
    by metis
qed

text \<open>
  C7. For every facility list and every category that is neither \<^verbatim>\<open>health\<close> nor
  \<^verbatim>\<open>education\<close>, \<^verbatim>\<open>calculateMetrics\<close> returns the empty aggregate. It is a value of the
  function, not an error: the facilities are not even read.
\<close>

theorem calculateMetrics_unknown_category:
  "category \<noteq> ''education'' \<Longrightarrow> category \<noteq> ''health'' \<Longrightarrow>
   calculateMetrics fs loc category = EmptyAggregate"
  by (simp add: calculateMetrics_def)

theorem calculateMetrics_unknown_category_witness:
  "calculateMetrics [[''level'' \<mapsto> ''Primary'']] noLocation ''water'' = EmptyAggregate
   \<and> calculateMetrics [[''level'' \<mapsto> ''Primary'']] noLocation ''Education'' = EmptyAggregate
   \<and> calculateMetrics [] noLocation [] = EmptyAggregate"
  using calculateMetrics_unknown_category [of "''water''" "[[''level'' \<mapsto> ''Primary'']]" noLocation]
    calculateMetrics_unknown_category [of "''Education''" "[[''level'' \<mapsto> ''Primary'']]" noLocation]
    calculateMetrics_unknown_category [of "[]" "[]" noLocation]
  by simp

section \<open>Schools without teachers\<close>

lemma jslt_NaN: "\<not> jslt x NaN"
  by (cases x) simp_all

lemma enrollmentStep_teachers:
  "totalTeachers (enrollmentStep f e)
   = (if jsgt (teachersOf f) (Fin 0) then jsadd (totalTeachers e) (teachersOf f)
      else totalTeachers e)"
  by (simp add: enrollmentStep_def Let_def)

lemma educationLoop_no_teachers:
  "\<forall>f\<in>set fs. \<not> jsgt (teachersOf f) (Fin 0) \<Longrightarrow>
   totalTeachers (enrollment (foldl educationStep m fs)) = totalTeachers (enrollment m)"
  by (induction fs arbitrary: m) (simp_all add: educationStep_fields enrollmentStep_teachers)

lemma educationTeacherGap_absent:
  "pupilTeacherRatio (ratios m) = None \<Longrightarrow> educationTeacherGap m = m"
  by (simp add: educationTeacherGap_def toNumber_def jsgt_def jslt_NaN)

lemma educationElectricityGap_types:
  "g \<in> set (gaps (educationElectricityGap m)) \<Longrightarrow> g \<in> set (gaps m) \<or> gap_type g = ''electricity''"
  by (auto simp: educationElectricityGap_def split: if_splits)

text \<open>
  C10. For every education facility list in which no record yields a positive teacher
  count, the sum of teachers is zero, the aggregate has no \<^verbatim>\<open>pupilTeacherRatio\<close>, and no
  gap of type \<^verbatim>\<open>pupil_teacher_ratio\<close> is reported: the comparison of an absent ratio with the
  benchmark is false.
\<close>

theorem no_teachers_no_ratio_gap:
  assumes "\<forall>f\<in>set fs. \<not> jsgt (teachersOf f) (Fin 0)"
  shows "totalTeachers (enrollment (calculateEducationMetrics fs loc)) = Fin 0
         \<and> pupilTeacherRatio (ratios (calculateEducationMetrics fs loc)) = None
         \<and> (\<forall>g\<in>set (gaps (calculateEducationMetrics fs loc)). gap_type g \<noteq> ''pupil_teacher_ratio'')"
proof -
  let ?loop = "foldl educationStep (educationInitial fs) fs"
  have t: "totalTeachers (enrollment (calculateEducationMetrics fs loc)) = Fin 0"
    using educationLoop_no_teachers [OF assms, of "educationInitial fs"]
    by (simp add: calculateEducationMetrics_fields educationInitial_fields)
  then have r: "pupilTeacherRatio (ratios (calculateEducationMetrics fs loc)) = None"
    by (rule calculateEducationMetrics_no_teachers)
  then have "pupilTeacherRatio (ratios (educationElectricityGap (educationRatios
               (educationPercentages ?loop)))) = None"
    by (simp add: calculateEducationMetrics_fields educationElectricityGap_fields)
  then have g: "gaps (calculateEducationMetrics fs loc)
                = gaps (educationElectricityGap (educationRatios (educationPercentages ?loop)))"
    by (simp add: calculateEducationMetrics_fields educationTeacherGap_absent)
  have "gaps (educationRatios (educationPercentages ?loop)) = []"
    by (simp add: educationRatios_fields educationPercentages_fields educationLoop_fields
        educationInitial_fields)
  then have "gap_type x = ''electricity''" if "x \<in> set (gaps (calculateEducationMetrics fs loc))" for x
    using that educationElectricityGap_types [of x "educationRatios (educationPercentages ?loop)"]
    unfolding g by simp
  then have "\<forall>x\<in>set (gaps (calculateEducationMetrics fs loc)). gap_type x \<noteq> ''pupil_teacher_ratio''"
    by auto
  with t r show ?thesis by blast
qed

lemma understaffed_teachers: "\<forall>f\<in>set understaffed. \<not> jsgt (teachersOf f) (Fin 0)"
  by (simp add: understaffed_def teachersOf_def parseNumber_def parseFloat_def parseUnsigned_def
      jsOr_def truthy_def jsgt_def trimStart_def isWhiteSpace_def isDigit_def Let_def
      digitsValue_def power10_def exponentOf_def roundDouble_def)

theorem no_teachers_no_ratio_gap_witness:
  "totalTeachers (enrollment (calculateEducationMetrics understaffed noLocation)) = Fin 0
   \<and> pupilTeacherRatio (ratios (calculateEducationMetrics understaffed noLocation)) = None
   \<and> map gap_type (gaps (calculateEducationMetrics understaffed noLocation)) = [''electricity'']"
proof -
  have "map gap_type (gaps (calculateEducationMetrics understaffed noLocation)) = [''electricity'']"
    unfolding understaffed_def by code_simp
  then show ?thesis
    using no_teachers_no_ratio_gap [OF understaffed_teachers, of noLocation] by simp
qed

section \<open>The breakdown by subcounty\<close>

lemma keys_pushFacility_old: "k \<in> set (map fst G) \<Longrightarrow> map fst (pushFacility k f G) = map fst G"
  by (induction G) force+

lemma keys_pushFacility_new:
  "k \<notin> set (map fst G) \<Longrightarrow> map fst (pushFacility k f G) = map fst G @ [k]"
  by (induction G) auto

lemma keys_pushFacility:
  "map fst (pushFacility k f G) = (if k \<in> set (map fst G) then map fst G else map fst G @ [k])"
  by (simp add: keys_pushFacility_old keys_pushFacility_new)

lemma set_keys_pushFacility: "set (map fst (pushFacility k f G)) = insert k (set (map fst G))"
  unfolding keys_pushFacility by auto

lemma distinct_pushFacility:
  "distinct (map fst G) \<Longrightarrow> distinct (map fst (pushFacility k f G))"
  by (simp add: keys_pushFacility)

lemma map_of_pushFacility:
  "map_of (pushFacility k f G)
   = (map_of G)(k \<mapsto> (case map_of G k of None \<Rightarrow> [] | Some fs \<Rightarrow> fs) @ [f])"
  by (induction G) (auto simp: fun_eq_iff)

lemma total_pushFacility:
  "sum_list (map (\<lambda>sc. length (snd sc)) (pushFacility k f G))
   = Suc (sum_list (map (\<lambda>sc. length (snd sc)) G))"
  by (induction G) auto

lemma groupsOf_simps:
  "groupsOf G [] = G"
  "groupsOf G (f # fs) = groupsOf (pushFacility (subcountyOf f) f G) fs"
  by (simp_all add: groupsOf_def)

lemma distinct_groupsOf: "distinct (map fst G) \<Longrightarrow> distinct (map fst (groupsOf G fs))"
  by (induction fs arbitrary: G) (simp_all add: groupsOf_simps distinct_pushFacility)

lemma keys_groupsOf: "set (map fst (groupsOf G fs)) = set (map fst G) \<union> subcountyOf ` set fs"
proof (induction fs arbitrary: G)
  case Nil
  then show ?case by (simp add: groupsOf_simps)
next
  case (Cons f fs)
  show ?case
    unfolding groupsOf_simps Cons.IH set_keys_pushFacility by auto
qed

lemma total_groupsOf:
  "sum_list (map (\<lambda>sc. length (snd sc)) (groupsOf G fs))
   = sum_list (map (\<lambda>sc. length (snd sc)) G) + length fs"
  by (induction fs arbitrary: G) (simp_all add: groupsOf_simps total_pushFacility)

lemma map_of_groupsOf:
  "map_of (groupsOf G fs) k
   = (if k \<in> subcountyOf ` set fs
      then Some ((case map_of G k of None \<Rightarrow> [] | Some g \<Rightarrow> g) @ filter (\<lambda>f. subcountyOf f = k) fs)
      else map_of G k)"
proof (induction fs arbitrary: G)
  case Nil
  then show ?case by (simp add: groupsOf_simps)
next
  case (Cons f fs)
  have none: "filter (\<lambda>x. subcountyOf x = k) fs = []" if "k \<notin> subcountyOf ` set fs"
    using that by (auto simp: filter_empty_conv)
  show ?case
    unfolding groupsOf_simps Cons.IH map_of_pushFacility
    by (auto split: option.splits simp: none)
qed

lemma groupBySubcounty_groups:
  "distinct (map fst (groupBySubcounty fs))"
  "set (map fst (groupBySubcounty fs)) = subcountyOf ` set fs"
  "sum_list (map (\<lambda>sc. length (snd sc)) (groupBySubcounty fs)) = length fs"
  "(k, g) \<in> set (groupBySubcounty fs) \<Longrightarrow> g = filter (\<lambda>f. subcountyOf f = k) fs"
proof -
  have G: "groupBySubcounty fs = groupsOf [] fs"
    by (simp add: groupBySubcounty_def groupsOf_def)
  show d: "distinct (map fst (groupBySubcounty fs))"
    unfolding G by (rule distinct_groupsOf) simp
  show "set (map fst (groupBySubcounty fs)) = subcountyOf ` set fs"
    unfolding G keys_groupsOf by simp
  show "sum_list (map (\<lambda>sc. length (snd sc)) (groupBySubcounty fs)) = length fs"
    unfolding G total_groupsOf by simp
  assume "(k, g) \<in> set (groupBySubcounty fs)"
  with d have "map_of (groupBySubcounty fs) k = Some g" by simp
  then show "g = filter (\<lambda>f. subcountyOf f = k) fs"
    unfolding G map_of_groupsOf by (simp split: if_splits)
qed

text \<open>The stable insertion sort keeps the elements and orders them by the comparison.\<close>

lemma set_insertSorted: "set (insertSorted c x ys) = insert x (set ys)"
  by (induction ys) auto

lemma set_sortBy: "set (sortBy c xs) = set xs"
  by (induction xs) (simp_all add: sortBy_def set_insertSorted)

lemma map_insertSorted_set: "set (map h (insertSorted c x ys)) = insert (h x) (set (map h ys))"
  by (simp add: set_insertSorted)

lemma distinct_map_insertSorted:
  "distinct (map h (insertSorted c x ys)) = (h x \<notin> set (map h ys) \<and> distinct (map h ys))"
  by (induction ys) (auto simp: set_insertSorted)

lemma distinct_map_sortBy: "distinct (map h (sortBy c xs)) = distinct (map h xs)"
proof (induction xs)
  case Nil
  then show ?case by (simp add: sortBy_def)
next
  case (Cons x xs)
  have s: "sortBy c (x # xs) = insertSorted c x (sortBy c xs)" by (simp add: sortBy_def)
  show ?case
    unfolding s distinct_map_insertSorted using Cons.IH set_sortBy [of c xs] by simp
qed

lemma sum_insertSorted: "sum_list (map g (insertSorted c x ys)) = g x + sum_list (map g ys)"
  for g :: "'a \<Rightarrow> nat"
  by (induction ys) auto

lemma sum_sortBy: "sum_list (map g (sortBy c xs)) = sum_list (map g xs)" for g :: "'a \<Rightarrow> nat"
  by (induction xs) (simp_all add: sortBy_def sum_insertSorted)

lemma sorted_insertSorted:
  "sorted_wrt (\<lambda>a b. g b \<le> g a) ys \<Longrightarrow>
   sorted_wrt (\<lambda>a b. g b \<le> g a) (insertSorted (\<lambda>a b. int (g b) - int (g a)) x ys)"
  for g :: "'a \<Rightarrow> nat"
  by (induction ys) (auto simp: set_insertSorted)

lemma sorted_sortBy:
  "sorted_wrt (\<lambda>a b. g b \<le> g a) (sortBy (\<lambda>a b. int (g b) - int (g a)) xs)" for g :: "'a \<Rightarrow> nat"
  by (induction xs) (simp_all add: sortBy_def sorted_insertSorted)

lemma breakdownEntry_fields:
  "location (breakdownEntry sc) = fst sc" "facilityCount (breakdownEntry sc) = length (snd sc)"
  by (simp_all add: breakdownEntry_def)

text \<open>
  C8. For every facility list, the breakdown has exactly one entry for each distinct
  subcounty label of the list (the label \<^verbatim>\<open>Unknown\<close> for a record without one); the
  \<^verbatim>\<open>facilityCount\<close> of an entry is the number of records of the list with its label; the
  counts of all entries add up to the length of the list; and the entries come in descending
  order of \<^verbatim>\<open>facilityCount\<close>.
\<close>

theorem getSubcountyBreakdown_groups:
  "distinct (map location (getSubcountyBreakdown fs metric))
   \<and> set (map location (getSubcountyBreakdown fs metric)) = subcountyOf ` set fs
   \<and> (\<forall>e\<in>set (getSubcountyBreakdown fs metric).
         facilityCount e = length (filter (\<lambda>f. subcountyOf f = location e) fs))
   \<and> sum_list (map facilityCount (getSubcountyBreakdown fs metric)) = length fs
   \<and> sorted_wrt (\<lambda>a b. facilityCount b \<le> facilityCount a) (getSubcountyBreakdown fs metric)"
proof -
  let ?G = "groupBySubcounty fs"
  let ?E = "map breakdownEntry ?G"
  let ?c = "\<lambda>a b. int (facilityCount b) - int (facilityCount a)"
  have out: "getSubcountyBreakdown fs metric = sortBy ?c ?E"
    by (simp add: getSubcountyBreakdown_def)
  have loc: "map location ?E = map fst ?G"
    by (simp add: breakdownEntry_fields comp_def)
  have cnt: "map facilityCount ?E = map (\<lambda>sc. length (snd sc)) ?G"
    by (simp add: breakdownEntry_fields comp_def)
  have 1: "distinct (map location (getSubcountyBreakdown fs metric))"
    unfolding out distinct_map_sortBy loc by (rule groupBySubcounty_groups(1))
  have 2: "set (map location (getSubcountyBreakdown fs metric)) = subcountyOf ` set fs"
    using groupBySubcounty_groups(2) [of fs] loc
    by (metis out set_map set_sortBy)
  have 3: "facilityCount e = length (filter (\<lambda>f. subcountyOf f = location e) fs)"
    if "e \<in> set (getSubcountyBreakdown fs metric)" for e
  proof -
    from that have "e \<in> set ?E" unfolding out set_sortBy .
    then obtain k g where kg: "(k, g) \<in> set ?G" and e: "e = breakdownEntry (k, g)" by auto
    from groupBySubcounty_groups(4) [OF kg] e show ?thesis
      by (simp add: breakdownEntry_fields)
  qed
  have 4: "sum_list (map facilityCount (getSubcountyBreakdown fs metric)) = length fs"
    unfolding out sum_sortBy cnt by (rule groupBySubcounty_groups(3))
  have 5: "sorted_wrt (\<lambda>a b. facilityCount b \<le> facilityCount a) (getSubcountyBreakdown fs metric)"
    unfolding out by (rule sorted_sortBy)
  from 1 2 3 4 5 show ?thesis by blast
qed

theorem getSubcountyBreakdown_groups_witness:
  "map (\<lambda>e. (location e, facilityCount e)) (getSubcountyBreakdown schools ''teachers'')
     = [(''Busaana'', 2), (''Kayunga Town Council'', 1), (''Unknown'', 1)]
   \<and> sum_list (map facilityCount (getSubcountyBreakdown schools ''teachers'')) = 4
   \<and> subcountyOf ` set schools = {''Busaana'', ''Kayunga Town Council'', ''Unknown''}"
proof -
  have ev: "map (\<lambda>e. (location e, facilityCount e)) (getSubcountyBreakdown schools ''teachers'')
     = [(''Busaana'', 2), (''Kayunga Town Council'', 1), (''Unknown'', 1)]"
    unfolding schools_def by code_simp
  have ml: "map location xs = map fst (map (\<lambda>e. (location e, facilityCount e)) xs)"
    for xs :: "BreakdownEntry list"
    by (simp add: comp_def)
  have "map location (getSubcountyBreakdown schools ''teachers'')
     = [''Busaana'', ''Kayunga Town Council'', ''Unknown'']"
    unfolding ml [of "getSubcountyBreakdown schools ''teachers''"] ev by simp
  moreover have "length schools = 4" by (simp add: schools_def)
  ultimately show ?thesis
    using ev getSubcountyBreakdown_groups [of schools "''teachers''"] by auto
qed

section \<open>Counters and label counts of an aggregate\<close>

text \<open>
  The sum of the counts held by a label object, and what increments do to it when no label
  is a name that plain objects inherit.
\<close>

lemma labelTotal_empty: "labelTotal Map.empty = 0"
  by (simp add: labelTotal_def)

lemma labelTotal_update:
  assumes "finite (dom obj)"
  shows "labelTotal (obj(k \<mapsto> v)) + (case obj k of None \<Rightarrow> 0 | Some w \<Rightarrow> countOf w)
         = countOf v + labelTotal obj"
proof -
  let ?g = "\<lambda>x. countOf (the (obj x))"
  let ?g' = "\<lambda>x. countOf (the ((obj(k \<mapsto> v)) x))"
  have d: "dom (obj(k \<mapsto> v)) = insert k (dom obj)" by simp
  have 1: "labelTotal (obj(k \<mapsto> v)) = sum ?g' (insert k (dom obj))"
    unfolding labelTotal_def d ..
  have 2: "sum ?g' (insert k (dom obj)) = ?g' k + sum ?g' (dom obj - {k})"
    using assms by (rule sum.insert_remove)
  have 3: "sum ?g' (dom obj - {k}) = sum ?g (dom obj - {k})"
    by (rule sum.cong) auto
  have 4: "?g' k = countOf v" by simp
  have new: "labelTotal (obj(k \<mapsto> v)) = countOf v + sum ?g (dom obj - {k})"
    unfolding 1 2 3 4 ..
  show ?thesis
  proof (cases "obj k")
    case None
    then have "dom obj - {k} = dom obj" by auto
    with new None show ?thesis by (simp add: labelTotal_def)
  next
    case (Some w)
    then have "k \<in> dom obj" by auto
    with assms have "sum ?g (dom obj) = ?g k + sum ?g (dom obj - {k})"
      by (rule sum.remove)
    with new Some show ?thesis by (simp add: labelTotal_def)
  qed
qed

lemma inheritedText_proto: "inheritedText k = None \<Longrightarrow> k \<noteq> ''__proto__''"
  by (auto simp: inheritedText_def)

lemma increment_clean:
  assumes fin: "finite (dom obj)" and num: "numbersOnly obj" and clean: "inheritedText k = None"
  shows "finite (dom (increment obj k)) \<and> numbersOnly (increment obj k)
         \<and> labelTotal (increment obj k) = labelTotal obj + 1"
proof (cases "obj k")
  case None
  then have inc: "increment obj k = obj(k \<mapsto> Num 1)"
    using clean inheritedText_proto [OF clean] by (simp add: increment_def setProp_def)
  have "labelTotal (obj(k \<mapsto> Num 1)) = labelTotal obj + 1"
    using labelTotal_update [OF fin, of k "Num 1"] None by (simp add: countOf_def)
  moreover have "numbersOnly (obj(k \<mapsto> Num 1))"
    using num by (auto simp: numbersOnly_def)
  ultimately show ?thesis using fin unfolding inc by simp
next
  case (Some w)
  with num obtain n where w: "w = Num n" by (auto simp: numbersOnly_def)
  have inc: "increment obj k = obj(k \<mapsto> Num (n + 1))"
    using Some w inheritedText_proto [OF clean] by (simp add: increment_def setProp_def)
  have "labelTotal (obj(k \<mapsto> Num (n + 1))) = labelTotal obj + 1"
    using labelTotal_update [OF fin, of k "Num (n + 1)"] Some w by (simp add: countOf_def)
  moreover have "numbersOnly (obj(k \<mapsto> Num (n + 1)))"
    using num by (auto simp: numbersOnly_def)
  ultimately show ?thesis using fin unfolding inc by simp
qed

lemma increment_all_clean:
  assumes "finite (dom obj)" "numbersOnly obj" "\<forall>k\<in>set ks. inheritedText k = None"
  shows "finite (dom (foldl increment obj ks)) \<and> numbersOnly (foldl increment obj ks)
         \<and> labelTotal (foldl increment obj ks) = labelTotal obj + length ks"
  using assms
proof (induction ks arbitrary: obj)
  case Nil
  then show ?case by simp
next
  case (Cons k ks)
  from Cons.prems have c: "inheritedText k = None" by simp
  note s = increment_clean [OF Cons.prems(1,2) c]
  from Cons.prems(3) have "\<forall>k\<in>set ks. inheritedText k = None" by simp
  from Cons.IH [OF _ _ this, of "increment obj k"] s show ?case by simp
qed

lemma educationLoop_labels:
  "byLevel (foldl educationStep m fs) = foldl increment (byLevel m) (map levelOf fs)"
  "byOwnership (foldl educationStep m fs) = foldl increment (byOwnership m) (map ownershipOf fs)"
  by (induction fs arbitrary: m) (simp_all add: educationStep_fields)

lemma healthLoop_labels:
  "HealthMetrics.byLevel (foldl healthStep m fs)
   = foldl increment (HealthMetrics.byLevel m) (map healthLevelOf fs)"
  "HealthMetrics.byOwnership (foldl healthStep m fs)
   = foldl increment (HealthMetrics.byOwnership m) (map healthOwnershipOf fs)"
  by (induction fs arbitrary: m) (simp_all add: healthStep_fields)

lemma numbersOnly_empty: "numbersOnly Map.empty"
  by (simp add: numbersOnly_def)

text \<open>
  For facility lists none of whose labels is an inherited name, the label counts of either
  breakdown are numbers and add up to the number of facilities.
\<close>

lemma education_labels_sum:
  assumes "\<forall>f\<in>set fs. inheritedText (levelOf f) = None \<and> inheritedText (ownershipOf f) = None"
  shows "labelTotal (byLevel (calculateEducationMetrics fs loc)) = length fs
         \<and> numbersOnly (byLevel (calculateEducationMetrics fs loc))
         \<and> labelTotal (byOwnership (calculateEducationMetrics fs loc)) = length fs
         \<and> numbersOnly (byOwnership (calculateEducationMetrics fs loc))"
proof -
  have l: "\<forall>k\<in>set (map levelOf fs). inheritedText k = None"
    and o: "\<forall>k\<in>set (map ownershipOf fs). inheritedText k = None"
    using assms by auto
  show ?thesis
    using increment_all_clean [OF _ numbersOnly_empty l] increment_all_clean [OF _ numbersOnly_empty o]
    by (simp add: calculateEducationMetrics_fields educationLoop_labels educationInitial_fields
        labelTotal_empty)
qed

lemma health_labels_sum:
  assumes "\<forall>f\<in>set fs. inheritedText (healthLevelOf f) = None
             \<and> inheritedText (healthOwnershipOf f) = None"
  shows "labelTotal (HealthMetrics.byLevel (calculateHealthMetrics fs loc)) = length fs
         \<and> numbersOnly (HealthMetrics.byLevel (calculateHealthMetrics fs loc))
         \<and> labelTotal (HealthMetrics.byOwnership (calculateHealthMetrics fs loc)) = length fs
         \<and> numbersOnly (HealthMetrics.byOwnership (calculateHealthMetrics fs loc))"
proof -
  have l: "\<forall>k\<in>set (map healthLevelOf fs). inheritedText k = None"
    and o: "\<forall>k\<in>set (map healthOwnershipOf fs). inheritedText k = None"
    using assms by auto
  show ?thesis
    using increment_all_clean [OF _ numbersOnly_empty l] increment_all_clean [OF _ numbersOnly_empty o]
    by (simp add: calculateHealthMetrics_fields healthLoop_labels healthInitial_fields
        labelTotal_empty)
qed

text \<open>For every facility list, each presence counter is at most the number of facilities.\<close>

lemma educationInfrastructureStep_counts:
  "withElectricity (educationInfrastructureStep f i) \<le> Suc (withElectricity i)"
  "withWater (educationInfrastructureStep f i) \<le> Suc (withWater i)"
  "withICTLab (educationInfrastructureStep f i) \<le> Suc (withICTLab i)"
  "withLibrary (educationInfrastructureStep f i) \<le> Suc (withLibrary i)"
  by (simp_all add: educationInfrastructureStep_def Let_def)

lemma loop_count_bound:
  assumes step: "\<And>m f. c (stp m f) \<le> c m + (1::nat)"
  shows "c (foldl stp m fs) \<le> c m + length fs"
proof (induction fs arbitrary: m)
  case Nil
  then show ?case by simp
next
  case (Cons f fs)
  from Cons.IH [of "stp m f"] step [of m f] show ?case by simp
qed

lemma educationLoop_counts:
  "withElectricity (infrastructure (foldl educationStep m fs))
   \<le> withElectricity (infrastructure m) + length fs"
  "withWater (infrastructure (foldl educationStep m fs)) \<le> withWater (infrastructure m) + length fs"
  "withICTLab (infrastructure (foldl educationStep m fs)) \<le> withICTLab (infrastructure m) + length fs"
  "withLibrary (infrastructure (foldl educationStep m fs)) \<le> withLibrary (infrastructure m) + length fs"
  by (rule loop_count_bound, simp add: educationStep_fields educationInfrastructureStep_counts)+

lemma educationPercentages_counts:
  "withElectricity (infrastructure (educationPercentages m)) = withElectricity (infrastructure m)"
  "withWater (infrastructure (educationPercentages m)) = withWater (infrastructure m)"
  "withICTLab (infrastructure (educationPercentages m)) = withICTLab (infrastructure m)"
  "withLibrary (infrastructure (educationPercentages m)) = withLibrary (infrastructure m)"
  by (simp_all add: educationPercentages_def)

lemma education_counts_bounded:
  "totalFacilities (calculateEducationMetrics fs loc) = length fs
   \<and> withElectricity (infrastructure (calculateEducationMetrics fs loc)) \<le> length fs
   \<and> withWater (infrastructure (calculateEducationMetrics fs loc)) \<le> length fs
   \<and> withICTLab (infrastructure (calculateEducationMetrics fs loc)) \<le> length fs
   \<and> withLibrary (infrastructure (calculateEducationMetrics fs loc)) \<le> length fs"
  using educationLoop_counts [of "educationInitial fs" fs]
  by (simp add: calculateEducationMetrics_fields educationPercentages_counts educationInitial_fields)

lemma healthInfrastructureStep_counts:
  "HealthInfrastructure.withElectricity (healthInfrastructureStep f i)
   \<le> Suc (HealthInfrastructure.withElectricity i)"
  "HealthInfrastructure.withWater (healthInfrastructureStep f i) \<le> Suc (HealthInfrastructure.withWater i)"
  "withAmbulance (healthInfrastructureStep f i) \<le> Suc (withAmbulance i)"
  "withMaternity (healthInfrastructureStep f i) \<le> Suc (withMaternity i)"
  by (simp_all add: healthInfrastructureStep_def Let_def)

lemma healthServicesStep_counts:
  "offeringHIV (healthServicesStep f s) \<le> Suc (offeringHIV s)"
  "offeringMaternal (healthServicesStep f s) \<le> Suc (offeringMaternal s)"
  "offeringChildHealth (healthServicesStep f s) \<le> Suc (offeringChildHealth s)"
  "offeringImmunization (healthServicesStep f s) \<le> Suc (offeringImmunization s)"
  by (simp_all add: healthServicesStep_def Let_def)

lemma healthLoop_counts:
  "HealthInfrastructure.withElectricity (HealthMetrics.infrastructure (foldl healthStep m fs))
   \<le> HealthInfrastructure.withElectricity (HealthMetrics.infrastructure m) + length fs"
  "HealthInfrastructure.withWater (HealthMetrics.infrastructure (foldl healthStep m fs))
   \<le> HealthInfrastructure.withWater (HealthMetrics.infrastructure m) + length fs"
  "withAmbulance (HealthMetrics.infrastructure (foldl healthStep m fs))
   \<le> withAmbulance (HealthMetrics.infrastructure m) + length fs"
  "withMaternity (HealthMetrics.infrastructure (foldl healthStep m fs))
   \<le> withMaternity (HealthMetrics.infrastructure m) + length fs"
  "offeringHIV (services (foldl healthStep m fs)) \<le> offeringHIV (services m) + length fs"
  "offeringMaternal (services (foldl healthStep m fs)) \<le> offeringMaternal (services m) + length fs"
  "offeringChildHealth (services (foldl healthStep m fs))
   \<le> offeringChildHealth (services m) + length fs"
  "offeringImmunization (services (foldl healthStep m fs))
   \<le> offeringImmunization (services m) + length fs"
  by (rule loop_count_bound,
      simp add: healthStep_fields healthInfrastructureStep_counts healthServicesStep_counts)+

lemma healthPercentages_counts:
  "HealthInfrastructure.withElectricity (HealthMetrics.infrastructure (healthPercentages m))
   = HealthInfrastructure.withElectricity (HealthMetrics.infrastructure m)"
  "HealthInfrastructure.withWater (HealthMetrics.infrastructure (healthPercentages m))
   = HealthInfrastructure.withWater (HealthMetrics.infrastructure m)"
  "withAmbulance (HealthMetrics.infrastructure (healthPercentages m))
   = withAmbulance (HealthMetrics.infrastructure m)"
  "withMaternity (HealthMetrics.infrastructure (healthPercentages m))
   = withMaternity (HealthMetrics.infrastructure m)"
  "offeringHIV (services (healthPercentages m)) = offeringHIV (services m)"
  "offeringMaternal (services (healthPercentages m)) = offeringMaternal (services m)"
  "offeringChildHealth (services (healthPercentages m)) = offeringChildHealth (services m)"
  "offeringImmunization (services (healthPercentages m)) = offeringImmunization (services m)"
  by (simp_all add: healthPercentages_def)

lemma health_counts_bounded:
  "HealthMetrics.totalFacilities (calculateHealthMetrics fs loc) = length fs
   \<and> HealthInfrastructure.withElectricity (HealthMetrics.infrastructure (calculateHealthMetrics fs loc))
       \<le> length fs
   \<and> HealthInfrastructure.withWater (HealthMetrics.infrastructure (calculateHealthMetrics fs loc))
       \<le> length fs
   \<and> withAmbulance (HealthMetrics.infrastructure (calculateHealthMetrics fs loc)) \<le> length fs
   \<and> withMaternity (HealthMetrics.infrastructure (calculateHealthMetrics fs loc)) \<le> length fs
   \<and> offeringHIV (services (calculateHealthMetrics fs loc)) \<le> length fs
   \<and> offeringMaternal (services (calculateHealthMetrics fs loc)) \<le> length fs
   \<and> offeringChildHealth (services (calculateHealthMetrics fs loc)) \<le> length fs
   \<and> offeringImmunization (services (calculateHealthMetrics fs loc)) \<le> length fs"
  using healthLoop_counts [of "healthInitial fs" fs]
  by (simp add: calculateHealthMetrics_fields healthPercentages_counts healthInitial_fields)

text \<open>
  C9 at a list where it fails, in both categories: one facility whose level reads
  \<^verbatim>\<open>constructor\<close>. The aggregate counts one facility, but \<^verbatim>\<open>byLevel\<close> holds no number for
  the label: reading \<^verbatim>\<open>byLevel['constructor']\<close> on the fresh object yields the inherited
  function \<^verbatim>\<open>Object\<close>, and adding 1 to it yields a string. The counts of \<^verbatim>\<open>byLevel\<close> then
  add up to 0, not to 1.
\<close>

theorem inherited_label_not_counted:
  "totalFacilities (calculateEducationMetrics [[''level'' \<mapsto> ''constructor'']] noLocation) = 1
   \<and> byLevel (calculateEducationMetrics [[''level'' \<mapsto> ''constructor'']] noLocation)
       = [''constructor'' \<mapsto> Str ''function Object() { [native code] }1'']
   \<and> labelTotal (byLevel (calculateEducationMetrics [[''level'' \<mapsto> ''constructor'']] noLocation)) = 0
   \<and> HealthMetrics.totalFacilities
        (calculateHealthMetrics [[''level'' \<mapsto> ''constructor'']] noLocation) = 1
   \<and> HealthMetrics.byLevel (calculateHealthMetrics [[''level'' \<mapsto> ''constructor'']] noLocation)
       = [''constructor'' \<mapsto> Str ''function Object() { [native code] }1'']
   \<and> labelTotal (HealthMetrics.byLevel
        (calculateHealthMetrics [[''level'' \<mapsto> ''constructor'']] noLocation)) = 0"
proof -
  have l: "levelOf [''level'' \<mapsto> ''constructor''] = ''constructor''"
    "healthLevelOf [''level'' \<mapsto> ''constructor''] = ''constructor''"
    by (simp_all add: levelOf_def healthLevelOf_def orElse_def jsOr_def truthy_def)
  have i: "increment Map.empty ''constructor''
           = [''constructor'' \<mapsto> Str ''function Object() { [native code] }1'']"
    by (simp add: increment_def inheritedText_def setProp_def)
  have t: "labelTotal [''constructor'' \<mapsto> Str ''function Object() { [native code] }1''] = 0"
    by (simp add: labelTotal_def countOf_def)
  show ?thesis
    by (simp add: calculateEducationMetrics_fields calculateHealthMetrics_fields
        educationStep_fields healthStep_fields educationInitial_fields healthInitial_fields l i t)
qed
end
